theory Spec2Isabelle
  imports Complex_Main "HOL-Library.Word" "HOL-Library.Monad_Syntax"
begin

unbundle bit_operations_syntax

section \<open>The c\_class object model: data\<close>

text \<open>
  The repository holds successive iterations of one C program. The development follows
  the last and most complete one (the second file of \<^verbatim>\<open>part_001\<close>, with constructor,
  destructor and binary member functions). The creation routines of two earlier
  iterations (\<^verbatim>\<open>main.c\<close> and \<^verbatim>\<open>part_000\<close>), which store the pointers of the
  caller's arrays in the instance instead of copying the elements, are embedded in a
  section of their own.

  Conventions of the embedding:
  \<^item> a C pointer is a value of \<open>'a ptr\<close>: \<open>NULL\<close>, or \<open>Ptr\<close> of an address;
  \<^item> \<open>char*\<close> names always point to string constants in the source, so a name is
    modelled by the text it points to (\<open>string ptr\<close>);
  \<^item> \<open>size_t\<close> is a 64-bit word, enumerations are 32-bit words holding the
    enumerator's number, so that an uninitialised field may hold any number;
  \<^item> every routine that dereferences a pointer returns an \<open>option\<close>: \<open>None\<close> stands
    for undefined behaviour (a read or write through a null, dangling or out-of-range
    pointer, a call through a pointer that is no callable, a double free).
\<close>

datatype 'a ptr = NULL | Ptr 'a

type_synonym size_t = "64 word"
type_synonym addr = nat

text \<open>A pointer to an array element: the block's address and the element's offset.\<close>
type_synonym ref = "addr \<times> nat"

text \<open>The address of a function of the program (\<^verbatim>\<open>void (*fn)(const Class*)\<close> and
  \<^verbatim>\<open>Class* (*binary_member_fn)(const Class*, const Class*)\<close>).\<close>
type_synonym fn_ptr = nat

type_synonym MemberType = "32 word"

definition MEMBER_TYPE_F32 :: MemberType where "MEMBER_TYPE_F32 = 0"
definition MEMBER_TYPE_F64 :: MemberType where "MEMBER_TYPE_F64 = 1"
definition MEMBER_TYPE_I32 :: MemberType where "MEMBER_TYPE_I32 = 2"
definition MEMBER_TYPE_U32 :: MemberType where "MEMBER_TYPE_U32 = 3"

text \<open>\<^verbatim>\<open>union MemberData\<close>: eight bytes of storage without a tag. The views
  \<^verbatim>\<open>f_data\<close>, \<^verbatim>\<open>i_data\<close> and \<^verbatim>\<open>u_data\<close> are the low four bytes (little endian),
  \<^verbatim>\<open>d_data\<close> is all eight; a \<^verbatim>\<open>float\<close> is its IEEE 754 binary32 bit pattern.\<close>
type_synonym MemberData = "64 word"

definition f_data :: "MemberData \<Rightarrow> 32 word" where
  "f_data d = ucast d"

definition set_f_data :: "32 word \<Rightarrow> MemberData \<Rightarrow> MemberData" where
  "set_f_data v d = (d AND NOT (mask 32)) OR ucast v"

subsection \<open>The type \<^verbatim>\<open>float\<close>\<close>

text \<open>
  A \<^verbatim>\<open>float\<close> is an IEEE 754 binary32 value, held as its 32 bits: sign (bit 31),
  exponent field (bits 30 to 23) and fraction (bits 22 to 0). A finite value is
  \<open>\<plusminus> significand * 2 ^ scale / 2 ^ 149\<close>. Addition is the exact sum rounded to the
  nearest value, ties to the even significand (the default rounding mode); a NaN
  operand comes back quieted and the sum of opposite infinities is the default NaN of
  the x86-64 instruction set.
\<close>

definition f32_sign :: "32 word \<Rightarrow> bool" where
  "f32_sign x = bit x 31"

definition f32_exponent :: "32 word \<Rightarrow> nat" where
  "f32_exponent x = unat (take_bit 8 (drop_bit 23 x))"

definition f32_fraction :: "32 word \<Rightarrow> nat" where
  "f32_fraction x = unat (take_bit 23 x)"

definition f32_nan :: "32 word \<Rightarrow> bool" where
  "f32_nan x \<longleftrightarrow> f32_exponent x = 255 \<and> f32_fraction x \<noteq> 0"

definition f32_inf :: "32 word \<Rightarrow> bool" where
  "f32_inf x \<longleftrightarrow> f32_exponent x = 255 \<and> f32_fraction x = 0"

definition f32_significand :: "32 word \<Rightarrow> nat" where
  "f32_significand x =
     (if f32_exponent x = 0 then f32_fraction x else 2 ^ 23 + f32_fraction x)"

definition f32_scale :: "32 word \<Rightarrow> nat" where
  "f32_scale x = (if f32_exponent x = 0 then 0 else f32_exponent x - 1)"

definition f32_int :: "32 word \<Rightarrow> int" where
  "f32_int x = (if f32_sign x then - int (f32_significand x) else int (f32_significand x))"

text \<open>The number a finite \<^verbatim>\<open>float\<close> stands for.\<close>

definition f32_value :: "32 word \<Rightarrow> real" where
  "f32_value x = of_int (f32_int x) * 2 ^ f32_scale x / 2 ^ 149"

definition f32_make :: "bool \<Rightarrow> nat \<Rightarrow> nat \<Rightarrow> 32 word" where
  "f32_make sg e m = (if sg then push_bit 31 1 else 0) + push_bit 23 (of_nat e) + of_nat m"

fun bit_length :: "nat \<Rightarrow> nat" where
  "bit_length n = (if n = 0 then 0 else Suc (bit_length (n div 2)))"

text \<open>\<open>f32_round sg n e\<close> is the \<^verbatim>\<open>float\<close> nearest to \<open>\<plusminus> n * 2 ^ e / 2 ^ 149\<close>
  (negative when \<open>sg\<close>): exact when \<open>n\<close> fits into 24 bits, and otherwise cut to 24
  bits, rounded to nearest, ties to even; infinite beyond the largest exponent.\<close>

definition f32_round :: "bool \<Rightarrow> nat \<Rightarrow> nat \<Rightarrow> 32 word" where
  "f32_round sg n e =
     (let l = bit_length n in
      if l \<le> 24 then
        (let k = min (24 - l) e; m = n * 2 ^ k
         in if m < 2 ^ 23 then f32_make sg 0 m else f32_make sg (e - k + 1) (m - 2 ^ 23))
      else
        (let sh = l - 24; q = n div 2 ^ sh; r = n mod 2 ^ sh;
             q1 = (if 2 ^ sh < 2 * r \<or> (2 * r = 2 ^ sh \<and> odd q) then q + 1 else q);
             q2 = (if q1 = 2 ^ 24 then 2 ^ 23 else q1);
             e2 = (if q1 = 2 ^ 24 then e + sh + 1 else e + sh)
         in if 253 < e2 then f32_make sg 255 0 else f32_make sg (e2 + 1) (q2 - 2 ^ 23)))"

definition f32_add :: "32 word \<Rightarrow> 32 word \<Rightarrow> 32 word" where
  "f32_add x y =
     (if f32_nan x then x OR push_bit 22 1
      else if f32_nan y then y OR push_bit 22 1
      else if f32_inf x then (if f32_inf y \<and> f32_sign x \<noteq> f32_sign y then 0xFFC00000 else x)
      else if f32_inf y then y
      else
        (let e = min (f32_scale x) (f32_scale y);
             c = f32_int x * 2 ^ (f32_scale x - e) + f32_int y * 2 ^ (f32_scale y - e)
         in if c = 0 then (if f32_sign x \<and> f32_sign y then push_bit 31 1 else 0)
            else f32_round (c < 0) (nat \<bar>c\<bar>) e))"

text \<open>The conversion of an \<^verbatim>\<open>int\<close> argument to \<^verbatim>\<open>float\<close>.\<close>

definition f32_of_int :: "int \<Rightarrow> 32 word" where
  "f32_of_int i = (if i = 0 then 0 else f32_round (i < 0) (nat \<bar>i\<bar>) 149)"

subsection \<open>The structures\<close>

record Member =
  data :: MemberData
  name :: "string ptr"
  type :: MemberType

type_synonym FunctionType = "32 word"

definition FUNCTION_TYPE_CONSTRUCTOR :: FunctionType where "FUNCTION_TYPE_CONSTRUCTOR = 0"
definition FUNCTION_TYPE_DESTRUCTOR :: FunctionType where "FUNCTION_TYPE_DESTRUCTOR = 1"
definition FUNCTION_TYPE_MEMBER_FUNCTION :: FunctionType where "FUNCTION_TYPE_MEMBER_FUNCTION = 2"

text \<open>
  The structures of the two earlier iterations. In \<^verbatim>\<open>main.c\<close> a \<^verbatim>\<open>Class\<close> is a name
  and a member table. In \<^verbatim>\<open>part_000\<close> a \<^verbatim>\<open>Function\<close> has one callable, the kinds of
  function are \<^verbatim>\<open>FUNCTION_TYPE_CONSTRUCTOR\<close> (0) and \<^verbatim>\<open>FUNCTION_TYPE_CLASS_METHOD\<close>
  (1), and \<^verbatim>\<open>Class\<close> and \<^verbatim>\<open>ClassCreateInfo\<close> have no destructor. \<^verbatim>\<open>Member\<close> is the
  same in every iteration.
\<close>

definition FUNCTION_TYPE_CLASS_METHOD :: FunctionType where "FUNCTION_TYPE_CLASS_METHOD = 1"

record Class_main_c =
  name :: "string ptr"
  members :: "ref ptr"
  num_members :: size_t

record Function_part_000 =
  name :: "string ptr"
  type :: FunctionType
  fn :: fn_ptr

record Class_part_000 =
  name :: "string ptr"
  ctor :: "ref ptr"
  members :: "ref ptr"
  num_members :: size_t
  "functions" :: "ref ptr"
  num_functions :: size_t

record ClassCreateInfo_part_000 =
  name :: "string ptr"
  ctor :: "ref ptr"
  members :: "ref ptr"
  num_members :: size_t
  "functions" :: "ref ptr"
  num_functions :: size_t

text \<open>The structures of the last iteration.\<close>

record Function =
  name :: "string ptr"
  type :: FunctionType
  fn :: fn_ptr
  binary_member_fn :: fn_ptr

record Class =
  name :: "string ptr"
  ctor :: "ref ptr"
  dtor :: "ref ptr"
  members :: "ref ptr"
  num_members :: size_t
  "functions" :: "ref ptr"
  num_functions :: size_t

record ClassCreateInfo =
  name :: "string ptr"
  ctor :: "ref ptr"
  dtor :: "ref ptr"
  members :: "ref ptr"
  num_members :: size_t
  "functions" :: "ref ptr"
  num_functions :: size_t

text \<open>\<^verbatim>\<open>sizeof(Member)\<close> and \<^verbatim>\<open>sizeof(Function)\<close> on the 64-bit target.\<close>

definition sizeof_Member :: size_t where "sizeof_Member = 24"
definition sizeof_Function :: size_t where "sizeof_Function = 32"

section \<open>Memory\<close>

text \<open>
  The store is a list of blocks, indexed by address. A block is one \<^verbatim>\<open>Class\<close>
  object, an array of \<^verbatim>\<open>Member\<close>, an array of \<^verbatim>\<open>Function\<close>, or storage that has
  been given back. A new block is put at the end of the list, so its address is new.
  The allocator may refuse any request: \<open>grants\<close> lists its coming answers (none left
  means refusal). New storage holds indeterminate values, taken from the \<open>junk\<close>
  fields; a statement that holds for every store holds for every such content.
\<close>

datatype block =
  Class_obj Class
| Member_array "Member list"
| Function_array "Function list"
| Released

record store =
  heap :: "block list"
  grants :: "bool list"
  junk_Class :: "addr \<Rightarrow> Class"
  junk_Member :: "addr \<Rightarrow> nat \<Rightarrow> Member"
  junk_Function :: "addr \<Rightarrow> nat \<Rightarrow> Function"

definition block_at :: "store \<Rightarrow> addr \<Rightarrow> block" where
  "block_at s a = (if a < length (heap s) then heap s ! a else Released)"

text \<open>Replacing the block at an address, and putting a block at the next new address.\<close>

definition put :: "addr \<Rightarrow> block \<Rightarrow> store \<Rightarrow> store" where
  "put a b s = s\<lparr>heap := (heap s)[a := b]\<rparr>"

definition push :: "block \<Rightarrow> store \<Rightarrow> store" where
  "push b s = s\<lparr>heap := heap s @ [b]\<rparr>"

definition load_Class :: "store \<Rightarrow> addr ptr \<Rightarrow> Class option" where
  "load_Class s p =
     (case p of NULL \<Rightarrow> None
      | Ptr a \<Rightarrow> (case block_at s a of Class_obj c \<Rightarrow> Some c | _ \<Rightarrow> None))"

definition load_Member :: "store \<Rightarrow> ref ptr \<Rightarrow> Member option" where
  "load_Member s p =
     (case p of NULL \<Rightarrow> None
      | Ptr (a, i) \<Rightarrow>
          (case block_at s a of
             Member_array ms \<Rightarrow> if i < length ms then Some (ms ! i) else None
           | _ \<Rightarrow> None))"

definition load_Function :: "store \<Rightarrow> ref ptr \<Rightarrow> Function option" where
  "load_Function s p =
     (case p of NULL \<Rightarrow> None
      | Ptr (a, i) \<Rightarrow>
          (case block_at s a of
             Function_array fs \<Rightarrow> if i < length fs then Some (fs ! i) else None
           | _ \<Rightarrow> None))"

text \<open>An assignment \<^verbatim>\<open>p->field = v\<close>: the object at \<open>p\<close> is replaced by \<open>f\<close> of it.\<close>

definition write_Class :: "addr ptr \<Rightarrow> (Class \<Rightarrow> Class) \<Rightarrow> store \<Rightarrow> store option" where
  "write_Class p f s =
     (case p of NULL \<Rightarrow> None
      | Ptr a \<Rightarrow>
          (case block_at s a of
             Class_obj c \<Rightarrow> Some (put a (Class_obj (f c)) s)
           | _ \<Rightarrow> None))"

definition write_Member :: "ref ptr \<Rightarrow> (Member \<Rightarrow> Member) \<Rightarrow> store \<Rightarrow> store option" where
  "write_Member p f s =
     (case p of NULL \<Rightarrow> None
      | Ptr (a, i) \<Rightarrow>
          (case block_at s a of
             Member_array ms \<Rightarrow>
               if i < length ms
               then Some (put a (Member_array (ms[i := f (ms ! i)])) s)
               else None
           | _ \<Rightarrow> None))"

definition write_Function :: "ref ptr \<Rightarrow> (Function \<Rightarrow> Function) \<Rightarrow> store \<Rightarrow> store option" where
  "write_Function p f s =
     (case p of NULL \<Rightarrow> None
      | Ptr (a, i) \<Rightarrow>
          (case block_at s a of
             Function_array fs \<Rightarrow>
               if i < length fs
               then Some (put a (Function_array (fs[i := f (fs ! i)])) s)
               else None
           | _ \<Rightarrow> None))"

text \<open>\<^verbatim>\<open>&p[i]\<close>: arithmetic on a null pointer is undefined.\<close>

definition element_at :: "ref ptr \<Rightarrow> nat \<Rightarrow> ref ptr option" where
  "element_at p i = (case p of NULL \<Rightarrow> None | Ptr (a, off) \<Rightarrow> Some (Ptr (a, off + i)))"

definition element :: "ref ptr \<Rightarrow> size_t \<Rightarrow> ref ptr option" where
  "element p i = element_at p (unat i)"

text \<open>The allocator: asks the allocator, and on a grant puts the block \<open>mk a\<close> at the new
  address \<open>a\<close>.\<close>

definition allocate :: "(addr \<Rightarrow> block) \<Rightarrow> store \<Rightarrow> addr ptr \<times> store" where
  "allocate mk s =
     (case grants s of
        [] \<Rightarrow> (NULL, s)
      | g # gs \<Rightarrow>
          if g then (Ptr (length (heap s)), push (mk (length (heap s))) (s\<lparr>grants := gs\<rparr>))
          else (NULL, s\<lparr>grants := gs\<rparr>))"

definition array_ptr :: "addr ptr \<Rightarrow> ref ptr" where
  "array_ptr p = (case p of NULL \<Rightarrow> NULL | Ptr a \<Rightarrow> Ptr (a, 0))"

text \<open>\<^verbatim>\<open>malloc(sizeof(Class))\<close>.\<close>

definition malloc_Class :: "store \<Rightarrow> addr ptr \<times> store" where
  "malloc_Class s = allocate (\<lambda>a. Class_obj (junk_Class s a)) s"

text \<open>\<^verbatim>\<open>malloc(size)\<close> for an array of \<^verbatim>\<open>Member\<close>, respectively \<^verbatim>\<open>Function\<close>:
  \<open>sz\<close> is the byte count the caller computed (in \<^verbatim>\<open>size_t\<close>, so it may have
  wrapped); the block holds as many whole elements as fit in it.\<close>

definition malloc_Member :: "size_t \<Rightarrow> store \<Rightarrow> ref ptr \<times> store" where
  "malloc_Member sz s =
     (case allocate (\<lambda>a. Member_array
             (map (junk_Member s a) [0 ..< unat sz div unat sizeof_Member])) s of
        (p, s') \<Rightarrow> (array_ptr p, s'))"

definition malloc_Function :: "size_t \<Rightarrow> store \<Rightarrow> ref ptr \<times> store" where
  "malloc_Function sz s =
     (case allocate (\<lambda>a. Function_array
             (map (junk_Function s a) [0 ..< unat sz div unat sizeof_Function])) s of
        (p, s') \<Rightarrow> (array_ptr p, s'))"

text \<open>\<^verbatim>\<open>free(p)\<close> on the store: nothing for the null pointer; the block is given back;
  freeing what is not the start of a live block is undefined.\<close>

definition release :: "addr ptr \<Rightarrow> store \<Rightarrow> store option" where
  "release p s =
     (case p of NULL \<Rightarrow> Some s
      | Ptr a \<Rightarrow>
          if block_at s a = Released then None
          else Some (put a Released s))"

definition base :: "ref ptr \<Rightarrow> addr ptr option" where
  "base p = (case p of NULL \<Rightarrow> Some NULL
             | Ptr (a, off) \<Rightarrow> if off = 0 then Some (Ptr a) else None)"

text \<open>\<^verbatim>\<open>realloc(p, size)\<close>: \<^verbatim>\<open>malloc(size)\<close> for the null pointer. Otherwise, when
  the allocator refuses, the result is null and the old block stays as it is; when it
  grants, the elements move to a new block (cut or filled up with indeterminate values
  to the new size) and the old block is given back. A caller may not rely on the old
  address after a successful \<^verbatim>\<open>realloc\<close>, so moving always is the general case.\<close>

definition realloc_Member :: "ref ptr \<Rightarrow> size_t \<Rightarrow> store \<Rightarrow> (ref ptr \<times> store) option" where
  "realloc_Member p sz s =
     (case p of NULL \<Rightarrow> Some (malloc_Member sz s)
      | Ptr (a, off) \<Rightarrow>
          (case block_at s a of
             Member_array ms \<Rightarrow>
               if off \<noteq> 0 then None
               else (case allocate (\<lambda>a'. Member_array
                        (map (\<lambda>j. if j < length ms then ms ! j else junk_Member s a' j)
                           [0 ..< unat sz div unat sizeof_Member])) s of
                       (NULL, s') \<Rightarrow> Some (NULL, s')
                     | (Ptr a', s') \<Rightarrow>
                         Some (Ptr (a', 0), put a Released s'))
           | _ \<Rightarrow> None))"

definition realloc_Function :: "ref ptr \<Rightarrow> size_t \<Rightarrow> store \<Rightarrow> (ref ptr \<times> store) option" where
  "realloc_Function p sz s =
     (case p of NULL \<Rightarrow> Some (malloc_Function sz s)
      | Ptr (a, off) \<Rightarrow>
          (case block_at s a of
             Function_array fs \<Rightarrow>
               if off \<noteq> 0 then None
               else (case allocate (\<lambda>a'. Function_array
                        (map (\<lambda>j. if j < length fs then fs ! j else junk_Function s a' j)
                           [0 ..< unat sz div unat sizeof_Function])) s of
                       (NULL, s') \<Rightarrow> Some (NULL, s')
                     | (Ptr a', s') \<Rightarrow>
                         Some (Ptr (a', 0), put a Released s'))
           | _ \<Rightarrow> None))"

section \<open>The observable run\<close>

text \<open>
  What a routine of the library does besides changing the store is recorded in a trace:
  the calls it makes through function pointers, the blocks it frees, and the
  \<^verbatim>\<open>DEBUG_BREAK\<close>s it hits. \<^verbatim>\<open>DEBUG_BREAK(msg)\<close> expands to the breakpoint
  intrinsic \<^verbatim>\<open>__debugbreak()\<close>; the code after it is what runs when the debugger
  continues, and that is what the embedding follows.
\<close>

datatype event =
  Call_unary fn_ptr "addr ptr"
| Call_binary fn_ptr "addr ptr" "addr ptr"
| Free "addr ptr"
| Debug_break string

record world =
  mem :: store
  trace :: "event list"

definition DEBUG_BREAK :: "string \<Rightarrow> world \<Rightarrow> world" where
  "DEBUG_BREAK msg w = w\<lparr>trace := trace w @ [Debug_break msg]\<rparr>"

text \<open>\<^verbatim>\<open>free(p)\<close> as a step of the run.\<close>

definition free :: "addr ptr \<Rightarrow> world \<Rightarrow> world option" where
  "free p w = do {
     s \<leftarrow> release p (mem w);
     Some \<lparr>mem = s, trace = trace w @ [Free p]\<rparr>
   }"

text \<open>
  The functions that pointers of the two callable types may point to are given by the
  program around the library: \<open>unary env f\<close> is what the function at address \<open>f\<close>
  does to the store when called with an instance, \<open>binary env f\<close> what it does and
  returns when called with two; \<open>None\<close> when no such function is at \<open>f\<close>.
\<close>

record env =
  unary :: "fn_ptr \<Rightarrow> (addr ptr \<Rightarrow> store \<Rightarrow> store option) option"
  binary :: "fn_ptr \<Rightarrow> (addr ptr \<Rightarrow> addr ptr \<Rightarrow> store \<Rightarrow> (addr ptr \<times> store) option) option"

text \<open>\<^verbatim>\<open>f(klass)\<close> through a pointer of the unary type.\<close>

definition call_unary :: "env \<Rightarrow> fn_ptr \<Rightarrow> addr ptr \<Rightarrow> world \<Rightarrow> world option" where
  "call_unary env f klass w = do {
     body \<leftarrow> unary env f;
     s \<leftarrow> body klass (mem w);
     Some \<lparr>mem = s, trace = trace w @ [Call_unary f klass]\<rparr>
   }"

text \<open>\<^verbatim>\<open>f(klass, other)\<close> through a pointer of the binary type.\<close>

definition call_binary ::
    "env \<Rightarrow> fn_ptr \<Rightarrow> addr ptr \<Rightarrow> addr ptr \<Rightarrow> world \<Rightarrow> (addr ptr \<times> world) option" where
  "call_binary env f klass other w = do {
     body \<leftarrow> binary env f;
     (r, s) \<leftarrow> body klass other (mem w);
     Some (r, \<lparr>mem = s, trace = trace w @ [Call_binary f klass other]\<rparr>)
   }"

section \<open>Members and functions\<close>

definition member_get_name :: "store \<Rightarrow> ref ptr \<Rightarrow> string ptr option" where
  "member_get_name s member =
     (if member = NULL then Some NULL
      else map_option Member.name (load_Member s member))"

definition member_get_type :: "store \<Rightarrow> ref ptr \<Rightarrow> MemberType option" where
  "member_get_type s member =
     (if member = NULL then Some MEMBER_TYPE_I32
      else map_option Member.type (load_Member s member))"

text \<open>After the break the null pointer is dereferenced all the same.\<close>

definition member_get_data :: "ref ptr \<Rightarrow> world \<Rightarrow> (MemberData \<times> world) option" where
  "member_get_data member w =
     (let w' = (if member = NULL then DEBUG_BREAK ''member was null!'' w else w)
      in map_option (\<lambda>m. (Member.data m, w')) (load_Member (mem w') member))"

definition function_get_name :: "store \<Rightarrow> ref ptr \<Rightarrow> string ptr option" where
  "function_get_name s function =
     (if function = NULL then Some NULL
      else map_option Function.name (load_Function s function))"

definition function_get_type :: "store \<Rightarrow> ref ptr \<Rightarrow> FunctionType option" where
  "function_get_type s function =
     (if function = NULL then Some FUNCTION_TYPE_MEMBER_FUNCTION
      else map_option Function.type (load_Function s function))"

definition function_invoke ::
    "env \<Rightarrow> ref ptr \<Rightarrow> addr ptr \<Rightarrow> addr ptr \<Rightarrow> world \<Rightarrow> (addr ptr \<times> world) option" where
  "function_invoke env function klass other w =
     (if function = NULL \<or> klass = NULL
      then Some (NULL, DEBUG_BREAK ''invalid function!'' w)
      else do {
        type \<leftarrow> function_get_type (mem w) function;
        f \<leftarrow> load_Function (mem w) function;
        if type = FUNCTION_TYPE_CONSTRUCTOR then
          do { w' \<leftarrow> call_unary env (fn f) klass w; Some (NULL, w') }
        else if type = FUNCTION_TYPE_DESTRUCTOR then
          do { w' \<leftarrow> call_unary env (fn f) klass w; Some (NULL, w') }
        else if type = FUNCTION_TYPE_MEMBER_FUNCTION then
          (if other = NULL
           then do { w' \<leftarrow> call_unary env (fn f) klass w; Some (NULL, w') }
           else call_binary env (binary_member_fn f) klass other w)
        else Some (NULL, DEBUG_BREAK ''unknown function type!'' w)
      })"

section \<open>Classes\<close>

definition class_get_name :: "store \<Rightarrow> addr ptr \<Rightarrow> string ptr option" where
  "class_get_name s klass =
     (if klass = NULL then Some NULL
      else map_option Class.name (load_Class s klass))"

text \<open>The two predicates return a C \<^verbatim>\<open>int\<close>: the value of \<^verbatim>\<open>klass->ctor != NULL\<close>.\<close>

definition class_has_constructor :: "store \<Rightarrow> addr ptr \<Rightarrow> int option" where
  "class_has_constructor s klass =
     (if klass = NULL then Some 0
      else map_option (\<lambda>c. if Class.ctor c \<noteq> NULL then 1 else 0) (load_Class s klass))"

definition class_has_destructor :: "store \<Rightarrow> addr ptr \<Rightarrow> int option" where
  "class_has_destructor s klass =
     (if klass = NULL then Some 0
      else map_option (\<lambda>c. if Class.dtor c \<noteq> NULL then 1 else 0) (load_Class s klass))"

definition class_get_constructor :: "store \<Rightarrow> addr ptr \<Rightarrow> ref ptr option" where
  "class_get_constructor s klass =
     (if klass = NULL then Some NULL
      else map_option Class.ctor (load_Class s klass))"

definition class_get_destructor :: "store \<Rightarrow> addr ptr \<Rightarrow> ref ptr option" where
  "class_get_destructor s klass =
     (if klass = NULL then Some NULL
      else map_option Class.dtor (load_Class s klass))"

definition class_get_num_members :: "store \<Rightarrow> addr ptr \<Rightarrow> size_t option" where
  "class_get_num_members s klass =
     (if klass = NULL then Some 0
      else map_option Class.num_members (load_Class s klass))"

definition class_get_num_functions :: "store \<Rightarrow> addr ptr \<Rightarrow> size_t option" where
  "class_get_num_functions s klass =
     (if klass = NULL then Some 0
      else map_option Class.num_functions (load_Class s klass))"

definition class_get_member :: "addr ptr \<Rightarrow> size_t \<Rightarrow> world \<Rightarrow> (ref ptr \<times> world) option" where
  "class_get_member klass index w =
     (if klass = NULL then Some (NULL, w)
      else do {
        num_members \<leftarrow> class_get_num_members (mem w) klass;
        if index < num_members then do {
          c \<leftarrow> load_Class (mem w) klass;
          p \<leftarrow> element (Class.members c) index;
          Some (p, w)
        }
        else Some (NULL, DEBUG_BREAK ''index out of bounds!'' w)
      })"

definition class_get_function :: "addr ptr \<Rightarrow> size_t \<Rightarrow> world \<Rightarrow> (ref ptr \<times> world) option" where
  "class_get_function klass index w =
     (if klass = NULL then Some (NULL, w)
      else do {
        num_functions \<leftarrow> class_get_num_functions (mem w) klass;
        if index < num_functions then do {
          c \<leftarrow> load_Class (mem w) klass;
          p \<leftarrow> element (Class.functions c) index;
          Some (p, w)
        }
        else Some (NULL, DEBUG_BREAK ''index out of bounds!'' w)
      })"

text \<open>The bound \<^verbatim>\<open>num_functions - 1\<close> is computed in \<^verbatim>\<open>size_t\<close>: for an empty
  table it is the largest value of the type.\<close>

definition class_invoke_function ::
    "env \<Rightarrow> addr ptr \<Rightarrow> addr ptr \<Rightarrow> size_t \<Rightarrow> world \<Rightarrow> (addr ptr \<times> world) option" where
  "class_invoke_function env klass other index w =
     (if klass = NULL then Some (NULL, DEBUG_BREAK ''invalid class!'' w)
      else do {
        num_functions \<leftarrow> class_get_num_functions (mem w) klass;
        if index > num_functions - 1
        then Some (NULL, DEBUG_BREAK ''index out of bounds!'' w)
        else do {
          (function, w1) \<leftarrow> class_get_function klass index w;
          function_invoke env function klass other w1
        }
      })"

text \<open>\<^verbatim>\<open>klass->members = realloc(klass->members, ...)\<close> stores the result before it
  is tested; \<^verbatim>\<open>*member\<close> is read after the reallocation.\<close>

definition class_add_member :: "addr ptr \<Rightarrow> ref ptr \<Rightarrow> world \<Rightarrow> world option" where
  "class_add_member klass member w =
     (if klass = NULL then Some (DEBUG_BREAK ''invalid class!'' w)
      else if member = NULL then Some (DEBUG_BREAK ''invalid member!'' w)
      else do {
        let element_size = sizeof_Member;
        num_members \<leftarrow> class_get_num_members (mem w) klass;
        let data_size = element_size * num_members;
        c \<leftarrow> load_Class (mem w) klass;
        (p, s) \<leftarrow> realloc_Member (Class.members c) (data_size + element_size) (mem w);
        s \<leftarrow> write_Class klass (\<lambda>c. c\<lparr>Class.members := p\<rparr>) s;
        if p = NULL then Some (w\<lparr>mem := s\<rparr>)
        else do {
          s \<leftarrow> write_Class klass (\<lambda>c. c\<lparr>Class.num_members := Class.num_members c + 1\<rparr>) s;
          c \<leftarrow> load_Class s klass;
          dst \<leftarrow> element (Class.members c) (Class.num_members c - 1);
          m \<leftarrow> load_Member s member;
          s \<leftarrow> write_Member dst (\<lambda>_. m) s;
          Some (w\<lparr>mem := s\<rparr>)
        }
      })"

definition class_add_function :: "addr ptr \<Rightarrow> ref ptr \<Rightarrow> world \<Rightarrow> world option" where
  "class_add_function klass function w =
     (if klass = NULL then Some (DEBUG_BREAK ''invalid class!'' w)
      else if function = NULL then Some (DEBUG_BREAK ''invalid function!'' w)
      else do {
        let element_size = sizeof_Function;
        num_functions \<leftarrow> class_get_num_functions (mem w) klass;
        let data_size = element_size * num_functions;
        c \<leftarrow> load_Class (mem w) klass;
        (p, s) \<leftarrow> realloc_Function (Class.functions c) (data_size + element_size) (mem w);
        s \<leftarrow> write_Class klass (\<lambda>c. c\<lparr>Class.functions := p\<rparr>) s;
        if p = NULL then Some (w\<lparr>mem := s\<rparr>)
        else do {
          s \<leftarrow> write_Class klass (\<lambda>c. c\<lparr>Class.num_functions := Class.num_functions c + 1\<rparr>) s;
          c \<leftarrow> load_Class s klass;
          dst \<leftarrow> element (Class.functions c) (Class.num_functions c - 1);
          f \<leftarrow> load_Function s function;
          s \<leftarrow> write_Function dst (\<lambda>_. f) s;
          Some (w\<lparr>mem := s\<rparr>)
        }
      })"

subsection \<open>Creation\<close>

text \<open>
  The two copy loops of \<^verbatim>\<open>class_create\<close>, for \<^verbatim>\<open>i\<close> from 0 below the count.
  The source reads \<^verbatim>\<open>klass->num_members\<close> and \<^verbatim>\<open>klass->members\<close> again at every
  turn; the body writes into the elements only, so both are the same at every turn and
  are passed in (\<open>dst\<close>, and the list of the indices). Each field is copied by an
  assignment of its own.
\<close>

primrec copy_members :: "ref ptr \<Rightarrow> ref ptr \<Rightarrow> nat list \<Rightarrow> store \<Rightarrow> store option" where
  "copy_members dst src [] s = Some s"
| "copy_members dst src (i # is) s = do {
     member \<leftarrow> element_at dst i;
     other \<leftarrow> element_at src i;
     o1 \<leftarrow> load_Member s other;
     s \<leftarrow> write_Member member (\<lambda>m. m\<lparr>Member.name := Member.name o1\<rparr>) s;
     o2 \<leftarrow> load_Member s other;
     s \<leftarrow> write_Member member (\<lambda>m. m\<lparr>Member.type := Member.type o2\<rparr>) s;
     o3 \<leftarrow> load_Member s other;
     s \<leftarrow> write_Member member (\<lambda>m. m\<lparr>Member.data := Member.data o3\<rparr>) s;
     copy_members dst src is s
   }"

primrec copy_functions :: "ref ptr \<Rightarrow> ref ptr \<Rightarrow> nat list \<Rightarrow> store \<Rightarrow> store option" where
  "copy_functions dst src [] s = Some s"
| "copy_functions dst src (i # is) s = do {
     function \<leftarrow> element_at dst i;
     other \<leftarrow> element_at src i;
     o1 \<leftarrow> load_Function s other;
     s \<leftarrow> write_Function function (\<lambda>f. f\<lparr>fn := fn o1\<rparr>) s;
     o2 \<leftarrow> load_Function s other;
     s \<leftarrow> write_Function function (\<lambda>f. f\<lparr>binary_member_fn := binary_member_fn o2\<rparr>) s;
     o3 \<leftarrow> load_Function s other;
     s \<leftarrow> write_Function function (\<lambda>f. f\<lparr>Function.name := Function.name o3\<rparr>) s;
     o4 \<leftarrow> load_Function s other;
     s \<leftarrow> write_Function function (\<lambda>f. f\<lparr>Function.type := Function.type o4\<rparr>) s;
     copy_functions dst src is s
   }"

text \<open>
  \<^verbatim>\<open>class_create\<close>, statement by statement. A step that can take a
  \<^verbatim>\<open>return NULL\<close> yields \<open>(False, s)\<close> when it takes it. The four steps below are
  the constructor part (\<^verbatim>\<open>if (createInfo->ctor != NULL) ... else ...\<close>), the
  destructor part, the member table (allocation, count and copy loop) and the function
  table. The copy of a constructor or destructor gets \<^verbatim>\<open>fn\<close> and \<^verbatim>\<open>name\<close> only.
\<close>

definition class_create_ctor ::
    "addr ptr \<Rightarrow> ClassCreateInfo \<Rightarrow> store \<Rightarrow> (bool \<times> store) option" where
  "class_create_ctor klass info s =
     (if ClassCreateInfo.ctor info \<noteq> NULL then do {
        (p, s) \<leftarrow> Some (malloc_Function sizeof_Function s);
        s \<leftarrow> write_Class klass (\<lambda>c. c\<lparr>Class.ctor := p\<rparr>) s;
        if p = NULL then Some (False, s)
        else do {
          src \<leftarrow> load_Function s (ClassCreateInfo.ctor info);
          s \<leftarrow> write_Function p (\<lambda>f. f\<lparr>fn := fn src\<rparr>) s;
          src \<leftarrow> load_Function s (ClassCreateInfo.ctor info);
          s \<leftarrow> write_Function p (\<lambda>f. f\<lparr>Function.name := Function.name src\<rparr>) s;
          Some (True, s)
        }
      }
      else do {
        s \<leftarrow> write_Class klass (\<lambda>c. c\<lparr>Class.ctor := NULL\<rparr>) s;
        Some (True, s)
      })"

definition class_create_dtor ::
    "addr ptr \<Rightarrow> ClassCreateInfo \<Rightarrow> store \<Rightarrow> (bool \<times> store) option" where
  "class_create_dtor klass info s =
     (if ClassCreateInfo.dtor info \<noteq> NULL then do {
        (p, s) \<leftarrow> Some (malloc_Function sizeof_Function s);
        s \<leftarrow> write_Class klass (\<lambda>c. c\<lparr>Class.dtor := p\<rparr>) s;
        if p = NULL then Some (False, s)
        else do {
          src \<leftarrow> load_Function s (ClassCreateInfo.dtor info);
          s \<leftarrow> write_Function p (\<lambda>f. f\<lparr>fn := fn src\<rparr>) s;
          src \<leftarrow> load_Function s (ClassCreateInfo.dtor info);
          s \<leftarrow> write_Function p (\<lambda>f. f\<lparr>Function.name := Function.name src\<rparr>) s;
          Some (True, s)
        }
      }
      else do {
        s \<leftarrow> write_Class klass (\<lambda>c. c\<lparr>Class.dtor := NULL\<rparr>) s;
        Some (True, s)
      })"

definition class_create_members ::
    "addr ptr \<Rightarrow> ClassCreateInfo \<Rightarrow> store \<Rightarrow> (bool \<times> store) option" where
  "class_create_members klass info s = do {
     (p, s) \<leftarrow> Some (malloc_Member (sizeof_Member * ClassCreateInfo.num_members info) s);
     s \<leftarrow> write_Class klass (\<lambda>c. c\<lparr>Class.members := p\<rparr>) s;
     if p = NULL then Some (False, s)
     else do {
       s \<leftarrow> write_Class klass
              (\<lambda>c. c\<lparr>Class.num_members := ClassCreateInfo.num_members info\<rparr>) s;
       c \<leftarrow> load_Class s klass;
       s \<leftarrow> copy_members (Class.members c) (ClassCreateInfo.members info)
              [0 ..< unat (Class.num_members c)] s;
       Some (True, s)
     }
   }"

definition class_create_functions ::
    "addr ptr \<Rightarrow> ClassCreateInfo \<Rightarrow> store \<Rightarrow> (bool \<times> store) option" where
  "class_create_functions klass info s = do {
     (p, s) \<leftarrow> Some (malloc_Function (sizeof_Function * ClassCreateInfo.num_functions info) s);
     s \<leftarrow> write_Class klass (\<lambda>c. c\<lparr>Class.functions := p\<rparr>) s;
     if p = NULL then Some (False, s)
     else do {
       s \<leftarrow> write_Class klass
              (\<lambda>c. c\<lparr>Class.num_functions := ClassCreateInfo.num_functions info\<rparr>) s;
       c \<leftarrow> load_Class s klass;
       s \<leftarrow> copy_functions (Class.functions c) (ClassCreateInfo.functions info)
              [0 ..< unat (Class.num_functions c)] s;
       Some (True, s)
     }
   }"

text \<open>The routine up to the point where the constructor is dispatched: the instance
  with its name, its constructor and destructor copies and its two tables.\<close>

definition class_create_storage ::
    "ClassCreateInfo \<Rightarrow> store \<Rightarrow> (addr ptr \<times> store) option" where
  "class_create_storage info s = do {
     (klass, s) \<leftarrow> Some (malloc_Class s);
     if klass = NULL then Some (NULL, s)
     else do {
       s \<leftarrow> write_Class klass (\<lambda>c. c\<lparr>Class.name := ClassCreateInfo.name info\<rparr>) s;
       (ok, s) \<leftarrow> class_create_ctor klass info s;
       if \<not> ok then Some (NULL, s)
       else do {
         (ok, s) \<leftarrow> class_create_dtor klass info s;
         if \<not> ok then Some (NULL, s)
         else do {
           (ok, s) \<leftarrow> class_create_members klass info s;
           if \<not> ok then Some (NULL, s)
           else do {
             (ok, s) \<leftarrow> class_create_functions klass info s;
             if \<not> ok then Some (NULL, s)
             else Some (klass, s)
           }
         }
       }
     }
   }"

text \<open>
  \<^verbatim>\<open>class_create\<close>. The descriptor is passed by address and only read; the model
  takes its content, \<open>None\<close> for a null descriptor (which the source dereferences).
\<close>

definition class_create ::
    "env \<Rightarrow> ClassCreateInfo option \<Rightarrow> world \<Rightarrow> (addr ptr \<times> world) option" where
  "class_create env createInfo w = do {
     info \<leftarrow> createInfo;
     (klass, s) \<leftarrow> class_create_storage info (mem w);
     if klass = NULL then Some (NULL, w\<lparr>mem := s\<rparr>)
     else do {
       has \<leftarrow> class_has_constructor s klass;
       if has = 1 then do {
         c \<leftarrow> load_Class s klass;
         s \<leftarrow> write_Function (Class.ctor c)
                (\<lambda>f. f\<lparr>Function.type := FUNCTION_TYPE_CONSTRUCTOR\<rparr>) s;
         c \<leftarrow> load_Class s klass;
         (r, w') \<leftarrow> function_invoke env (Class.ctor c) klass NULL (w\<lparr>mem := s\<rparr>);
         Some (klass, w')
       }
       else Some (klass, w\<lparr>mem := s\<rparr>)
     }
   }"

subsection \<open>Destruction\<close>

text \<open>
  \<^verbatim>\<open>class_destroy\<close>, statement by statement: the four conditional statements that
  free the copy of the constructor, dispatch and free the destructor, free the member
  table (when the count is not 0) and free the function table (when the count is not
  0), and then the routine itself. \<open>block_of\<close> is the block a pointer points into.
\<close>

definition block_of :: "ref ptr \<Rightarrow> addr ptr" where
  "block_of p = (case p of NULL \<Rightarrow> NULL | Ptr (a, off) \<Rightarrow> Ptr a)"

definition class_destroy_ctor :: "addr ptr \<Rightarrow> world \<Rightarrow> world option" where
  "class_destroy_ctor klass w = do {
     has \<leftarrow> class_has_constructor (mem w) klass;
     if has = 1 then do {
       c \<leftarrow> load_Class (mem w) klass;
       b \<leftarrow> base (Class.ctor c);
       free b w
     }
     else Some w
   }"

definition class_destroy_dtor :: "env \<Rightarrow> addr ptr \<Rightarrow> world \<Rightarrow> world option" where
  "class_destroy_dtor env klass w = do {
     has \<leftarrow> class_has_destructor (mem w) klass;
     if has = 1 then do {
       c \<leftarrow> load_Class (mem w) klass;
       s \<leftarrow> write_Function (Class.dtor c)
              (\<lambda>f. f\<lparr>Function.type := FUNCTION_TYPE_DESTRUCTOR\<rparr>) (mem w);
       c \<leftarrow> load_Class s klass;
       (r, w) \<leftarrow> function_invoke env (Class.dtor c) klass NULL (w\<lparr>mem := s\<rparr>);
       c \<leftarrow> load_Class (mem w) klass;
       b \<leftarrow> base (Class.dtor c);
       free b w
     }
     else Some w
   }"

definition class_destroy_members :: "addr ptr \<Rightarrow> world \<Rightarrow> world option" where
  "class_destroy_members klass w = do {
     num_members \<leftarrow> class_get_num_members (mem w) klass;
     if num_members > 0 then do {
       c \<leftarrow> load_Class (mem w) klass;
       b \<leftarrow> base (Class.members c);
       free b w
     }
     else Some w
   }"

definition class_destroy_functions :: "addr ptr \<Rightarrow> world \<Rightarrow> world option" where
  "class_destroy_functions klass w = do {
     num_functions \<leftarrow> class_get_num_functions (mem w) klass;
     if num_functions > 0 then do {
       c \<leftarrow> load_Class (mem w) klass;
       b \<leftarrow> base (Class.functions c);
       free b w
     }
     else Some w
   }"

definition class_destroy :: "env \<Rightarrow> addr ptr \<Rightarrow> world \<Rightarrow> world option" where
  "class_destroy env klass w =
     (if klass = NULL then Some (DEBUG_BREAK ''invalid class!'' w)
      else do {
        w \<leftarrow> class_destroy_ctor klass w;
        w \<leftarrow> class_destroy_dtor env klass w;
        w \<leftarrow> class_destroy_members klass w;
        w \<leftarrow> class_destroy_functions klass w;
        free klass w
      })"

subsection \<open>What an index resolves to\<close>

text \<open>The element that \<^verbatim>\<open>class_get_member(klass, index)\<close>, respectively
  \<^verbatim>\<open>class_get_function(klass, index)\<close>, points to in a store.\<close>

definition member_at :: "store \<Rightarrow> addr ptr \<Rightarrow> size_t \<Rightarrow> Member option" where
  "member_at s klass index = do {
     (p, w) \<leftarrow> class_get_member klass index \<lparr>mem = s, trace = []\<rparr>;
     load_Member s p
   }"

definition function_at :: "store \<Rightarrow> addr ptr \<Rightarrow> size_t \<Rightarrow> Function option" where
  "function_at s klass index = do {
     (p, w) \<leftarrow> class_get_function klass index \<lparr>mem = s, trace = []\<rparr>;
     load_Function s p
   }"

subsection \<open>Well-formed tables and descriptors\<close>

text \<open>
  The table of an instance whose storage is in order: the elements of the block its
  \<^verbatim>\<open>members\<close> (\<^verbatim>\<open>functions\<close>) pointer refers to, as many as the recorded count says;
  the empty table when the pointer is null and the count is 0.
\<close>

definition member_table :: "store \<Rightarrow> Class \<Rightarrow> Member list option" where
  "member_table s c =
     (case Class.members c of
        NULL \<Rightarrow> if Class.num_members c = 0 then Some [] else None
      | Ptr (a, off) \<Rightarrow>
          (case block_at s a of
             Member_array ms \<Rightarrow>
               if off = 0 \<and> length ms = unat (Class.num_members c) then Some ms else None
           | _ \<Rightarrow> None))"

definition function_table :: "store \<Rightarrow> Class \<Rightarrow> Function list option" where
  "function_table s c =
     (case Class.functions c of
        NULL \<Rightarrow> if Class.num_functions c = 0 then Some [] else None
      | Ptr (a, off) \<Rightarrow>
          (case block_at s a of
             Function_array fs \<Rightarrow>
               if off = 0 \<and> length fs = unat (Class.num_functions c) then Some fs else None
           | _ \<Rightarrow> None))"

text \<open>A pointer a caller can hold when it calls into the library: null, or a pointer
  into a block that the store has at that moment.\<close>

definition refers_into :: "store \<Rightarrow> ref ptr \<Rightarrow> bool" where
  "refers_into s p = (case p of NULL \<Rightarrow> True | Ptr (a, i) \<Rightarrow> a < length (heap s))"

text \<open>A descriptor a caller can pass: each of its four pointers is null or points into
  a block that the store has at the call.\<close>

definition descriptor_in :: "store \<Rightarrow> ClassCreateInfo \<Rightarrow> bool" where
  "descriptor_in s info \<longleftrightarrow>
     refers_into s (ClassCreateInfo.ctor info) \<and> refers_into s (ClassCreateInfo.dtor info) \<and>
     refers_into s (ClassCreateInfo.members info) \<and>
     refers_into s (ClassCreateInfo.functions info)"

section \<open>The earlier iterations\<close>

text \<open>
  The creation routines of the two earlier iterations, \<^verbatim>\<open>class_new\<close> of \<^verbatim>\<open>main.c\<close>
  and \<^verbatim>\<open>class_create\<close> of \<^verbatim>\<open>part_000\<close>, with the accessors that read a member
  through the instance. Their store has the shape of the store above, with the
  \<^verbatim>\<open>Class\<close> and the \<^verbatim>\<open>Function\<close> structure of the iteration as parameters: a block
  is one \<^verbatim>\<open>Class\<close> object, an array of \<^verbatim>\<open>Member\<close>, an array of \<^verbatim>\<open>Function\<close>, or
  storage that has been given back.
\<close>

datatype ('c, 'f) early_block =
  Early_Class 'c
| Early_Members "Member list"
| Early_Functions "'f list"
| Early_Released

record ('c, 'f) early_store =
  early_heap :: "('c, 'f) early_block list"
  early_grants :: "bool list"
  early_junk :: "addr \<Rightarrow> 'c"

record ('c, 'f) early_world =
  early_mem :: "('c, 'f) early_store"
  early_trace :: "event list"

definition early_block_at :: "('c, 'f) early_store \<Rightarrow> addr \<Rightarrow> ('c, 'f) early_block" where
  "early_block_at s a = (if a < length (early_heap s) then early_heap s ! a else Early_Released)"

definition early_put ::
    "addr \<Rightarrow> ('c, 'f) early_block \<Rightarrow> ('c, 'f) early_store \<Rightarrow> ('c, 'f) early_store" where
  "early_put a b s = s\<lparr>early_heap := (early_heap s)[a := b]\<rparr>"

text \<open>\<^verbatim>\<open>malloc(sizeof(Class))\<close>.\<close>

definition early_malloc_Class ::
    "('c, 'f) early_store \<Rightarrow> addr ptr \<times> ('c, 'f) early_store" where
  "early_malloc_Class s =
     (case early_grants s of
        [] \<Rightarrow> (NULL, s)
      | g # gs \<Rightarrow>
          if g then (Ptr (length (early_heap s)),
                     s\<lparr>early_heap := early_heap s @
                          [Early_Class (early_junk s (length (early_heap s)))],
                       early_grants := gs\<rparr>)
          else (NULL, s\<lparr>early_grants := gs\<rparr>))"

definition early_load_Class :: "('c, 'f) early_store \<Rightarrow> addr ptr \<Rightarrow> 'c option" where
  "early_load_Class s p =
     (case p of NULL \<Rightarrow> None
      | Ptr a \<Rightarrow> (case early_block_at s a of Early_Class c \<Rightarrow> Some c | _ \<Rightarrow> None))"

definition early_write_Class ::
    "addr ptr \<Rightarrow> ('c \<Rightarrow> 'c) \<Rightarrow> ('c, 'f) early_store \<Rightarrow> ('c, 'f) early_store option" where
  "early_write_Class p f s =
     (case p of NULL \<Rightarrow> None
      | Ptr a \<Rightarrow>
          (case early_block_at s a of
             Early_Class c \<Rightarrow> Some (early_put a (Early_Class (f c)) s)
           | _ \<Rightarrow> None))"

definition early_load_Member :: "('c, 'f) early_store \<Rightarrow> ref ptr \<Rightarrow> Member option" where
  "early_load_Member s p =
     (case p of NULL \<Rightarrow> None
      | Ptr (a, i) \<Rightarrow>
          (case early_block_at s a of
             Early_Members ms \<Rightarrow> if i < length ms then Some (ms ! i) else None
           | _ \<Rightarrow> None))"

definition early_load_Function :: "('c, 'f) early_store \<Rightarrow> ref ptr \<Rightarrow> 'f option" where
  "early_load_Function s p =
     (case p of NULL \<Rightarrow> None
      | Ptr (a, i) \<Rightarrow>
          (case early_block_at s a of
             Early_Functions fs \<Rightarrow> if i < length fs then Some (fs ! i) else None
           | _ \<Rightarrow> None))"

definition early_write_Function ::
    "ref ptr \<Rightarrow> ('f \<Rightarrow> 'f) \<Rightarrow> ('c, 'f) early_store \<Rightarrow> ('c, 'f) early_store option" where
  "early_write_Function p f s =
     (case p of NULL \<Rightarrow> None
      | Ptr (a, i) \<Rightarrow>
          (case early_block_at s a of
             Early_Functions fs \<Rightarrow>
               if i < length fs
               then Some (early_put a (Early_Functions (fs[i := f (fs ! i)])) s)
               else None
           | _ \<Rightarrow> None))"

definition DEBUG_BREAK_early :: "string \<Rightarrow> ('c, 'f) early_world \<Rightarrow> ('c, 'f) early_world" where
  "DEBUG_BREAK_early msg w = w\<lparr>early_trace := early_trace w @ [Debug_break msg]\<rparr>"

subsection \<open>\<^verbatim>\<open>main.c\<close>\<close>

text \<open>\<^verbatim>\<open>class_new\<close> stores the pointer \<^verbatim>\<open>members\<close> it is given (the parameters
  \<^verbatim>\<open>name\<close>, \<^verbatim>\<open>members\<close> and \<^verbatim>\<open>num_members\<close> are \<open>name0\<close>, \<open>members0\<close> and
  \<open>num_members0\<close> here).\<close>

definition class_new ::
    "string ptr \<Rightarrow> ref ptr \<Rightarrow> size_t \<Rightarrow> (Class_main_c, unit) early_store \<Rightarrow>
     (addr ptr \<times> (Class_main_c, unit) early_store) option" where
  "class_new name0 members0 num_members0 s = do {
     (klass, s) \<leftarrow> Some (early_malloc_Class s);
     if klass = NULL then Some (NULL, s)
     else do {
       s \<leftarrow> early_write_Class klass (\<lambda>c. c\<lparr>Class_main_c.name := name0\<rparr>) s;
       s \<leftarrow> early_write_Class klass (\<lambda>c. c\<lparr>Class_main_c.members := members0\<rparr>) s;
       s \<leftarrow> early_write_Class klass (\<lambda>c. c\<lparr>Class_main_c.num_members := num_members0\<rparr>) s;
       Some (klass, s)
     }
   }"

definition class_get_num_members_main_c ::
    "(Class_main_c, unit) early_store \<Rightarrow> addr ptr \<Rightarrow> size_t option" where
  "class_get_num_members_main_c s klass =
     (if klass = NULL then Some 0
      else map_option Class_main_c.num_members (early_load_Class s klass))"

definition class_get_member_main_c ::
    "addr ptr \<Rightarrow> size_t \<Rightarrow> (Class_main_c, unit) early_world \<Rightarrow>
     (ref ptr \<times> (Class_main_c, unit) early_world) option" where
  "class_get_member_main_c klass index w =
     (if klass = NULL then Some (NULL, w)
      else do {
        num_members \<leftarrow> class_get_num_members_main_c (early_mem w) klass;
        if index < num_members then do {
          c \<leftarrow> early_load_Class (early_mem w) klass;
          p \<leftarrow> element (Class_main_c.members c) index;
          Some (p, w)
        }
        else Some (NULL, DEBUG_BREAK_early ''index out of bounds!'' w)
      })"

text \<open>The member that \<^verbatim>\<open>class_get_member(klass, index)\<close> points to in a store.\<close>

definition member_at_main_c ::
    "(Class_main_c, unit) early_store \<Rightarrow> addr ptr \<Rightarrow> size_t \<Rightarrow> Member option" where
  "member_at_main_c s klass index = do {
     (p, w) \<leftarrow> class_get_member_main_c klass index \<lparr>early_mem = s, early_trace = []\<rparr>;
     early_load_Member s p
   }"

subsection \<open>\<^verbatim>\<open>part_000\<close>\<close>

definition function_get_type_part_000 ::
    "(Class_part_000, Function_part_000) early_store \<Rightarrow> ref ptr \<Rightarrow> FunctionType option" where
  "function_get_type_part_000 s function =
     (if function = NULL then Some FUNCTION_TYPE_CLASS_METHOD
      else map_option Function_part_000.type (early_load_Function s function))"

text \<open>\<^verbatim>\<open>function->fn(klass)\<close>: \<open>call f\<close> is what the function at address \<open>f\<close> does to
  the store when called with an instance, \<open>None\<close> when no function is at \<open>f\<close>.\<close>

definition call_part_000 ::
    "(fn_ptr \<Rightarrow> (addr ptr \<Rightarrow> (Class_part_000, Function_part_000) early_store \<Rightarrow>
        (Class_part_000, Function_part_000) early_store option) option) \<Rightarrow>
     fn_ptr \<Rightarrow> addr ptr \<Rightarrow> (Class_part_000, Function_part_000) early_world \<Rightarrow>
     (Class_part_000, Function_part_000) early_world option" where
  "call_part_000 call f klass w = do {
     body \<leftarrow> call f;
     s \<leftarrow> body klass (early_mem w);
     Some \<lparr>early_mem = s, early_trace = early_trace w @ [Call_unary f klass]\<rparr>
   }"

definition function_invoke_part_000 ::
    "(fn_ptr \<Rightarrow> (addr ptr \<Rightarrow> (Class_part_000, Function_part_000) early_store \<Rightarrow>
        (Class_part_000, Function_part_000) early_store option) option) \<Rightarrow>
     ref ptr \<Rightarrow> addr ptr \<Rightarrow> (Class_part_000, Function_part_000) early_world \<Rightarrow>
     (Class_part_000, Function_part_000) early_world option" where
  "function_invoke_part_000 call function klass w =
     (if function = NULL \<or> klass = NULL
      then Some (DEBUG_BREAK_early ''invalid function!'' w)
      else do {
        type \<leftarrow> function_get_type_part_000 (early_mem w) function;
        f \<leftarrow> early_load_Function (early_mem w) function;
        if type = FUNCTION_TYPE_CONSTRUCTOR then call_part_000 call (Function_part_000.fn f) klass w
        else if type = FUNCTION_TYPE_CLASS_METHOD
        then call_part_000 call (Function_part_000.fn f) klass w
        else Some (DEBUG_BREAK_early ''unknown function type!'' w)
      })"

definition class_has_constructor_part_000 ::
    "(Class_part_000, Function_part_000) early_store \<Rightarrow> addr ptr \<Rightarrow> int option" where
  "class_has_constructor_part_000 s klass =
     (if klass = NULL then Some 0
      else map_option (\<lambda>c. if Class_part_000.ctor c \<noteq> NULL then 1 else 0)
             (early_load_Class s klass))"

text \<open>\<^verbatim>\<open>class_create\<close> of \<^verbatim>\<open>part_000\<close> stores the four pointers of the descriptor,
  sets the kind of the caller's constructor and dispatches it. The descriptor is passed
  by address and only read; the model takes its content, \<open>None\<close> for a null descriptor
  (which the source dereferences).\<close>

definition class_create_part_000 ::
    "(fn_ptr \<Rightarrow> (addr ptr \<Rightarrow> (Class_part_000, Function_part_000) early_store \<Rightarrow>
        (Class_part_000, Function_part_000) early_store option) option) \<Rightarrow>
     ClassCreateInfo_part_000 option \<Rightarrow> (Class_part_000, Function_part_000) early_world \<Rightarrow>
     (addr ptr \<times> (Class_part_000, Function_part_000) early_world) option" where
  "class_create_part_000 call createInfo w = do {
     info \<leftarrow> createInfo;
     (klass, s) \<leftarrow> Some (early_malloc_Class (early_mem w));
     if klass = NULL then Some (NULL, w\<lparr>early_mem := s\<rparr>)
     else do {
       s \<leftarrow> early_write_Class klass
              (\<lambda>c. c\<lparr>Class_part_000.name := ClassCreateInfo_part_000.name info\<rparr>) s;
       s \<leftarrow> early_write_Class klass
              (\<lambda>c. c\<lparr>Class_part_000.ctor := ClassCreateInfo_part_000.ctor info\<rparr>) s;
       s \<leftarrow> early_write_Class klass
              (\<lambda>c. c\<lparr>Class_part_000.members := ClassCreateInfo_part_000.members info\<rparr>) s;
       s \<leftarrow> early_write_Class klass
              (\<lambda>c. c\<lparr>Class_part_000.num_members :=
                       ClassCreateInfo_part_000.num_members info\<rparr>) s;
       s \<leftarrow> early_write_Class klass
              (\<lambda>c. c\<lparr>Class_part_000.functions :=
                       ClassCreateInfo_part_000.functions info\<rparr>) s;
       s \<leftarrow> early_write_Class klass
              (\<lambda>c. c\<lparr>Class_part_000.num_functions :=
                       ClassCreateInfo_part_000.num_functions info\<rparr>) s;
       has \<leftarrow> class_has_constructor_part_000 s klass;
       if has = 1 then do {
         c \<leftarrow> early_load_Class s klass;
         s \<leftarrow> early_write_Function (Class_part_000.ctor c)
                (\<lambda>f. f\<lparr>Function_part_000.type := FUNCTION_TYPE_CONSTRUCTOR\<rparr>) s;
         c \<leftarrow> early_load_Class s klass;
         w' \<leftarrow> function_invoke_part_000 call (Class_part_000.ctor c) klass (w\<lparr>early_mem := s\<rparr>);
         Some (klass, w')
       }
       else Some (klass, w\<lparr>early_mem := s\<rparr>)
     }
   }"

definition class_get_num_members_part_000 ::
    "(Class_part_000, Function_part_000) early_store \<Rightarrow> addr ptr \<Rightarrow> size_t option" where
  "class_get_num_members_part_000 s klass =
     (if klass = NULL then Some 0
      else map_option Class_part_000.num_members (early_load_Class s klass))"

definition class_get_member_part_000 ::
    "addr ptr \<Rightarrow> size_t \<Rightarrow> (Class_part_000, Function_part_000) early_world \<Rightarrow>
     (ref ptr \<times> (Class_part_000, Function_part_000) early_world) option" where
  "class_get_member_part_000 klass index w =
     (if klass = NULL then Some (NULL, w)
      else do {
        num_members \<leftarrow> class_get_num_members_part_000 (early_mem w) klass;
        if index < num_members then do {
          c \<leftarrow> early_load_Class (early_mem w) klass;
          p \<leftarrow> element (Class_part_000.members c) index;
          Some (p, w)
        }
        else Some (NULL, DEBUG_BREAK_early ''index out of bounds!'' w)
      })"

definition member_at_part_000 ::
    "(Class_part_000, Function_part_000) early_store \<Rightarrow> addr ptr \<Rightarrow> size_t \<Rightarrow>
     Member option" where
  "member_at_part_000 s klass index = do {
     (p, w) \<leftarrow> class_get_member_part_000 klass index \<lparr>early_mem = s, early_trace = []\<rparr>;
     early_load_Member s p
   }"

subsection \<open>A caller's array\<close>

text \<open>
  For examples: a store of each earlier iteration in which the caller's array of one
  member is block 0 and the allocator grants one request, and a descriptor of
  \<^verbatim>\<open>part_000\<close> over it, without constructor.
\<close>

definition caller_store :: "(addr \<Rightarrow> 'c) \<Rightarrow> ('c, 'f) early_store" where
  "caller_store junk =
     \<lparr>early_heap = [Early_Members [\<lparr>Member.data = 5, name = Ptr ''m'', type = MEMBER_TYPE_I32\<rparr>]],
      early_grants = [True], early_junk = junk\<rparr>"

definition caller_store_main_c :: "(Class_main_c, unit) early_store" where
  "caller_store_main_c =
     caller_store (\<lambda>a. \<lparr>Class_main_c.name = NULL, members = NULL, num_members = 0\<rparr>)"

definition caller_store_part_000 :: "(Class_part_000, Function_part_000) early_store" where
  "caller_store_part_000 =
     caller_store (\<lambda>a. \<lparr>Class_part_000.name = NULL, ctor = NULL, members = NULL,
                         num_members = 0, functions = NULL, num_functions = 0\<rparr>)"

definition caller_info :: ClassCreateInfo_part_000 where
  "caller_info = \<lparr>ClassCreateInfo_part_000.name = Ptr ''MyClass'', ctor = NULL,
                   members = Ptr (0, 0), num_members = 1,
                   functions = NULL, num_functions = 0\<rparr>"

text \<open>The instances that the two routines build there; no function can be called through
  a pointer.\<close>

definition no_callable ::
    "fn_ptr \<Rightarrow> (addr ptr \<Rightarrow> (Class_part_000, Function_part_000) early_store \<Rightarrow>
       (Class_part_000, Function_part_000) early_store option) option" where
  "no_callable f = None"

definition instance_main_c :: "(Class_main_c, unit) early_store" where
  "instance_main_c = snd (the (class_new (Ptr ''MyClass'') (Ptr (0, 0)) 1 caller_store_main_c))"

definition instance_part_000 :: "(Class_part_000, Function_part_000) early_store" where
  "instance_part_000 =
     early_mem (snd (the (class_create_part_000 no_callable (Some caller_info)
                            \<lparr>early_mem = caller_store_part_000, early_trace = []\<rparr>)))"

section \<open>The Vec2 test of the source\<close>

text \<open>
  Variables of the test whose address is taken live in the store as well: a local
  variable is a block of its own, put there when it is declared (with indeterminate
  content, and without asking the allocator) and given back when its function returns.
\<close>

definition local_Function :: "store \<Rightarrow> ref ptr \<times> store" where
  "local_Function s =
     (Ptr (length (heap s), 0), push (Function_array [junk_Function s (length (heap s)) 0]) s)"

definition local_Member :: "nat \<Rightarrow> store \<Rightarrow> ref ptr \<times> store" where
  "local_Member n s =
     (Ptr (length (heap s), 0),
      push (Member_array (map (junk_Member s (length (heap s))) [0 ..< n])) s)"

primrec leave :: "ref ptr list \<Rightarrow> store \<Rightarrow> store" where
  "leave [] s = s"
| "leave (p # ps) s = leave ps (case p of NULL \<Rightarrow> s | Ptr (a, i) \<Rightarrow> put a Released s)"

text \<open>The addresses of the three functions of the test, and the two with an empty
  body.\<close>

definition addr_vec2_ctor :: fn_ptr where "addr_vec2_ctor = 1"
definition addr_vec2_dtor :: fn_ptr where "addr_vec2_dtor = 2"
definition addr_vec2_add :: fn_ptr where "addr_vec2_add = 3"

definition vec2_ctor :: "addr ptr \<Rightarrow> store \<Rightarrow> store option" where
  "vec2_ctor this s = Some s"

definition vec2_dtor :: "addr ptr \<Rightarrow> store \<Rightarrow> store option" where
  "vec2_dtor this s = Some s"

definition vec2_unary :: "fn_ptr \<Rightarrow> (addr ptr \<Rightarrow> store \<Rightarrow> store option) option" where
  "vec2_unary f =
     (if f = addr_vec2_ctor then Some vec2_ctor
      else if f = addr_vec2_dtor then Some vec2_dtor
      else None)"

text \<open>The loop of \<^verbatim>\<open>create_vec2\<close> that sets the type of every element of the
  local array.\<close>

primrec set_member_types :: "ref ptr \<Rightarrow> nat list \<Rightarrow> store \<Rightarrow> store option" where
  "set_member_types array [] s = Some s"
| "set_member_types array (i # is) s = do {
     member \<leftarrow> element_at array i;
     s \<leftarrow> write_Member member (\<lambda>m. m\<lparr>Member.type := MEMBER_TYPE_F32\<rparr>) s;
     set_member_types array is s
   }"

text \<open>\<^verbatim>\<open>create_vec2\<close>. The fields \<^verbatim>\<open>type\<close> and \<^verbatim>\<open>binary_member_fn\<close> of
  \<^verbatim>\<open>ctor\<close> and \<^verbatim>\<open>dtor\<close>, and \<^verbatim>\<open>fn\<close> of \<^verbatim>\<open>add_fn\<close>, are never
  assigned.\<close>

definition create_vec2 :: "env \<Rightarrow> 32 word \<Rightarrow> 32 word \<Rightarrow> world \<Rightarrow> (addr ptr \<times> world) option" where
  "create_vec2 env x y w = do {
     (ctor, s) \<leftarrow> Some (local_Function (mem w));
     s \<leftarrow> write_Function ctor (\<lambda>f. f\<lparr>fn := addr_vec2_ctor\<rparr>) s;
     s \<leftarrow> write_Function ctor (\<lambda>f. f\<lparr>Function.name := Ptr ''vec2_ctor''\<rparr>) s;
     (dtor, s) \<leftarrow> Some (local_Function s);
     s \<leftarrow> write_Function dtor (\<lambda>f. f\<lparr>fn := addr_vec2_dtor\<rparr>) s;
     s \<leftarrow> write_Function dtor (\<lambda>f. f\<lparr>Function.name := Ptr ''vec2_dtor''\<rparr>) s;
     (x_member, s) \<leftarrow> Some (local_Member 1 s);
     (y_member, s) \<leftarrow> Some (local_Member 1 s);
     s \<leftarrow> write_Member x_member (\<lambda>m. m\<lparr>Member.name := Ptr ''x''\<rparr>) s;
     s \<leftarrow> write_Member x_member (\<lambda>m. m\<lparr>Member.data := set_f_data x (Member.data m)\<rparr>) s;
     s \<leftarrow> write_Member y_member (\<lambda>m. m\<lparr>Member.name := Ptr ''y''\<rparr>) s;
     s \<leftarrow> write_Member y_member (\<lambda>m. m\<lparr>Member.data := set_f_data y (Member.data m)\<rparr>) s;
     (members, s) \<leftarrow> Some (local_Member 2 s);
     xm \<leftarrow> load_Member s x_member;
     m0 \<leftarrow> element_at members 0;
     s \<leftarrow> write_Member m0 (\<lambda>_. xm) s;
     ym \<leftarrow> load_Member s y_member;
     m1 \<leftarrow> element_at members 1;
     s \<leftarrow> write_Member m1 (\<lambda>_. ym) s;
     let num_members = (2 :: size_t);
     s \<leftarrow> set_member_types members [0 ..< unat num_members] s;
     (add_fn, s) \<leftarrow> Some (local_Function s);
     s \<leftarrow> write_Function add_fn (\<lambda>f. f\<lparr>Function.type := FUNCTION_TYPE_MEMBER_FUNCTION\<rparr>) s;
     s \<leftarrow> write_Function add_fn (\<lambda>f. f\<lparr>binary_member_fn := addr_vec2_add\<rparr>) s;
     s \<leftarrow> write_Function add_fn (\<lambda>f. f\<lparr>Function.name := Ptr ''vec2_add''\<rparr>) s;
     let createInfo = \<lparr>ClassCreateInfo.name = Ptr ''Vec2'', ctor = ctor, dtor = dtor,
            members = members, num_members = num_members,
            functions = add_fn, num_functions = 1\<rparr>;
     (klass, w) \<leftarrow> class_create env (Some createInfo) (w\<lparr>mem := s\<rparr>);
     let w = w\<lparr>mem := leave [ctor, dtor, x_member, y_member, members, add_fn] (mem w)\<rparr>;
     if klass = NULL then Some (NULL, w) else Some (klass, w)
   }"

text \<open>
  \<^verbatim>\<open>vec2_add\<close>, as the function the pointer \<^verbatim>\<open>binary_member_fn\<close> of the test
  stands for. It calls \<^verbatim>\<open>create_vec2\<close>, whose only call through a function pointer
  is the unary call of the constructor; the functions it can reach that way are those
  of \<open>vec2_unary\<close>. The result is not tested for null before it is used.
\<close>

definition vec2_add :: "addr ptr \<Rightarrow> addr ptr \<Rightarrow> store \<Rightarrow> (addr ptr \<times> store) option" where
  "vec2_add lhs rhs s = do {
     (result, w) \<leftarrow> create_vec2 \<lparr>unary = vec2_unary, binary = (\<lambda>f. None)\<rparr>
                       (f32_of_int 0) (f32_of_int 0) \<lparr>mem = s, trace = []\<rparr>;
     let s = mem w;
     r \<leftarrow> load_Class s result;
     l \<leftarrow> load_Class s lhs;
     rh \<leftarrow> load_Class s rhs;
     r0 \<leftarrow> element_at (Class.members r) 0;
     l0 \<leftarrow> element_at (Class.members l) 0;
     rh0 \<leftarrow> element_at (Class.members rh) 0;
     lm \<leftarrow> load_Member s l0;
     rm \<leftarrow> load_Member s rh0;
     s \<leftarrow> write_Member r0 (\<lambda>m. m\<lparr>Member.data :=
            set_f_data (f32_add (f_data (Member.data lm)) (f_data (Member.data rm))) (Member.data m)\<rparr>) s;
     r \<leftarrow> load_Class s result;
     l \<leftarrow> load_Class s lhs;
     rh \<leftarrow> load_Class s rhs;
     r1 \<leftarrow> element_at (Class.members r) 1;
     l1 \<leftarrow> element_at (Class.members l) 1;
     rh1 \<leftarrow> element_at (Class.members rh) 1;
     lm \<leftarrow> load_Member s l1;
     rm \<leftarrow> load_Member s rh1;
     s \<leftarrow> write_Member r1 (\<lambda>m. m\<lparr>Member.data :=
            set_f_data (f32_add (f_data (Member.data lm)) (f_data (Member.data rm))) (Member.data m)\<rparr>) s;
     Some (result, s)
   }"

definition vec2_binary ::
    "fn_ptr \<Rightarrow> (addr ptr \<Rightarrow> addr ptr \<Rightarrow> store \<Rightarrow> (addr ptr \<times> store) option) option" where
  "vec2_binary f = (if f = addr_vec2_add then Some vec2_add else None)"

definition vec2_env :: env where
  "vec2_env = \<lparr>unary = vec2_unary, binary = vec2_binary\<rparr>"

text \<open>The first three statements of \<^verbatim>\<open>test_vec2_class\<close>: the two instances and the
  sum.\<close>

definition test_vec2_class_sum ::
    "world \<Rightarrow> ((addr ptr \<times> addr ptr \<times> addr ptr) \<times> world) option" where
  "test_vec2_class_sum w = do {
     (a, w) \<leftarrow> create_vec2 vec2_env (f32_of_int 1) (f32_of_int 3) w;
     (b, w) \<leftarrow> create_vec2 vec2_env (f32_of_int 2) (f32_of_int 4) w;
     (c, w) \<leftarrow> class_invoke_function vec2_env a b 0 w;
     Some ((a, b, c), w)
   }"

text \<open>The loop of \<^verbatim>\<open>test_vec2_class\<close> over the three instances.\<close>

primrec destroy_all :: "env \<Rightarrow> addr ptr list \<Rightarrow> world \<Rightarrow> world option" where
  "destroy_all env [] w = Some w"
| "destroy_all env (klass # classes) w = do {
     w \<leftarrow> class_destroy env klass w;
     destroy_all env classes w
   }"

text \<open>\<^verbatim>\<open>test_vec2_class\<close> (the printing of the sum left out).\<close>

definition test_vec2_class :: "world \<Rightarrow> world option" where
  "test_vec2_class w = do {
     ((a, b, c), w) \<leftarrow> test_vec2_class_sum w;
     destroy_all vec2_env [a, b, c] w
   }"

text \<open>An empty store whose allocator grants the next \<open>n\<close> requests.\<close>

definition empty_store :: "nat \<Rightarrow> store" where
  "empty_store n =
     \<lparr>heap = [], grants = replicate n True,
      junk_Class = (\<lambda>a. \<lparr>Class.name = NULL, ctor = NULL, dtor = NULL, members = NULL,
                           num_members = 0, functions = NULL, num_functions = 0\<rparr>),
      junk_Member = (\<lambda>a i. \<lparr>Member.data = 0, name = NULL, type = 0\<rparr>),
      junk_Function = (\<lambda>a i. \<lparr>Function.name = NULL, type = 0, fn = 0, binary_member_fn = 0\<rparr>)\<rparr>"

text \<open>A world in which the test can run: nothing is allocated yet, the allocator grants
  the fifteen requests that the three instances make (five each), and what indeterminate
  memory holds is arbitrary.\<close>

definition test_world ::
    "(addr \<Rightarrow> Class) \<Rightarrow> (addr \<Rightarrow> nat \<Rightarrow> Member) \<Rightarrow> (addr \<Rightarrow> nat \<Rightarrow> Function) \<Rightarrow> world" where
  "test_world jc jm jf =
     \<lparr>mem = (empty_store 15)\<lparr>junk_Class := jc, junk_Member := jm, junk_Function := jf\<rparr>,
      trace = []\<rparr>"

text \<open>
  A small store for examples: an instance at address 0 with one member (block 1) and
  three functions (block 2), a member and a function outside any table (blocks 3 and
  4), and an allocator that grants five requests. In \<open>demo_env\<close> the binary function at
  address 7 returns its second argument.
\<close>

definition demo_store :: store where
  "demo_store = (empty_store 0)\<lparr>grants := [True, True, True, True, True], heap :=
     [Class_obj \<lparr>Class.name = Ptr ''Demo'', ctor = NULL, dtor = NULL,
                 members = Ptr (1, 0), num_members = 1,
                 functions = Ptr (2, 0), num_functions = 3\<rparr>,
      Member_array [\<lparr>Member.data = 5, name = Ptr ''m'', type = MEMBER_TYPE_I32\<rparr>],
      Function_array
        [\<lparr>Function.name = Ptr ''c'', type = FUNCTION_TYPE_CONSTRUCTOR,
          fn = addr_vec2_ctor, binary_member_fn = 7\<rparr>,
         \<lparr>Function.name = Ptr ''d'', type = FUNCTION_TYPE_DESTRUCTOR,
          fn = addr_vec2_dtor, binary_member_fn = 7\<rparr>,
         \<lparr>Function.name = Ptr ''f'', type = FUNCTION_TYPE_MEMBER_FUNCTION,
          fn = addr_vec2_ctor, binary_member_fn = 7\<rparr>],
      Member_array [\<lparr>Member.data = 9, name = Ptr ''n'', type = MEMBER_TYPE_U32\<rparr>],
      Function_array
        [\<lparr>Function.name = Ptr ''g'', type = FUNCTION_TYPE_MEMBER_FUNCTION,
          fn = addr_vec2_dtor, binary_member_fn = 7\<rparr>]]\<rparr>"

text \<open>A descriptor over \<open>demo_store\<close>: constructor and destructor are the first two
  functions of block 2, the initial member is the one of block 1 and the initial
  function the one of block 4.\<close>

definition demo_info :: ClassCreateInfo where
  "demo_info = \<lparr>ClassCreateInfo.name = Ptr ''Copy'', ctor = Ptr (2, 0), dtor = Ptr (2, 1),
                 members = Ptr (1, 0), num_members = 1,
                 functions = Ptr (4, 0), num_functions = 1\<rparr>"

definition demo_env :: env where
  "demo_env = \<lparr>unary = vec2_unary,
                binary = (\<lambda>f. if f = 7 then Some (\<lambda>klass other s. Some (other, s)) else None)\<rparr>"

text \<open>The instance that \<^verbatim>\<open>class_create\<close> builds from \<open>demo_info\<close> in \<open>demo_store\<close>, and
  the one it builds from a descriptor with a destructor and nothing else.\<close>

definition demo_instance :: world where
  "demo_instance =
     snd (the (class_create demo_env (Some demo_info) \<lparr>mem = demo_store, trace = []\<rparr>))"

definition bare_info :: ClassCreateInfo where
  "bare_info = \<lparr>ClassCreateInfo.name = Ptr ''Bare'', ctor = NULL, dtor = Ptr (2, 1),
                 members = NULL, num_members = 0, functions = NULL, num_functions = 0\<rparr>"

definition bare_instance :: world where
  "bare_instance =
     snd (the (class_create demo_env (Some bare_info) \<lparr>mem = demo_store, trace = []\<rparr>))"

section \<open>Properties\<close>

subsection \<open>Accessors\<close>

text \<open>
  C10. \<^verbatim>\<open>member_get_type\<close> of the null pointer is \<^verbatim>\<open>MEMBER_TYPE_I32\<close>, in every
  store: the accessor is total, and what it returns for the null pointer is what it
  returns for any existing member of type i32, so the result does not tell the two
  apart.
\<close>

theorem member_get_type_null:
  "member_get_type s NULL = Some MEMBER_TYPE_I32 \<and>
   (load_Member s member = Some m \<longrightarrow> Member.type m = MEMBER_TYPE_I32 \<longrightarrow>
      member_get_type s member = member_get_type s NULL)"
  by (auto simp: member_get_type_def)

theorem member_get_type_null_witness:
  "load_Member demo_store (Ptr (1, 0)) =
     Some \<lparr>Member.data = 5, name = Ptr ''m'', type = MEMBER_TYPE_I32\<rparr> \<and>
   member_get_type demo_store NULL = Some MEMBER_TYPE_I32 \<and>
   member_get_type demo_store (Ptr (1, 0)) = member_get_type demo_store NULL"
  using member_get_type_null [of demo_store "Ptr (1, 0)"
      "\<lparr>Member.data = 5, name = Ptr ''m'', type = MEMBER_TYPE_I32\<rparr>"]
  by (simp add: load_Member_def block_at_def demo_store_def)

text \<open>
  C8, as the code has it. Called with the null handle, the name accessors return the
  null pointer (not an empty string), the count accessors 0, the element accessors and
  the constructor and destructor accessors the null pointer, leaving the run as it is,
  and \<^verbatim>\<open>class_has_constructor\<close> and \<^verbatim>\<open>class_has_destructor\<close> return 0.
\<close>

theorem null_handle_sentinels:
  "member_get_name s NULL = Some NULL \<and>
   function_get_name s NULL = Some NULL \<and>
   class_get_name s NULL = Some NULL \<and>
   class_get_num_members s NULL = Some 0 \<and>
   class_get_num_functions s NULL = Some 0 \<and>
   class_get_member NULL i w = Some (NULL, w) \<and>
   class_get_function NULL i w = Some (NULL, w) \<and>
   class_get_constructor s NULL = Some NULL \<and>
   class_get_destructor s NULL = Some NULL \<and>
   class_has_constructor s NULL = Some 0 \<and>
   class_has_destructor s NULL = Some 0"
  by (simp add: member_get_name_def function_get_name_def class_get_name_def
      class_get_num_members_def class_get_num_functions_def class_get_member_def
      class_get_function_def class_get_constructor_def class_get_destructor_def
      class_has_constructor_def class_has_destructor_def)

text \<open>C8 as stated fails: no name accessor returns the empty name for the null
  handle.\<close>

theorem null_handle_name_not_empty:
  "member_get_name demo_store NULL \<noteq> Some (Ptr []) \<and>
   function_get_name demo_store NULL \<noteq> Some (Ptr []) \<and>
   class_get_name demo_store NULL \<noteq> Some (Ptr [])"
  by (simp add: member_get_name_def function_get_name_def class_get_name_def)

text \<open>\<^verbatim>\<open>member_get_data\<close> has no sentinel: after the break it reads through the
  null pointer.\<close>

lemma member_get_data_null: "member_get_data NULL w = None"
  by (simp add: member_get_data_def load_Member_def)

subsection \<open>Dispatch\<close>

text \<open>
  C1. The dispatch rule of \<^verbatim>\<open>function_invoke\<close> for an existing function \<open>f\<close> and
  an instance \<open>Ptr k\<close>. When the kind is constructor or destructor (whatever the other
  instance is), or member function with no other instance, the run makes one call of
  the unary callable \<open>fn f\<close> with the instance as its only argument, the store is
  what that call leaves, and the result is null. When the kind is member function and
  another instance \<open>Ptr j\<close> is given, the run makes one call of the binary callable
  \<open>binary_member_fn f\<close> with the instance and the other one, and the result is the
  pointer that call returns.
\<close>

theorem function_invoke_dispatch:
  assumes "load_Function (mem w) function = Some f"
  shows "(Function.type f = FUNCTION_TYPE_CONSTRUCTOR \<or>
          Function.type f = FUNCTION_TYPE_DESTRUCTOR \<or>
          Function.type f = FUNCTION_TYPE_MEMBER_FUNCTION \<and> other = NULL \<longrightarrow>
          unary env (fn f) = Some body \<longrightarrow> body (Ptr k) (mem w) = Some s' \<longrightarrow>
          function_invoke env function (Ptr k) other w =
            Some (NULL, \<lparr>mem = s', trace = trace w @ [Call_unary (fn f) (Ptr k)]\<rparr>)) \<and>
         (Function.type f = FUNCTION_TYPE_MEMBER_FUNCTION \<longrightarrow>
          binary env (binary_member_fn f) = Some callee \<longrightarrow>
          callee (Ptr k) (Ptr j) (mem w) = Some (r, s'') \<longrightarrow>
          function_invoke env function (Ptr k) (Ptr j) w =
            Some (r, \<lparr>mem = s'',
                       trace = trace w @ [Call_binary (binary_member_fn f) (Ptr k) (Ptr j)]\<rparr>))"
proof -
  have "function \<noteq> NULL"
    using assms by (auto simp: load_Function_def)
  then show ?thesis
    using assms
    by (auto simp: function_invoke_def function_get_type_def call_unary_def call_binary_def
        FUNCTION_TYPE_CONSTRUCTOR_def FUNCTION_TYPE_DESTRUCTOR_def
        FUNCTION_TYPE_MEMBER_FUNCTION_def)
qed

lemmas demo_defs = demo_store_def demo_env_def empty_store_def block_at_def
  load_Class_def load_Member_def load_Function_def
  FUNCTION_TYPE_CONSTRUCTOR_def FUNCTION_TYPE_DESTRUCTOR_def FUNCTION_TYPE_MEMBER_FUNCTION_def
  MEMBER_TYPE_I32_def MEMBER_TYPE_U32_def vec2_unary_def vec2_ctor_def vec2_dtor_def
  addr_vec2_ctor_def addr_vec2_dtor_def

theorem function_invoke_dispatch_witness:
  "function_invoke demo_env (Ptr (2, 0)) (Ptr 0) (Ptr 0) \<lparr>mem = demo_store, trace = []\<rparr> =
     Some (NULL, \<lparr>mem = demo_store, trace = [Call_unary addr_vec2_ctor (Ptr 0)]\<rparr>) \<and>
   function_invoke demo_env (Ptr (2, 2)) (Ptr 0) NULL \<lparr>mem = demo_store, trace = []\<rparr> =
     Some (NULL, \<lparr>mem = demo_store, trace = [Call_unary addr_vec2_ctor (Ptr 0)]\<rparr>) \<and>
   function_invoke demo_env (Ptr (2, 2)) (Ptr 0) (Ptr 0) \<lparr>mem = demo_store, trace = []\<rparr> =
     Some (Ptr 0, \<lparr>mem = demo_store, trace = [Call_binary 7 (Ptr 0) (Ptr 0)]\<rparr>)"
proof -
  let ?w = "\<lparr>mem = demo_store, trace = []\<rparr>"
  let ?c = "\<lparr>Function.name = Ptr ''c'', type = FUNCTION_TYPE_CONSTRUCTOR,
          fn = addr_vec2_ctor, binary_member_fn = 7\<rparr>"
  let ?f = "\<lparr>Function.name = Ptr ''f'', type = FUNCTION_TYPE_MEMBER_FUNCTION,
          fn = addr_vec2_ctor, binary_member_fn = 7\<rparr>"
  have c: "load_Function (mem ?w) (Ptr (2, 0)) = Some ?c"
    and f: "load_Function (mem ?w) (Ptr (2, 2)) = Some ?f"
    by (simp_all add: demo_defs)
  show ?thesis
    using function_invoke_dispatch [OF c, where env = demo_env and body = vec2_ctor
        and k = 0 and s' = demo_store and other = "Ptr 0"]
      function_invoke_dispatch [OF f, where env = demo_env and body = vec2_ctor
        and k = 0 and s' = demo_store and other = NULL
        and callee = "\<lambda>klass other s. Some (other, s)" and j = 0 and r = "Ptr 0"
        and s'' = demo_store]
    by (simp add: demo_env_def vec2_unary_def vec2_ctor_def FUNCTION_TYPE_CONSTRUCTOR_def
        FUNCTION_TYPE_MEMBER_FUNCTION_def)
qed

subsection \<open>Bounds\<close>

lemma word_pred_less: "(n::64 word) \<noteq> 0 \<Longrightarrow> n \<le> i \<Longrightarrow> n - 1 < i"
proof -
  assume a: "n \<noteq> 0" "n \<le> i"
  have "unat (n - 1) = unat n - 1" using a(1) by (simp add: unat_minus_one)
  moreover have "0 < unat n" using a(1) by (simp add: unat_gt_0)
  moreover have "unat n \<le> unat i" using a(2) by (simp add: word_le_nat_alt)
  ultimately have "unat (n - 1) < unat i" by linarith
  then show ?thesis by (simp add: word_less_nat_alt)
qed

text \<open>
  C5. For an existing instance and an index that is not below the count,
  \<^verbatim>\<open>class_get_member\<close>, \<^verbatim>\<open>class_get_function\<close> and \<^verbatim>\<open>class_invoke_function\<close>
  return the null pointer; the store stays as it is, no callable is called and the run
  only gets debug breaks. With an empty function table the bound check of
  \<^verbatim>\<open>class_invoke_function\<close> lets every index through (its bound has wrapped around);
  the null pointer then comes from \<^verbatim>\<open>class_get_function\<close> and
  \<^verbatim>\<open>function_invoke\<close>, after a second break.
\<close>

theorem index_out_of_bounds:
  assumes "load_Class (mem w) (Ptr k) = Some c"
  shows "(Class.num_members c \<le> i \<longrightarrow>
            class_get_member (Ptr k) i w = Some (NULL, DEBUG_BREAK ''index out of bounds!'' w)) \<and>
         (Class.num_functions c \<le> i \<longrightarrow>
            class_get_function (Ptr k) i w = Some (NULL, DEBUG_BREAK ''index out of bounds!'' w) \<and>
            class_invoke_function env (Ptr k) other i w =
              Some (NULL, if Class.num_functions c = 0
                          then DEBUG_BREAK ''invalid function!''
                                 (DEBUG_BREAK ''index out of bounds!'' w)
                          else DEBUG_BREAK ''index out of bounds!'' w))"
proof (intro conjI impI)
  assume "Class.num_members c \<le> i"
  then have "\<not> i < Class.num_members c" by (rule leD)
  then show "class_get_member (Ptr k) i w = Some (NULL, DEBUG_BREAK ''index out of bounds!'' w)"
    using assms by (simp add: class_get_member_def class_get_num_members_def)
next
  assume le: "Class.num_functions c \<le> i"
  then have "\<not> i < Class.num_functions c" by (rule leD)
  then show get: "class_get_function (Ptr k) i w =
      Some (NULL, DEBUG_BREAK ''index out of bounds!'' w)"
    using assms by (simp add: class_get_function_def class_get_num_functions_def)
  show "class_invoke_function env (Ptr k) other i w =
      Some (NULL, if Class.num_functions c = 0
                  then DEBUG_BREAK ''invalid function!'' (DEBUG_BREAK ''index out of bounds!'' w)
                  else DEBUG_BREAK ''index out of bounds!'' w)"
  proof (cases "Class.num_functions c = 0")
    case True
    then show ?thesis
      using assms get
      by (simp add: class_invoke_function_def class_get_num_functions_def function_invoke_def)
  next
    case False
    then show ?thesis
      using assms word_pred_less [OF False le]
      by (simp add: class_invoke_function_def class_get_num_functions_def)
  qed
qed

theorem index_out_of_bounds_witness:
  "class_get_member (Ptr 0) 1 \<lparr>mem = demo_store, trace = []\<rparr> =
     Some (NULL, \<lparr>mem = demo_store, trace = [Debug_break ''index out of bounds!'']\<rparr>) \<and>
   class_get_function (Ptr 0) 3 \<lparr>mem = demo_store, trace = []\<rparr> =
     Some (NULL, \<lparr>mem = demo_store, trace = [Debug_break ''index out of bounds!'']\<rparr>) \<and>
   class_invoke_function demo_env (Ptr 0) (Ptr 0) 3 \<lparr>mem = demo_store, trace = []\<rparr> =
     Some (NULL, \<lparr>mem = demo_store, trace = [Debug_break ''index out of bounds!'']\<rparr>)"
proof -
  let ?w = "\<lparr>mem = demo_store, trace = []\<rparr>"
  let ?c = "\<lparr>Class.name = Ptr ''Demo'', ctor = NULL, dtor = NULL,
                 members = Ptr (1, 0), num_members = 1,
                 functions = Ptr (2, 0), num_functions = 3\<rparr>"
  have c: "load_Class (mem ?w) (Ptr 0) = Some ?c"
    by (simp add: demo_defs)
  show ?thesis
    using index_out_of_bounds [OF c, where i = 1 and env = demo_env and other = "Ptr 0"]
      index_out_of_bounds [OF c, where i = 3 and env = demo_env and other = "Ptr 0"]
    by (simp add: DEBUG_BREAK_def)
qed

subsection \<open>Appending\<close>

text \<open>
  C7, as the code has it. \<^verbatim>\<open>class_add_member\<close> and \<^verbatim>\<open>class_add_function\<close> decline
  when the class handle is null and also when the element pointer is null; in both
  cases the run gets a debug break and the store, with every table, count and element
  in it, is exactly as before. (What the routines leave behind when the allocator
  refuses to grow the table is not part of this statement.)
\<close>

theorem append_declined_unchanged:
  "class_add_member NULL member w = Some (DEBUG_BREAK ''invalid class!'' w) \<and>
   class_add_member (Ptr k) NULL w = Some (DEBUG_BREAK ''invalid member!'' w) \<and>
   class_add_function NULL function w = Some (DEBUG_BREAK ''invalid class!'' w) \<and>
   class_add_function (Ptr k) NULL w = Some (DEBUG_BREAK ''invalid function!'' w) \<and>
   mem (DEBUG_BREAK msg w) = mem w"
  by (simp add: class_add_member_def class_add_function_def DEBUG_BREAK_def)

text \<open>
  C7 as stated fails on the instance of \<open>demo_store\<close>, whose handle is valid. Appending
  the null member fails. And when the allocator refuses, appending the member of block
  3 fails (the count stays 1) and the table is not as before: index 0 no longer
  resolves to the stored element.
\<close>

theorem append_failure_counterexample:
  "load_Class demo_store (Ptr 0) \<noteq> None \<and>
   class_add_member (Ptr 0) NULL \<lparr>mem = demo_store, trace = []\<rparr> =
     Some \<lparr>mem = demo_store, trace = [Debug_break ''invalid member!'']\<rparr> \<and>
   class_add_member (Ptr 0) (Ptr (3, 0)) \<lparr>mem = demo_store\<lparr>grants := []\<rparr>, trace = []\<rparr> \<noteq> None \<and>
   class_get_num_members
     (mem (the (class_add_member (Ptr 0) (Ptr (3, 0))
                  \<lparr>mem = demo_store\<lparr>grants := []\<rparr>, trace = []\<rparr>))) (Ptr 0) = Some 1 \<and>
   member_at (demo_store\<lparr>grants := []\<rparr>) (Ptr 0) 0 =
     Some \<lparr>Member.data = 5, name = Ptr ''m'', type = MEMBER_TYPE_I32\<rparr> \<and>
   member_at
     (mem (the (class_add_member (Ptr 0) (Ptr (3, 0))
                  \<lparr>mem = demo_store\<lparr>grants := []\<rparr>, trace = []\<rparr>))) (Ptr 0) 0 = None"
  by (simp add: demo_defs class_add_member_def class_get_num_members_def realloc_Member_def
      allocate_def write_Class_def put_def member_at_def class_get_member_def element_def
      element_at_def DEBUG_BREAK_def sizeof_Member_def)

section \<open>The store\<close>

lemma block_at_live: "block_at s a \<noteq> Released \<Longrightarrow> a < length (heap s)"
  by (simp add: block_at_def split: if_splits)

lemma block_at_fresh [simp]: "block_at s (length (heap s)) = Released"
  by (simp add: block_at_def)

lemma put_simps [simp]:
  "a < length (heap s) \<Longrightarrow> block_at (put a b s) a' = (if a' = a then b else block_at s a')"
  "length (heap (put a b s)) = length (heap s)"
  "grants (put a b s) = grants s"
  "junk_Class (put a b s) = junk_Class s"
  "junk_Member (put a b s) = junk_Member s"
  "junk_Function (put a b s) = junk_Function s"
  by (auto simp: put_def block_at_def)

lemma push_simps [simp]:
  "block_at (push b s) a' = (if a' = length (heap s) then b else block_at s a')"
  "length (heap (push b s)) = Suc (length (heap s))"
  "grants (push b s) = grants s"
  "junk_Class (push b s) = junk_Class s"
  "junk_Member (push b s) = junk_Member s"
  "junk_Function (push b s) = junk_Function s"
  by (auto simp: push_def block_at_def nth_append)

lemma block_at_grants [simp]: "block_at (s\<lparr>grants := g\<rparr>) a = block_at s a"
  by (simp add: block_at_def)

lemma put_put [simp]: "put a b (put a b' s) = put a b s"
  by (simp add: put_def)

lemma put_same: "block_at s a = b \<Longrightarrow> a < length (heap s) \<Longrightarrow> put a b s = s"
  by (simp add: put_def block_at_def list_update_same_conv)

lemma load_Class_SomeD:
  assumes "load_Class s p = Some c"
  obtains k where "p = Ptr k" "block_at s k = Class_obj c"
  using assms by (auto simp: load_Class_def split: ptr.splits block.splits)

lemma load_Class_at: "block_at s k = Class_obj c \<Longrightarrow> load_Class s (Ptr k) = Some c"
  by (simp add: load_Class_def)

lemma write_Class_at:
  "block_at s k = Class_obj c \<Longrightarrow> write_Class (Ptr k) f s = Some (put k (Class_obj (f c)) s)"
  by (simp add: write_Class_def)

lemma load_Member_SomeD:
  assumes "load_Member s p = Some m"
  obtains a i ms where "p = Ptr (a, i)" "block_at s a = Member_array ms" "i < length ms"
    "ms ! i = m"
  using assms by (auto simp: load_Member_def split: ptr.splits block.splits if_splits)

lemma load_Member_at:
  "block_at s a = Member_array ms \<Longrightarrow>
     load_Member s (Ptr (a, i)) = (if i < length ms then Some (ms ! i) else None)"
  by (simp add: load_Member_def)

lemma write_Member_at:
  "block_at s a = Member_array ms \<Longrightarrow>
     write_Member (Ptr (a, i)) f s =
       (if i < length ms then Some (put a (Member_array (ms[i := f (ms ! i)])) s) else None)"
  by (simp add: write_Member_def)

lemma load_Function_SomeD:
  assumes "load_Function s p = Some f"
  obtains a i fs where "p = Ptr (a, i)" "block_at s a = Function_array fs" "i < length fs"
    "fs ! i = f"
  using assms by (auto simp: load_Function_def split: ptr.splits block.splits if_splits)

lemma load_Function_at:
  "block_at s a = Function_array fs \<Longrightarrow>
     load_Function s (Ptr (a, i)) = (if i < length fs then Some (fs ! i) else None)"
  by (simp add: load_Function_def)

lemma write_Function_at:
  "block_at s a = Function_array fs \<Longrightarrow>
     write_Function (Ptr (a, i)) f s =
       (if i < length fs then Some (put a (Function_array (fs[i := f (fs ! i)])) s) else None)"
  by (simp add: write_Function_def)

lemma Member_copied:
  "m\<lparr>Member.name := Member.name x, Member.type := Member.type x,
     Member.data := Member.data x\<rparr> = x"
  for m x :: Member
  by (cases m, cases x) simp

lemma Function_copied:
  "f\<lparr>fn := fn x, binary_member_fn := binary_member_fn x, Function.name := Function.name x,
     Function.type := Function.type x\<rparr> = x"
  for f x :: Function
  by (cases f, cases x) simp

subsection \<open>Sizes and counts\<close>

lemma unat_count_Suc: "unat (n::64 word) + 1 < 2 ^ 64 \<Longrightarrow> unat (n + 1) = unat n + 1"
  by (simp add: unat_word_ariths)

lemma Member_capacity:
  assumes "unat sizeof_Member * (unat n + 1) < 2 ^ 64"
  shows "unat (sizeof_Member * n + sizeof_Member) div unat sizeof_Member = unat n + 1"
proof -
  have "unat (sizeof_Member * n + sizeof_Member) = 24 * unat n + 24"
    using assms by (simp add: sizeof_Member_def unat_word_ariths)
  then show ?thesis by (simp add: sizeof_Member_def)
qed

lemma Function_capacity:
  assumes "unat sizeof_Function * (unat n + 1) < 2 ^ 64"
  shows "unat (sizeof_Function * n + sizeof_Function) div unat sizeof_Function = unat n + 1"
proof -
  have "unat (sizeof_Function * n + sizeof_Function) = 32 * unat n + 32"
    using assms by (simp add: sizeof_Function_def unat_word_ariths)
  then show ?thesis by (simp add: sizeof_Function_def)
qed

lemma grown_block:
  "map (\<lambda>j. if j < length xs then xs ! j else f j) [0 ..< Suc (length xs)] = xs @ [f (length xs)]"
  by (rule nth_equalityI) (auto simp: nth_append less_Suc_eq simp del: upt_Suc)

lemma update_last: "length xs = n \<Longrightarrow> (xs @ [x])[n := y] = xs @ [y]"
  by auto

subsection \<open>Tables\<close>

lemma member_at_table:
  assumes "load_Class s (Ptr k) = Some c" "member_table s c = Some ms" "i < Class.num_members c"
  shows "member_at s (Ptr k) i = Some (ms ! unat i)"
proof -
  have n: "unat i < unat (Class.num_members c)" using assms(3) by (simp add: word_less_nat_alt)
  then have "Class.num_members c \<noteq> 0" by auto
  then obtain a where a: "Class.members c = Ptr (a, 0)" "block_at s a = Member_array ms"
      "length ms = unat (Class.num_members c)"
    using assms(2) by (auto simp: member_table_def split: ptr.splits block.splits if_splits)
  show ?thesis using assms(1,3) a n
    by (simp add: member_at_def class_get_member_def class_get_num_members_def element_def
        element_at_def load_Member_def)
qed

lemma function_at_table:
  assumes "load_Class s (Ptr k) = Some c" "function_table s c = Some fs"
    "i < Class.num_functions c"
  shows "function_at s (Ptr k) i = Some (fs ! unat i)"
proof -
  have n: "unat i < unat (Class.num_functions c)" using assms(3) by (simp add: word_less_nat_alt)
  then have "Class.num_functions c \<noteq> 0" by auto
  then obtain a where a: "Class.functions c = Ptr (a, 0)" "block_at s a = Function_array fs"
      "length fs = unat (Class.num_functions c)"
    using assms(2) by (auto simp: function_table_def split: ptr.splits block.splits if_splits)
  show ?thesis using assms(1,3) a n
    by (simp add: function_at_def class_get_function_def class_get_num_functions_def element_def
        element_at_def load_Function_def)
qed

subsection \<open>Growing a table\<close>

lemma class_add_member_grows:
  assumes c: "load_Class (mem w) (Ptr k) = Some c"
    and tbl: "member_table (mem w) c = Some ms"
    and e: "load_Member (mem w) member = Some e"
    and apart: "\<forall>a off j. Class.members c = Ptr (a, off) \<longrightarrow> member \<noteq> Ptr (a, j)"
    and grant: "grants (mem w) = True # g"
    and room: "unat sizeof_Member * (unat (Class.num_members c) + 1) < 2 ^ 64"
  shows "\<exists>w'. class_add_member (Ptr k) member w = Some w' \<and> trace w' = trace w \<and>
           load_Class (mem w') (Ptr k) =
             Some (c\<lparr>Class.members := Ptr (length (heap (mem w)), 0),
                     Class.num_members := Class.num_members c + 1\<rparr>) \<and>
           unat (Class.num_members c + 1) = Suc (unat (Class.num_members c)) \<and>
           member_table (mem w')
             (c\<lparr>Class.members := Ptr (length (heap (mem w)), 0),
                Class.num_members := Class.num_members c + 1\<rparr>) = Some (ms @ [e])"
proof -
  let ?s = "mem w" and ?n = "Class.num_members c"
  let ?new = "length (heap ?s)"
  have kc: "block_at ?s k = Class_obj c"
    using c by (auto elim: load_Class_SomeD)
  then have k: "k < ?new" by (intro block_at_live) simp
  obtain b j es where m: "member = Ptr (b, j)" "block_at ?s b = Member_array es" "j < length es"
      "es ! j = e"
    using e by (auto elim: load_Member_SomeD)
  then have b: "b < ?new" by (intro block_at_live) simp
  have bk: "b \<noteq> k" using m kc by auto
  have n1: "unat ?n + 1 < 2 ^ 64" using room by (simp add: sizeof_Member_def)
  have cap: "unat (sizeof_Member * ?n + sizeof_Member) div unat sizeof_Member = Suc (unat ?n)"
    using Member_capacity [OF room] by simp
  have suc: "unat (?n + 1) = Suc (unat ?n)" using unat_count_Suc [OF n1] by simp
  then have nz: "?n + 1 \<noteq> 0" by auto
  show ?thesis
  proof (cases "Class.members c")
    case NULL
    then have ms: "ms = []" "unat ?n = 0"
      using tbl by (auto simp: member_table_def split: if_splits)
    show ?thesis
      using c kc k m b bk NULL ms grant cap suc nz
      by (simp add: class_add_member_def class_get_num_members_def realloc_Member_def
          malloc_Member_def allocate_def array_ptr_def write_Class_def load_Class_def
          write_Member_def load_Member_def element_def element_at_def member_table_def)
  next
    case (Ptr r)
    then obtain a where a: "Class.members c = Ptr (a, 0)" "block_at ?s a = Member_array ms"
        "length ms = unat ?n"
      using tbl by (cases r) (auto simp: member_table_def split: block.splits if_splits)
    then have al: "a < ?new" by (intro block_at_live) simp
    have ak: "a \<noteq> k" using a kc by auto
    have ab: "a \<noteq> b" using apart a m by auto
    have grow: "map (\<lambda>j. if j < length ms then ms ! j else junk_Member ?s ?new j)
        [0 ..< Suc (length ms)] = ms @ [junk_Member ?s ?new (length ms)]"
      by (rule grown_block)
    show ?thesis
      using c kc k m b bk a al ak ab grant cap suc nz grow update_last [OF a(3)]
      by (simp add: class_add_member_def class_get_num_members_def realloc_Member_def
          allocate_def write_Class_def load_Class_def
          write_Member_def load_Member_def element_def element_at_def member_table_def)
  qed
qed

lemma class_add_function_grows:
  assumes c: "load_Class (mem w) (Ptr k) = Some c"
    and tbl: "function_table (mem w) c = Some fs"
    and e: "load_Function (mem w) function = Some f"
    and apart: "\<forall>a off j. Class.functions c = Ptr (a, off) \<longrightarrow> function \<noteq> Ptr (a, j)"
    and grant: "grants (mem w) = True # g"
    and room: "unat sizeof_Function * (unat (Class.num_functions c) + 1) < 2 ^ 64"
  shows "\<exists>w'. class_add_function (Ptr k) function w = Some w' \<and> trace w' = trace w \<and>
           load_Class (mem w') (Ptr k) =
             Some (c\<lparr>Class.functions := Ptr (length (heap (mem w)), 0),
                     Class.num_functions := Class.num_functions c + 1\<rparr>) \<and>
           unat (Class.num_functions c + 1) = Suc (unat (Class.num_functions c)) \<and>
           function_table (mem w')
             (c\<lparr>Class.functions := Ptr (length (heap (mem w)), 0),
                Class.num_functions := Class.num_functions c + 1\<rparr>) = Some (fs @ [f])"
proof -
  let ?s = "mem w" and ?n = "Class.num_functions c"
  let ?new = "length (heap ?s)"
  have kc: "block_at ?s k = Class_obj c"
    using c by (auto elim: load_Class_SomeD)
  then have k: "k < ?new" by (intro block_at_live) simp
  obtain b j es where m: "function = Ptr (b, j)" "block_at ?s b = Function_array es"
      "j < length es" "es ! j = f"
    using e by (auto elim: load_Function_SomeD)
  then have b: "b < ?new" by (intro block_at_live) simp
  have bk: "b \<noteq> k" using m kc by auto
  have n1: "unat ?n + 1 < 2 ^ 64" using room by (simp add: sizeof_Function_def)
  have cap: "unat (sizeof_Function * ?n + sizeof_Function) div unat sizeof_Function = Suc (unat ?n)"
    using Function_capacity [OF room] by simp
  have suc: "unat (?n + 1) = Suc (unat ?n)" using unat_count_Suc [OF n1] by simp
  then have nz: "?n + 1 \<noteq> 0" by auto
  show ?thesis
  proof (cases "Class.functions c")
    case NULL
    then have fs: "fs = []" "unat ?n = 0"
      using tbl by (auto simp: function_table_def split: if_splits)
    show ?thesis
      using c kc k m b bk NULL fs grant cap suc nz
      by (simp add: class_add_function_def class_get_num_functions_def realloc_Function_def
          malloc_Function_def allocate_def array_ptr_def write_Class_def load_Class_def
          write_Function_def load_Function_def element_def element_at_def function_table_def)
  next
    case (Ptr r)
    then obtain a where a: "Class.functions c = Ptr (a, 0)" "block_at ?s a = Function_array fs"
        "length fs = unat ?n"
      using tbl by (cases r) (auto simp: function_table_def split: block.splits if_splits)
    then have al: "a < ?new" by (intro block_at_live) simp
    have ak: "a \<noteq> k" using a kc by auto
    have ab: "a \<noteq> b" using apart a m by auto
    have grow: "map (\<lambda>j. if j < length fs then fs ! j else junk_Function ?s ?new j)
        [0 ..< Suc (length fs)] = fs @ [junk_Function ?s ?new (length fs)]"
      by (rule grown_block)
    show ?thesis
      using c kc k m b bk a al ak ab grant cap suc nz grow update_last [OF a(3)]
      by (simp add: class_add_function_def class_get_num_functions_def realloc_Function_def
          allocate_def write_Class_def load_Class_def
          write_Function_def load_Function_def element_def element_at_def function_table_def)
  qed
qed

text \<open>When the allocator does not grant the request, the routines return with the count
  as it was.\<close>

lemma allocate_refused:
  assumes "\<forall>g. grants s \<noteq> True # g"
  shows "\<exists>s'. allocate mk s = (NULL, s') \<and> heap s' = heap s"
proof (cases "grants s")
  case Nil
  then show ?thesis by (simp add: allocate_def)
next
  case (Cons g gs)
  then have "\<not> g" using assms by auto
  then show ?thesis using Cons by (simp add: allocate_def)
qed

lemma same_heap: "heap s' = heap s \<Longrightarrow> block_at s' a = block_at s a"
  by (simp add: block_at_def)

lemma class_add_member_refused:
  assumes c: "load_Class (mem w) (Ptr k) = Some c"
    and tbl: "member_table (mem w) c = Some ms"
    and e: "member \<noteq> NULL"
    and refuse: "\<forall>g. grants (mem w) \<noteq> True # g"
  shows "\<exists>w'. class_add_member (Ptr k) member w = Some w' \<and>
           class_get_num_members (mem w') (Ptr k) = Some (Class.num_members c)"
proof -
  let ?sz = "sizeof_Member * Class.num_members c + sizeof_Member"
  have kc: "block_at (mem w) k = Class_obj c" using c by (auto elim: load_Class_SomeD)
  have "\<exists>s'. realloc_Member (Class.members c) ?sz (mem w) = Some (NULL, s') \<and>
      heap s' = heap (mem w)"
  proof (cases "Class.members c")
    case NULL
    from allocate_refused [OF refuse] obtain s' where
      "allocate (\<lambda>a. Member_array (map (junk_Member (mem w) a)
         [0 ..< unat ?sz div unat sizeof_Member])) (mem w) = (NULL, s')" "heap s' = heap (mem w)"
      by blast
    then show ?thesis using NULL by (simp add: realloc_Member_def malloc_Member_def array_ptr_def)
  next
    case (Ptr r)
    obtain a off where r: "r = (a, off)" by (cases r)
    with Ptr tbl have blk: "block_at (mem w) a = Member_array ms" "off = 0"
      by (auto simp: member_table_def split: block.splits if_splits)
    from allocate_refused [OF refuse] obtain s' where
      "allocate (\<lambda>a'. Member_array
          (map (\<lambda>j. if j < length ms then ms ! j else junk_Member (mem w) a' j)
             [0 ..< unat ?sz div unat sizeof_Member])) (mem w) = (NULL, s')"
      "heap s' = heap (mem w)"
      by blast
    then show ?thesis using Ptr r blk by (simp add: realloc_Member_def)
  qed
  then obtain s' where s': "realloc_Member (Class.members c) ?sz (mem w) = Some (NULL, s')"
      "heap s' = heap (mem w)"
    by blast
  have kc': "block_at s' k = Class_obj c" using kc same_heap [OF s'(2)] by simp
  then have k: "k < length (heap s')" by (intro block_at_live) simp
  let ?s2 = "put k (Class_obj (c\<lparr>Class.members := NULL\<rparr>)) s'"
  have run: "class_add_member (Ptr k) member w = Some (w\<lparr>mem := ?s2\<rparr>)"
    using e c s'(1) kc'
    by (simp add: class_add_member_def class_get_num_members_def write_Class_at)
  moreover have "class_get_num_members ?s2 (Ptr k) = Some (Class.num_members c)"
    using k by (simp add: class_get_num_members_def load_Class_def)
  ultimately show ?thesis by simp
qed

lemma class_add_function_refused:
  assumes c: "load_Class (mem w) (Ptr k) = Some c"
    and tbl: "function_table (mem w) c = Some fs"
    and e: "p \<noteq> NULL"
    and refuse: "\<forall>g. grants (mem w) \<noteq> True # g"
  shows "\<exists>w'. class_add_function (Ptr k) p w = Some w' \<and>
           class_get_num_functions (mem w') (Ptr k) = Some (Class.num_functions c)"
proof -
  let ?sz = "sizeof_Function * Class.num_functions c + sizeof_Function"
  have kc: "block_at (mem w) k = Class_obj c" using c by (auto elim: load_Class_SomeD)
  have "\<exists>s'. realloc_Function (Class.functions c) ?sz (mem w) = Some (NULL, s') \<and>
      heap s' = heap (mem w)"
  proof (cases "Class.functions c")
    case NULL
    from allocate_refused [OF refuse] obtain s' where
      "allocate (\<lambda>a. Function_array (map (junk_Function (mem w) a)
         [0 ..< unat ?sz div unat sizeof_Function])) (mem w) = (NULL, s')"
      "heap s' = heap (mem w)"
      by blast
    then show ?thesis
      using NULL by (simp add: realloc_Function_def malloc_Function_def array_ptr_def)
  next
    case (Ptr r)
    obtain a off where r: "r = (a, off)" by (cases r)
    with Ptr tbl have blk: "block_at (mem w) a = Function_array fs" "off = 0"
      by (auto simp: function_table_def split: block.splits if_splits)
    from allocate_refused [OF refuse] obtain s' where
      "allocate (\<lambda>a'. Function_array
          (map (\<lambda>j. if j < length fs then fs ! j else junk_Function (mem w) a' j)
             [0 ..< unat ?sz div unat sizeof_Function])) (mem w) = (NULL, s')"
      "heap s' = heap (mem w)"
      by blast
    then show ?thesis using Ptr r blk by (simp add: realloc_Function_def)
  qed
  then obtain s' where s': "realloc_Function (Class.functions c) ?sz (mem w) = Some (NULL, s')"
      "heap s' = heap (mem w)"
    by blast
  have kc': "block_at s' k = Class_obj c" using kc same_heap [OF s'(2)] by simp
  then have k: "k < length (heap s')" by (intro block_at_live) simp
  let ?s2 = "put k (Class_obj (c\<lparr>Class.functions := NULL\<rparr>)) s'"
  have run: "class_add_function (Ptr k) p w = Some (w\<lparr>mem := ?s2\<rparr>)"
    using e c s'(1) kc'
    by (simp add: class_add_function_def class_get_num_functions_def write_Class_at)
  moreover have "class_get_num_functions ?s2 (Ptr k) = Some (Class.num_functions c)"
    using k by (simp add: class_get_num_functions_def load_Class_def)
  ultimately show ?thesis by simp
qed

text \<open>When it grants the request: the grown table, read through the accessors.\<close>

lemma append_member_granted:
  assumes c: "load_Class (mem w) (Ptr k) = Some c"
    and ms: "member_table (mem w) c = Some ms"
    and e: "load_Member (mem w) member = Some e"
    and e_apart: "\<forall>a off j. Class.members c = Ptr (a, off) \<longrightarrow> member \<noteq> Ptr (a, j)"
    and e_room: "unat sizeof_Member * (unat (Class.num_members c) + 1) < 2 ^ 64"
    and grant: "grants (mem w) = True # g"
  shows "\<exists>w'. class_add_member (Ptr k) member w = Some w' \<and>
            class_get_num_members (mem w') (Ptr k) = Some (Class.num_members c + 1) \<and>
            unat (Class.num_members c + 1) = unat (Class.num_members c) + 1 \<and>
            member_at (mem w') (Ptr k) (Class.num_members c + 1 - 1) = Some e \<and>
            (\<forall>i < Class.num_members c.
               member_at (mem w) (Ptr k) i = Some (ms ! unat i) \<and>
               member_at (mem w') (Ptr k) i = Some (ms ! unat i))"
proof -
  let ?n = "Class.num_members c"
  from class_add_member_grows [OF c ms e e_apart grant e_room]
  obtain w' c' where w': "class_add_member (Ptr k) member w = Some w'"
      "load_Class (mem w') (Ptr k) = Some c'" "Class.num_members c' = ?n + 1"
      "unat (?n + 1) = Suc (unat ?n)" "member_table (mem w') c' = Some (ms @ [e])"
    by auto
  have len: "length ms = unat ?n"
    using ms by (auto simp: member_table_def split: ptr.splits block.splits if_splits)
  have last: "?n + 1 - 1 < Class.num_members c'"
    using w'(3,4) by (simp add: word_less_nat_alt)
  have "(ms @ [e]) ! unat ?n = e" by (simp add: len [symmetric])
  then have "member_at (mem w') (Ptr k) (?n + 1 - 1) = Some e"
    using member_at_table [OF w'(2) w'(5) last] by simp
  moreover have "member_at (mem w) (Ptr k) i = Some (ms ! unat i) \<and>
      member_at (mem w') (Ptr k) i = Some (ms ! unat i)" if "i < ?n" for i
  proof -
    have i: "unat i < unat ?n" using that by (simp add: word_less_nat_alt)
    then have "i < Class.num_members c'" using w'(3,4) by (simp add: word_less_nat_alt)
    from member_at_table [OF c ms that] member_at_table [OF w'(2) w'(5) this]
    show ?thesis using i len by (simp add: nth_append)
  qed
  ultimately show ?thesis
    using w' by (auto simp: class_get_num_members_def)
qed

lemma append_function_granted:
  assumes c: "load_Class (mem w) (Ptr k) = Some c"
    and fs: "function_table (mem w) c = Some fs"
    and f: "load_Function (mem w) p = Some f"
    and f_apart: "\<forall>a off j. Class.functions c = Ptr (a, off) \<longrightarrow> p \<noteq> Ptr (a, j)"
    and f_room: "unat sizeof_Function * (unat (Class.num_functions c) + 1) < 2 ^ 64"
    and grant: "grants (mem w) = True # g"
  shows "\<exists>w'. class_add_function (Ptr k) p w = Some w' \<and>
            class_get_num_functions (mem w') (Ptr k) = Some (Class.num_functions c + 1) \<and>
            unat (Class.num_functions c + 1) = unat (Class.num_functions c) + 1 \<and>
            function_at (mem w') (Ptr k) (Class.num_functions c + 1 - 1) = Some f \<and>
            (\<forall>i < Class.num_functions c.
               function_at (mem w) (Ptr k) i = Some (fs ! unat i) \<and>
               function_at (mem w') (Ptr k) i = Some (fs ! unat i))"
proof -
  let ?n = "Class.num_functions c"
  from class_add_function_grows [OF c fs f f_apart grant f_room]
  obtain w' c' where w': "class_add_function (Ptr k) p w = Some w'"
      "load_Class (mem w') (Ptr k) = Some c'" "Class.num_functions c' = ?n + 1"
      "unat (?n + 1) = Suc (unat ?n)" "function_table (mem w') c' = Some (fs @ [f])"
    by auto
  have len: "length fs = unat ?n"
    using fs by (auto simp: function_table_def split: ptr.splits block.splits if_splits)
  have last: "?n + 1 - 1 < Class.num_functions c'"
    using w'(3,4) by (simp add: word_less_nat_alt)
  have "(fs @ [f]) ! unat ?n = f" by (simp add: len [symmetric])
  then have "function_at (mem w') (Ptr k) (?n + 1 - 1) = Some f"
    using function_at_table [OF w'(2) w'(5) last] by simp
  moreover have "function_at (mem w) (Ptr k) i = Some (fs ! unat i) \<and>
      function_at (mem w') (Ptr k) i = Some (fs ! unat i)" if "i < ?n" for i
  proof -
    have i: "unat i < unat ?n" using that by (simp add: word_less_nat_alt)
    then have "i < Class.num_functions c'" using w'(3,4) by (simp add: word_less_nat_alt)
    from function_at_table [OF c fs that] function_at_table [OF w'(2) w'(5) this]
    show ?thesis using i len by (simp add: nth_append)
  qed
  ultimately show ?thesis
    using w' by (auto simp: class_get_num_functions_def)
qed

text \<open>
  C2, as the code has it. Take an instance whose member table is in order (\<open>ms\<close> are
  its elements), an existing member \<open>e\<close> that is not stored in that table, and a count
  for which the byte size of the grown table does not wrap around. Then
  \<^verbatim>\<open>class_add_member\<close> returns. If the allocator grants the request, the member count
  is one more than before (also as a number: the count does not wrap), index count - 1
  resolves to \<open>e\<close>, and every index below the old count resolves to the element it
  resolved to before. If the allocator does not grant it, the count is the one before.
  The same holds for \<^verbatim>\<open>class_add_function\<close>, an instance whose function table is in
  order and an existing function that is not stored in that table; neither half asks
  anything of the other table. (What the routines do with an element of the table they
  grow is not part of this statement.)
\<close>

theorem append_stability:
  "(load_Class (mem w) (Ptr k) = Some c \<longrightarrow> member_table (mem w) c = Some ms \<longrightarrow>
    load_Member (mem w) member = Some e \<longrightarrow>
    (\<forall>a off j. Class.members c = Ptr (a, off) \<longrightarrow> member \<noteq> Ptr (a, j)) \<longrightarrow>
    unat sizeof_Member * (unat (Class.num_members c) + 1) < 2 ^ 64 \<longrightarrow>
      (\<exists>w'. class_add_member (Ptr k) member w = Some w' \<and>
         (if \<exists>g. grants (mem w) = True # g
          then class_get_num_members (mem w') (Ptr k) = Some (Class.num_members c + 1) \<and>
               unat (Class.num_members c + 1) = unat (Class.num_members c) + 1 \<and>
               member_at (mem w') (Ptr k) (Class.num_members c + 1 - 1) = Some e \<and>
               (\<forall>i < Class.num_members c.
                  member_at (mem w) (Ptr k) i = Some (ms ! unat i) \<and>
                  member_at (mem w') (Ptr k) i = Some (ms ! unat i))
          else class_get_num_members (mem w') (Ptr k) = Some (Class.num_members c)))) \<and>
   (load_Class (mem v) (Ptr j) = Some d \<longrightarrow> function_table (mem v) d = Some fs \<longrightarrow>
    load_Function (mem v) p = Some f \<longrightarrow>
    (\<forall>a off j. Class.functions d = Ptr (a, off) \<longrightarrow> p \<noteq> Ptr (a, j)) \<longrightarrow>
    unat sizeof_Function * (unat (Class.num_functions d) + 1) < 2 ^ 64 \<longrightarrow>
      (\<exists>v'. class_add_function (Ptr j) p v = Some v' \<and>
         (if \<exists>g. grants (mem v) = True # g
          then class_get_num_functions (mem v') (Ptr j) = Some (Class.num_functions d + 1) \<and>
               unat (Class.num_functions d + 1) = unat (Class.num_functions d) + 1 \<and>
               function_at (mem v') (Ptr j) (Class.num_functions d + 1 - 1) = Some f \<and>
               (\<forall>i < Class.num_functions d.
                  function_at (mem v) (Ptr j) i = Some (fs ! unat i) \<and>
                  function_at (mem v') (Ptr j) i = Some (fs ! unat i))
          else class_get_num_functions (mem v') (Ptr j) = Some (Class.num_functions d))))"
proof (intro conjI impI)
  assume c: "load_Class (mem w) (Ptr k) = Some c" and ms: "member_table (mem w) c = Some ms"
    and e: "load_Member (mem w) member = Some e"
    and e_apart: "\<forall>a off j. Class.members c = Ptr (a, off) \<longrightarrow> member \<noteq> Ptr (a, j)"
    and e_room: "unat sizeof_Member * (unat (Class.num_members c) + 1) < 2 ^ 64"
  have nn: "member \<noteq> NULL" using e by (auto simp: load_Member_def)
  show "\<exists>w'. class_add_member (Ptr k) member w = Some w' \<and>
         (if \<exists>g. grants (mem w) = True # g
          then class_get_num_members (mem w') (Ptr k) = Some (Class.num_members c + 1) \<and>
               unat (Class.num_members c + 1) = unat (Class.num_members c) + 1 \<and>
               member_at (mem w') (Ptr k) (Class.num_members c + 1 - 1) = Some e \<and>
               (\<forall>i < Class.num_members c.
                  member_at (mem w) (Ptr k) i = Some (ms ! unat i) \<and>
                  member_at (mem w') (Ptr k) i = Some (ms ! unat i))
          else class_get_num_members (mem w') (Ptr k) = Some (Class.num_members c))"
  proof (cases "\<exists>g. grants (mem w) = True # g")
    case True
    then obtain g where "grants (mem w) = True # g" ..
    from append_member_granted [OF c ms e e_apart e_room this] show ?thesis
      using True by simp
  next
    case False
    then have "\<forall>g. grants (mem w) \<noteq> True # g" by simp
    from class_add_member_refused [OF c ms nn this] show ?thesis
      using False by simp
  qed
next
  assume d: "load_Class (mem v) (Ptr j) = Some d" and fs: "function_table (mem v) d = Some fs"
    and f: "load_Function (mem v) p = Some f"
    and f_apart: "\<forall>a off j. Class.functions d = Ptr (a, off) \<longrightarrow> p \<noteq> Ptr (a, j)"
    and f_room: "unat sizeof_Function * (unat (Class.num_functions d) + 1) < 2 ^ 64"
  have nn: "p \<noteq> NULL" using f by (auto simp: load_Function_def)
  show "\<exists>v'. class_add_function (Ptr j) p v = Some v' \<and>
         (if \<exists>g. grants (mem v) = True # g
          then class_get_num_functions (mem v') (Ptr j) = Some (Class.num_functions d + 1) \<and>
               unat (Class.num_functions d + 1) = unat (Class.num_functions d) + 1 \<and>
               function_at (mem v') (Ptr j) (Class.num_functions d + 1 - 1) = Some f \<and>
               (\<forall>i < Class.num_functions d.
                  function_at (mem v) (Ptr j) i = Some (fs ! unat i) \<and>
                  function_at (mem v') (Ptr j) i = Some (fs ! unat i))
          else class_get_num_functions (mem v') (Ptr j) = Some (Class.num_functions d))"
  proof (cases "\<exists>g. grants (mem v) = True # g")
    case True
    then obtain g where "grants (mem v) = True # g" ..
    from append_function_granted [OF d fs f f_apart f_room this] show ?thesis
      using True by simp
  next
    case False
    then have "\<forall>g. grants (mem v) \<noteq> True # g" by simp
    from class_add_function_refused [OF d fs nn this] show ?thesis
      using False by simp
  qed
qed

text \<open>On \<open>demo_store\<close>: the member of block 3 is appended to the instance of block 0 by an
  allocator that grants the request, and the function of block 4 is offered to the same
  instance when the allocator refuses.\<close>

theorem append_stability_witness:
  "(\<exists>w'. class_add_member (Ptr 0) (Ptr (3, 0)) \<lparr>mem = demo_store, trace = []\<rparr> = Some w' \<and>
      class_get_num_members (mem w') (Ptr 0) = Some 2 \<and>
      member_at (mem w') (Ptr 0) 1 =
        Some \<lparr>Member.data = 9, name = Ptr ''n'', type = MEMBER_TYPE_U32\<rparr> \<and>
      member_at (mem w') (Ptr 0) 0 =
        Some \<lparr>Member.data = 5, name = Ptr ''m'', type = MEMBER_TYPE_I32\<rparr>) \<and>
   (\<exists>v'. class_add_function (Ptr 0) (Ptr (4, 0))
            \<lparr>mem = demo_store\<lparr>grants := [False]\<rparr>, trace = []\<rparr> = Some v' \<and>
      class_get_num_functions (mem v') (Ptr 0) = Some 3)"
proof -
  let ?w = "\<lparr>mem = demo_store, trace = []\<rparr>"
  let ?v = "\<lparr>mem = demo_store\<lparr>grants := [False]\<rparr>, trace = []\<rparr>"
  let ?c = "\<lparr>Class.name = Ptr ''Demo'', ctor = NULL, dtor = NULL,
                 members = Ptr (1, 0), num_members = 1,
                 functions = Ptr (2, 0), num_functions = 3\<rparr>"
  let ?m = "\<lparr>Member.data = 5, name = Ptr ''m'', type = MEMBER_TYPE_I32\<rparr>"
  let ?n = "\<lparr>Member.data = 9, name = Ptr ''n'', type = MEMBER_TYPE_U32\<rparr>"
  let ?f0 = "\<lparr>Function.name = Ptr ''c'', type = FUNCTION_TYPE_CONSTRUCTOR,
          fn = addr_vec2_ctor, binary_member_fn = 7\<rparr>"
  let ?f1 = "\<lparr>Function.name = Ptr ''d'', type = FUNCTION_TYPE_DESTRUCTOR,
          fn = addr_vec2_dtor, binary_member_fn = 7\<rparr>"
  let ?f2 = "\<lparr>Function.name = Ptr ''f'', type = FUNCTION_TYPE_MEMBER_FUNCTION,
          fn = addr_vec2_ctor, binary_member_fn = 7\<rparr>"
  let ?g = "\<lparr>Function.name = Ptr ''g'', type = FUNCTION_TYPE_MEMBER_FUNCTION,
          fn = addr_vec2_dtor, binary_member_fn = 7\<rparr>"
  have c: "load_Class (mem ?w) (Ptr 0) = Some ?c"
    and ms: "member_table (mem ?w) ?c = Some [?m]"
    and e: "load_Member (mem ?w) (Ptr (3, 0)) = Some ?n"
    and e_apart: "\<forall>a off j. Class.members ?c = Ptr (a, off) \<longrightarrow> Ptr (3, 0) \<noteq> Ptr (a, j)"
    and e_room: "unat sizeof_Member * (unat (Class.num_members ?c) + 1) < 2 ^ 64"
    and grant: "\<exists>g. grants (mem ?w) = True # g"
    and d: "load_Class (mem ?v) (Ptr 0) = Some ?c"
    and fs: "function_table (mem ?v) ?c = Some [?f0, ?f1, ?f2]"
    and f: "load_Function (mem ?v) (Ptr (4, 0)) = Some ?g"
    and f_apart: "\<forall>a off j. Class.functions ?c = Ptr (a, off) \<longrightarrow> Ptr (4, 0) \<noteq> Ptr (a, j)"
    and f_room: "unat sizeof_Function * (unat (Class.num_functions ?c) + 1) < 2 ^ 64"
    and refuse: "\<not> (\<exists>g. grants (mem ?v) = True # g)"
    by (simp_all add: demo_defs member_table_def function_table_def sizeof_Member_def
        sizeof_Function_def)
  have two: "(0::64 word) < 1" by simp
  note th = append_stability [of ?w 0 ?c "[?m]" "Ptr (3, 0)" ?n ?v 0 ?c "[?f0, ?f1, ?f2]"
      "Ptr (4, 0)" ?g]
  from th [THEN conjunct1, THEN mp, OF c, THEN mp, OF ms, THEN mp, OF e, THEN mp, OF e_apart,
      THEN mp, OF e_room]
  have 1: "\<exists>w'. class_add_member (Ptr 0) (Ptr (3, 0)) ?w = Some w' \<and>
      class_get_num_members (mem w') (Ptr 0) = Some 2 \<and>
      member_at (mem w') (Ptr 0) 1 = Some ?n \<and> member_at (mem w') (Ptr 0) 0 = Some ?m"
    using grant two by (auto simp del: One_nat_def)
  from th [THEN conjunct2, THEN mp, OF d, THEN mp, OF fs, THEN mp, OF f, THEN mp, OF f_apart,
      THEN mp, OF f_room]
  have 2: "\<exists>v'. class_add_function (Ptr 0) (Ptr (4, 0)) ?v = Some v' \<and>
      class_get_num_functions (mem v') (Ptr 0) = Some 3"
    using refuse by auto
  from 1 2 show ?thesis by blast
qed

text \<open>
  C2 as stated, for every valid class and every member, fails on the instance of
  \<open>demo_store\<close>. Its own member (block 1 is its member table) is an existing member and
  the allocator grants the request, yet appending it has no defined result: the
  routine reads the element after the table has moved. And when the allocator
  refuses, appending the function of block 4 returns with three functions, not four.
\<close>

theorem append_stability_counterexample:
  "load_Class demo_store (Ptr 0) =
     Some \<lparr>Class.name = Ptr ''Demo'', ctor = NULL, dtor = NULL,
           members = Ptr (1, 0), num_members = 1,
           functions = Ptr (2, 0), num_functions = 3\<rparr> \<and>
   load_Member demo_store (Ptr (1, 0)) =
     Some \<lparr>Member.data = 5, name = Ptr ''m'', type = MEMBER_TYPE_I32\<rparr> \<and>
   grants demo_store = [True, True, True, True, True] \<and>
   class_add_member (Ptr 0) (Ptr (1, 0)) \<lparr>mem = demo_store, trace = []\<rparr> = None \<and>
   load_Function demo_store (Ptr (4, 0)) \<noteq> None \<and>
   class_add_function (Ptr 0) (Ptr (4, 0))
     \<lparr>mem = demo_store\<lparr>grants := [False]\<rparr>, trace = []\<rparr> \<noteq> None \<and>
   class_get_num_functions
     (mem (the (class_add_function (Ptr 0) (Ptr (4, 0))
                  \<lparr>mem = demo_store\<lparr>grants := [False]\<rparr>, trace = []\<rparr>))) (Ptr 0) = Some 3"
  by (simp add: demo_defs class_add_member_def class_add_function_def
      class_get_num_members_def class_get_num_functions_def realloc_Member_def
      realloc_Function_def allocate_def write_Class_def write_Member_def put_def push_def
      element_def element_at_def sizeof_Member_def sizeof_Function_def)

subsection \<open>The copy loops\<close>

lemma copy_members_result:
  assumes "copy_members (Ptr (d, 0)) src is s = Some s'"
    and "block_at s d = Member_array ds"
    and "\<forall>j. src \<noteq> Ptr (d, j)"
  shows "\<exists>ds'. s' = put d (Member_array ds') s \<and> length ds' = length ds \<and>
           (\<forall>i\<in>set is. i < length ds \<and>
               (\<exists>r. element_at src i = Some r \<and> load_Member s r = Some (ds' ! i))) \<and>
           (\<forall>i. i \<notin> set is \<longrightarrow> ds' ! i = ds ! i)"
  using assms
proof (induction "is" arbitrary: s ds)
  case Nil
  then have d: "d < length (heap s)" by (intro block_at_live) simp
  have "put d (Member_array ds) s = s"
    using Nil d by (simp add: put_def block_at_def list_update_same_conv)
  then show ?case using Nil by (intro exI [of _ ds]) simp
next
  case (Cons i "is")
  note run = Cons.prems(1) and dst = Cons.prems(2)
  have d: "d < length (heap s)" using dst by (intro block_at_live) simp
  obtain a off where src: "src = Ptr (a, off)" "a \<noteq> d"
    using run Cons.prems(3) by (cases src) (auto simp: element_at_def)
  obtain x where x: "load_Member s (Ptr (a, off + i)) = Some x"
    using run src by (cases "load_Member s (Ptr (a, off + i))") (auto simp: element_at_def)
  then obtain xs where xs: "block_at s a = Member_array xs" "off + i < length xs" "xs ! (off + i) = x"
    by (auto elim: load_Member_SomeD)
  have i: "i < length ds"
    using run src x dst by (cases "i < length ds") (auto simp: element_at_def write_Member_at)
  let ?s = "put d (Member_array (ds[i := x])) s"
  have rest: "copy_members (Ptr (d, 0)) src is ?s = Some s'"
    using run src xs dst d i
    by (simp add: element_at_def write_Member_at load_Member_at Member_copied)
  have "block_at ?s d = Member_array (ds[i := x])" using d by simp
  from Cons.IH [OF rest this Cons.prems(3)]
  obtain ds' where ds': "s' = put d (Member_array ds') ?s" "length ds' = length ds"
      "\<forall>j\<in>set is. j < length ds \<and> (\<exists>r. element_at src j = Some r \<and> load_Member ?s r = Some (ds' ! j))"
      "\<forall>j. j \<notin> set is \<longrightarrow> ds' ! j = (ds[i := x]) ! j"
    by auto
  have same: "load_Member ?s (Ptr (a, j)) = load_Member s (Ptr (a, j))" for j
    using d src by (simp add: load_Member_def)
  have "\<forall>j\<in>set (i # is). j < length ds \<and>
          (\<exists>r. element_at src j = Some r \<and> load_Member s r = Some (ds' ! j))"
  proof
    fix j assume j: "j \<in> set (i # is)"
    show "j < length ds \<and> (\<exists>r. element_at src j = Some r \<and> load_Member s r = Some (ds' ! j))"
    proof (cases "j \<in> set is")
      case True
      then show ?thesis using ds'(3) same src by (auto simp: element_at_def)
    next
      case False
      then have "j = i" using j by simp
      then show ?thesis using ds'(4) False x i src by (simp add: element_at_def)
    qed
  qed
  moreover have "\<forall>j. j \<notin> set (i # is) \<longrightarrow> ds' ! j = ds ! j"
    using ds'(4) by auto
  ultimately show ?case using ds'(1,2) by (intro exI [of _ ds']) simp
qed

lemma copy_functions_result:
  assumes "copy_functions (Ptr (d, 0)) src is s = Some s'"
    and "block_at s d = Function_array ds"
    and "\<forall>j. src \<noteq> Ptr (d, j)"
  shows "\<exists>ds'. s' = put d (Function_array ds') s \<and> length ds' = length ds \<and>
           (\<forall>i\<in>set is. i < length ds \<and>
               (\<exists>r. element_at src i = Some r \<and> load_Function s r = Some (ds' ! i))) \<and>
           (\<forall>i. i \<notin> set is \<longrightarrow> ds' ! i = ds ! i)"
  using assms
proof (induction "is" arbitrary: s ds)
  case Nil
  then have d: "d < length (heap s)" by (intro block_at_live) simp
  have "put d (Function_array ds) s = s"
    using Nil d by (simp add: put_def block_at_def list_update_same_conv)
  then show ?case using Nil by (intro exI [of _ ds]) simp
next
  case (Cons i "is")
  note run = Cons.prems(1) and dst = Cons.prems(2)
  have d: "d < length (heap s)" using dst by (intro block_at_live) simp
  obtain a off where src: "src = Ptr (a, off)" "a \<noteq> d"
    using run Cons.prems(3) by (cases src) (auto simp: element_at_def)
  obtain x where x: "load_Function s (Ptr (a, off + i)) = Some x"
    using run src by (cases "load_Function s (Ptr (a, off + i))") (auto simp: element_at_def)
  then obtain xs where xs: "block_at s a = Function_array xs" "off + i < length xs" "xs ! (off + i) = x"
    by (auto elim: load_Function_SomeD)
  have i: "i < length ds"
    using run src x dst by (cases "i < length ds") (auto simp: element_at_def write_Function_at)
  let ?s = "put d (Function_array (ds[i := x])) s"
  have rest: "copy_functions (Ptr (d, 0)) src is ?s = Some s'"
    using run src xs dst d i
    by (simp add: element_at_def write_Function_at load_Function_at Function_copied)
  have "block_at ?s d = Function_array (ds[i := x])" using d by simp
  from Cons.IH [OF rest this Cons.prems(3)]
  obtain ds' where ds': "s' = put d (Function_array ds') ?s" "length ds' = length ds"
      "\<forall>j\<in>set is. j < length ds \<and> (\<exists>r. element_at src j = Some r \<and> load_Function ?s r = Some (ds' ! j))"
      "\<forall>j. j \<notin> set is \<longrightarrow> ds' ! j = (ds[i := x]) ! j"
    by auto
  have same: "load_Function ?s (Ptr (a, j)) = load_Function s (Ptr (a, j))" for j
    using d src by (simp add: load_Function_def)
  have "\<forall>j\<in>set (i # is). j < length ds \<and>
          (\<exists>r. element_at src j = Some r \<and> load_Function s r = Some (ds' ! j))"
  proof
    fix j assume j: "j \<in> set (i # is)"
    show "j < length ds \<and> (\<exists>r. element_at src j = Some r \<and> load_Function s r = Some (ds' ! j))"
    proof (cases "j \<in> set is")
      case True
      then show ?thesis using ds'(3) same src by (auto simp: element_at_def)
    next
      case False
      then have "j = i" using j by simp
      then show ?thesis using ds'(4) False x i src by (simp add: element_at_def)
    qed
  qed
  moreover have "\<forall>j. j \<notin> set (i # is) \<longrightarrow> ds' ! j = ds ! j"
    using ds'(4) by auto
  ultimately show ?case using ds'(1,2) by (intro exI [of _ ds']) simp
qed

subsection \<open>The steps of creation\<close>

lemma class_create_members_result:
  assumes run: "class_create_members (Ptr k) info s = Some (True, s')"
    and kc: "block_at s k = Class_obj c"
    and old: "refers_into s (ClassCreateInfo.members info)"
  shows "block_at s' k = Class_obj (c\<lparr>Class.members := Ptr (length (heap s), 0),
            Class.num_members := ClassCreateInfo.num_members info\<rparr>)"
    and "\<exists>ms. block_at s' (length (heap s)) = Member_array ms \<and>
           length ms = unat (sizeof_Member * ClassCreateInfo.num_members info) div
                         unat sizeof_Member \<and>
           (\<forall>i < unat (ClassCreateInfo.num_members info). i < length ms \<and>
              (\<exists>r. element_at (ClassCreateInfo.members info) i = Some r \<and>
                   load_Member s r = Some (ms ! i)))"
    and "length (heap s') = Suc (length (heap s))"
    and "\<forall>a. a \<noteq> k \<longrightarrow> a \<noteq> length (heap s) \<longrightarrow> block_at s' a = block_at s a"
proof -
  let ?am = "length (heap s)" and ?n = "ClassCreateInfo.num_members info"
  let ?src = "ClassCreateInfo.members info"
  have k: "k < ?am" using kc by (intro block_at_live) simp
  obtain g where g: "grants s = True # g"
    using run kc k
    by (cases "grants s"; cases "hd (grants s)")
      (auto simp: class_create_members_def malloc_Member_def allocate_def array_ptr_def
        write_Class_at)
  define junk where "junk = map (junk_Member s ?am) [0 ..< unat (sizeof_Member * ?n) div unat sizeof_Member]"
  define c' where "c' = c\<lparr>Class.members := Ptr (?am, 0), Class.num_members := ?n\<rparr>"
  define s2 where "s2 = put k (Class_obj c') (push (Member_array junk) (s\<lparr>grants := g\<rparr>))"
  have s2k: "block_at s2 k = Class_obj c'" and s2a: "block_at s2 ?am = Member_array junk"
    and s2o: "\<And>a. a \<noteq> k \<Longrightarrow> a \<noteq> ?am \<Longrightarrow> block_at s2 a = block_at s a"
    and s2l: "length (heap s2) = Suc ?am"
    using k by (simp_all add: s2_def)
  have loop: "copy_members (Ptr (?am, 0)) ?src [0 ..< unat ?n] s2 = Some s'"
    using run kc k g
    by (simp add: class_create_members_def malloc_Member_def allocate_def array_ptr_def
        write_Class_at load_Class_at junk_def c'_def s2_def bind_eq_Some_conv)
  have apart: "\<forall>j. ?src \<noteq> Ptr (?am, j)"
    using old by (auto simp: refers_into_def)
  from copy_members_result [OF loop s2a apart]
  obtain ms where ms: "s' = put ?am (Member_array ms) s2" "length ms = length junk"
      "\<forall>i\<in>set [0 ..< unat ?n]. i < length junk \<and>
          (\<exists>r. element_at ?src i = Some r \<and> load_Member s2 r = Some (ms ! i))"
    by blast
  show "block_at s' k = Class_obj (c\<lparr>Class.members := Ptr (?am, 0), Class.num_members := ?n\<rparr>)"
    using ms(1) s2k s2l k by (simp add: c'_def)
  show "length (heap s') = Suc ?am" using ms(1) s2l by simp
  show "\<forall>a. a \<noteq> k \<longrightarrow> a \<noteq> ?am \<longrightarrow> block_at s' a = block_at s a"
    using ms(1) s2o s2l by simp
  have "block_at s' ?am = Member_array ms" using ms(1) s2l by simp
  moreover have "i < length ms \<and> (\<exists>r. element_at ?src i = Some r \<and> load_Member s r = Some (ms ! i))"
    if "i < unat ?n" for i
  proof -
    have "i \<in> set [0 ..< unat ?n]" using that by simp
    with ms(3) have "i < length junk \<and>
        (\<exists>r. element_at ?src i = Some r \<and> load_Member s2 r = Some (ms ! i))"
      by blast
    then obtain r where r: "i < length junk" "element_at ?src i = Some r"
        "load_Member s2 r = Some (ms ! i)"
      by blast
    from r(3) obtain a j xs where a: "r = Ptr (a, j)" "block_at s2 a = Member_array xs"
      by (auto elim: load_Member_SomeD)
    from r(2) a(1) apart have "a \<noteq> ?am"
      by (cases ?src) (auto simp: element_at_def)
    moreover have "a \<noteq> k" using a(2) s2k by auto
    ultimately have "block_at s2 a = block_at s a" by (rule s2o [rotated])
    then have "load_Member s r = load_Member s2 r" by (simp add: a(1) load_Member_def)
    then show ?thesis using r ms(2) by simp
  qed
  moreover have "length ms = unat (sizeof_Member * ?n) div unat sizeof_Member"
    using ms(2) by (simp add: junk_def)
  ultimately show "\<exists>ms. block_at s' ?am = Member_array ms \<and>
           length ms = unat (sizeof_Member * ?n) div unat sizeof_Member \<and>
           (\<forall>i < unat ?n. i < length ms \<and>
              (\<exists>r. element_at ?src i = Some r \<and> load_Member s r = Some (ms ! i)))"
    by blast
qed

lemma class_create_functions_result:
  assumes run: "class_create_functions (Ptr k) info s = Some (True, s')"
    and kc: "block_at s k = Class_obj c"
    and old: "refers_into s (ClassCreateInfo.functions info)"
  shows "block_at s' k = Class_obj (c\<lparr>Class.functions := Ptr (length (heap s), 0),
            Class.num_functions := ClassCreateInfo.num_functions info\<rparr>)"
    and "\<exists>ms. block_at s' (length (heap s)) = Function_array ms \<and>
           length ms = unat (sizeof_Function * ClassCreateInfo.num_functions info) div
                         unat sizeof_Function \<and>
           (\<forall>i < unat (ClassCreateInfo.num_functions info). i < length ms \<and>
              (\<exists>r. element_at (ClassCreateInfo.functions info) i = Some r \<and>
                   load_Function s r = Some (ms ! i)))"
    and "length (heap s') = Suc (length (heap s))"
    and "\<forall>a. a \<noteq> k \<longrightarrow> a \<noteq> length (heap s) \<longrightarrow> block_at s' a = block_at s a"
proof -
  let ?am = "length (heap s)" and ?n = "ClassCreateInfo.num_functions info"
  let ?src = "ClassCreateInfo.functions info"
  have k: "k < ?am" using kc by (intro block_at_live) simp
  obtain g where g: "grants s = True # g"
    using run kc k
    by (cases "grants s"; cases "hd (grants s)")
      (auto simp: class_create_functions_def malloc_Function_def allocate_def array_ptr_def
        write_Class_at)
  define junk where "junk = map (junk_Function s ?am) [0 ..< unat (sizeof_Function * ?n) div unat sizeof_Function]"
  define c' where "c' = c\<lparr>Class.functions := Ptr (?am, 0), Class.num_functions := ?n\<rparr>"
  define s2 where "s2 = put k (Class_obj c') (push (Function_array junk) (s\<lparr>grants := g\<rparr>))"
  have s2k: "block_at s2 k = Class_obj c'" and s2a: "block_at s2 ?am = Function_array junk"
    and s2o: "\<And>a. a \<noteq> k \<Longrightarrow> a \<noteq> ?am \<Longrightarrow> block_at s2 a = block_at s a"
    and s2l: "length (heap s2) = Suc ?am"
    using k by (simp_all add: s2_def)
  have loop: "copy_functions (Ptr (?am, 0)) ?src [0 ..< unat ?n] s2 = Some s'"
    using run kc k g
    by (simp add: class_create_functions_def malloc_Function_def allocate_def array_ptr_def
        write_Class_at load_Class_at junk_def c'_def s2_def bind_eq_Some_conv)
  have apart: "\<forall>j. ?src \<noteq> Ptr (?am, j)"
    using old by (auto simp: refers_into_def)
  from copy_functions_result [OF loop s2a apart]
  obtain ms where ms: "s' = put ?am (Function_array ms) s2" "length ms = length junk"
      "\<forall>i\<in>set [0 ..< unat ?n]. i < length junk \<and>
          (\<exists>r. element_at ?src i = Some r \<and> load_Function s2 r = Some (ms ! i))"
    by blast
  show "block_at s' k = Class_obj (c\<lparr>Class.functions := Ptr (?am, 0), Class.num_functions := ?n\<rparr>)"
    using ms(1) s2k s2l k by (simp add: c'_def)
  show "length (heap s') = Suc ?am" using ms(1) s2l by simp
  show "\<forall>a. a \<noteq> k \<longrightarrow> a \<noteq> ?am \<longrightarrow> block_at s' a = block_at s a"
    using ms(1) s2o s2l by simp
  have "block_at s' ?am = Function_array ms" using ms(1) s2l by simp
  moreover have "i < length ms \<and> (\<exists>r. element_at ?src i = Some r \<and> load_Function s r = Some (ms ! i))"
    if "i < unat ?n" for i
  proof -
    have "i \<in> set [0 ..< unat ?n]" using that by simp
    with ms(3) have "i < length junk \<and>
        (\<exists>r. element_at ?src i = Some r \<and> load_Function s2 r = Some (ms ! i))"
      by blast
    then obtain r where r: "i < length junk" "element_at ?src i = Some r"
        "load_Function s2 r = Some (ms ! i)"
      by blast
    from r(3) obtain a j xs where a: "r = Ptr (a, j)" "block_at s2 a = Function_array xs"
      by (auto elim: load_Function_SomeD)
    from r(2) a(1) apart have "a \<noteq> ?am"
      by (cases ?src) (auto simp: element_at_def)
    moreover have "a \<noteq> k" using a(2) s2k by auto
    ultimately have "block_at s2 a = block_at s a" by (rule s2o [rotated])
    then have "load_Function s r = load_Function s2 r" by (simp add: a(1) load_Function_def)
    then show ?thesis using r ms(2) by simp
  qed
  moreover have "length ms = unat (sizeof_Function * ?n) div unat sizeof_Function"
    using ms(2) by (simp add: junk_def)
  ultimately show "\<exists>ms. block_at s' ?am = Function_array ms \<and>
           length ms = unat (sizeof_Function * ?n) div unat sizeof_Function \<and>
           (\<forall>i < unat ?n. i < length ms \<and>
              (\<exists>r. element_at ?src i = Some r \<and> load_Function s r = Some (ms ! i)))"
    by blast
qed
lemma class_create_ctor_result:
  assumes run: "class_create_ctor (Ptr k) info s = Some (True, s')"
    and kc: "block_at s k = Class_obj c"
    and old: "refers_into s (ClassCreateInfo.ctor info)"
  shows "\<exists>p. block_at s' k = Class_obj (c\<lparr>Class.ctor := p\<rparr>) \<and>
           (ClassCreateInfo.ctor info = NULL \<longrightarrow>
              p = NULL \<and> length (heap s') = length (heap s)) \<and>
           (ClassCreateInfo.ctor info \<noteq> NULL \<longrightarrow>
              p = Ptr (length (heap s), 0) \<and> length (heap s') = Suc (length (heap s)) \<and>
              (\<exists>F j. load_Function s (ClassCreateInfo.ctor info) = Some F \<and>
                 block_at s' (length (heap s)) =
                   Function_array [j\<lparr>fn := fn F, Function.name := Function.name F\<rparr>]))"
    and "\<forall>a. a \<noteq> k \<longrightarrow> a \<noteq> length (heap s) \<longrightarrow> block_at s' a = block_at s a"
proof -
  let ?new = "length (heap s)"
  have k: "k < ?new" using kc by (intro block_at_live) simp
  have "(\<exists>p. block_at s' k = Class_obj (c\<lparr>Class.ctor := p\<rparr>) \<and>
           (ClassCreateInfo.ctor info = NULL \<longrightarrow>
              p = NULL \<and> length (heap s') = length (heap s)) \<and>
           (ClassCreateInfo.ctor info \<noteq> NULL \<longrightarrow>
              p = Ptr (length (heap s), 0) \<and> length (heap s') = Suc (length (heap s)) \<and>
              (\<exists>F j. load_Function s (ClassCreateInfo.ctor info) = Some F \<and>
                 block_at s' (length (heap s)) =
                   Function_array [j\<lparr>fn := fn F, Function.name := Function.name F\<rparr>]))) \<and>
        (\<forall>a. a \<noteq> k \<longrightarrow> a \<noteq> length (heap s) \<longrightarrow> block_at s' a = block_at s a)"
  proof (cases "ClassCreateInfo.ctor info")
    case NULL
    then have "s' = put k (Class_obj (c\<lparr>Class.ctor := NULL\<rparr>)) s"
      using run kc by (simp add: class_create_ctor_def write_Class_at)
    then show ?thesis using NULL k by simp
  next
    case (Ptr r)
    obtain a i where r: "r = (a, i)" by (cases r)
    have a: "a < ?new" using old Ptr r by (simp add: refers_into_def)
    obtain g where g: "grants s = True # g"
      using run kc k Ptr
      by (cases "grants s"; cases "hd (grants s)")
        (auto simp: class_create_ctor_def malloc_Function_def allocate_def array_ptr_def
          write_Class_at)
    let ?j = "junk_Function s ?new 0"
    define s1 where "s1 = put k (Class_obj (c\<lparr>Class.ctor := Ptr (?new, 0)\<rparr>))
        (push (Function_array [?j]) (s\<lparr>grants := g\<rparr>))"
    have s1: "block_at s1 ?new = Function_array [?j]"
        "\<And>b. b \<noteq> k \<Longrightarrow> b \<noteq> ?new \<Longrightarrow> block_at s1 b = block_at s b"
        "block_at s1 k = Class_obj (c\<lparr>Class.ctor := Ptr (?new, 0)\<rparr>)"
        "length (heap s1) = Suc ?new"
      using k by (simp_all add: s1_def)
    have run1: "do {
          src \<leftarrow> load_Function s1 (Ptr (a, i));
          s \<leftarrow> write_Function (Ptr (?new, 0)) (\<lambda>f. f\<lparr>fn := fn src\<rparr>) s1;
          src \<leftarrow> load_Function s (Ptr (a, i));
          s \<leftarrow> write_Function (Ptr (?new, 0)) (\<lambda>f. f\<lparr>Function.name := Function.name src\<rparr>) s;
          Some (True, s)
        } = Some (True, s')"
      using run kc k Ptr r g
      by (simp add: class_create_ctor_def malloc_Function_def allocate_def array_ptr_def
          write_Class_at s1_def sizeof_Function_def)
    then obtain F where F1: "load_Function s1 (Ptr (a, i)) = Some F"
      by (cases "load_Function s1 (Ptr (a, i))") auto
    then obtain fs where fs: "block_at s1 a = Function_array fs" "i < length fs" "fs ! i = F"
      by (auto elim: load_Function_SomeD)
    have ak: "a \<noteq> k" using fs(1) s1(3) by auto
    have an: "a \<noteq> ?new" using a by simp
    have fs': "block_at s a = Function_array fs" using fs(1) s1(2) [OF ak an] by simp
    then have F: "load_Function s (Ptr (a, i)) = Some F"
      using fs by (simp add: load_Function_at)
    have "s' = put ?new (Function_array [?j\<lparr>fn := fn F, Function.name := Function.name F\<rparr>]) s1"
      using run1 F1 s1 fs an ak
      by (simp add: write_Function_at load_Function_at)
    then show ?thesis
      using s1 Ptr r F k
      by (auto intro!: exI [of _ F] exI [of _ ?j])
  qed
  then show "\<exists>p. block_at s' k = Class_obj (c\<lparr>Class.ctor := p\<rparr>) \<and>
           (ClassCreateInfo.ctor info = NULL \<longrightarrow>
              p = NULL \<and> length (heap s') = length (heap s)) \<and>
           (ClassCreateInfo.ctor info \<noteq> NULL \<longrightarrow>
              p = Ptr (length (heap s), 0) \<and> length (heap s') = Suc (length (heap s)) \<and>
              (\<exists>F j. load_Function s (ClassCreateInfo.ctor info) = Some F \<and>
                 block_at s' (length (heap s)) =
                   Function_array [j\<lparr>fn := fn F, Function.name := Function.name F\<rparr>]))"
    and "\<forall>a. a \<noteq> k \<longrightarrow> a \<noteq> length (heap s) \<longrightarrow> block_at s' a = block_at s a"
    by blast+
qed

lemma class_create_dtor_result:
  assumes run: "class_create_dtor (Ptr k) info s = Some (True, s')"
    and kc: "block_at s k = Class_obj c"
    and old: "refers_into s (ClassCreateInfo.dtor info)"
  shows "\<exists>p. block_at s' k = Class_obj (c\<lparr>Class.dtor := p\<rparr>) \<and>
           (ClassCreateInfo.dtor info = NULL \<longrightarrow>
              p = NULL \<and> length (heap s') = length (heap s)) \<and>
           (ClassCreateInfo.dtor info \<noteq> NULL \<longrightarrow>
              p = Ptr (length (heap s), 0) \<and> length (heap s') = Suc (length (heap s)) \<and>
              (\<exists>F j. load_Function s (ClassCreateInfo.dtor info) = Some F \<and>
                 block_at s' (length (heap s)) =
                   Function_array [j\<lparr>fn := fn F, Function.name := Function.name F\<rparr>]))"
    and "\<forall>a. a \<noteq> k \<longrightarrow> a \<noteq> length (heap s) \<longrightarrow> block_at s' a = block_at s a"
proof -
  let ?new = "length (heap s)"
  have k: "k < ?new" using kc by (intro block_at_live) simp
  have "(\<exists>p. block_at s' k = Class_obj (c\<lparr>Class.dtor := p\<rparr>) \<and>
           (ClassCreateInfo.dtor info = NULL \<longrightarrow>
              p = NULL \<and> length (heap s') = length (heap s)) \<and>
           (ClassCreateInfo.dtor info \<noteq> NULL \<longrightarrow>
              p = Ptr (length (heap s), 0) \<and> length (heap s') = Suc (length (heap s)) \<and>
              (\<exists>F j. load_Function s (ClassCreateInfo.dtor info) = Some F \<and>
                 block_at s' (length (heap s)) =
                   Function_array [j\<lparr>fn := fn F, Function.name := Function.name F\<rparr>]))) \<and>
        (\<forall>a. a \<noteq> k \<longrightarrow> a \<noteq> length (heap s) \<longrightarrow> block_at s' a = block_at s a)"
  proof (cases "ClassCreateInfo.dtor info")
    case NULL
    then have "s' = put k (Class_obj (c\<lparr>Class.dtor := NULL\<rparr>)) s"
      using run kc by (simp add: class_create_dtor_def write_Class_at)
    then show ?thesis using NULL k by simp
  next
    case (Ptr r)
    obtain a i where r: "r = (a, i)" by (cases r)
    have a: "a < ?new" using old Ptr r by (simp add: refers_into_def)
    obtain g where g: "grants s = True # g"
      using run kc k Ptr
      by (cases "grants s"; cases "hd (grants s)")
        (auto simp: class_create_dtor_def malloc_Function_def allocate_def array_ptr_def
          write_Class_at)
    let ?j = "junk_Function s ?new 0"
    define s1 where "s1 = put k (Class_obj (c\<lparr>Class.dtor := Ptr (?new, 0)\<rparr>))
        (push (Function_array [?j]) (s\<lparr>grants := g\<rparr>))"
    have s1: "block_at s1 ?new = Function_array [?j]"
        "\<And>b. b \<noteq> k \<Longrightarrow> b \<noteq> ?new \<Longrightarrow> block_at s1 b = block_at s b"
        "block_at s1 k = Class_obj (c\<lparr>Class.dtor := Ptr (?new, 0)\<rparr>)"
        "length (heap s1) = Suc ?new"
      using k by (simp_all add: s1_def)
    have run1: "do {
          src \<leftarrow> load_Function s1 (Ptr (a, i));
          s \<leftarrow> write_Function (Ptr (?new, 0)) (\<lambda>f. f\<lparr>fn := fn src\<rparr>) s1;
          src \<leftarrow> load_Function s (Ptr (a, i));
          s \<leftarrow> write_Function (Ptr (?new, 0)) (\<lambda>f. f\<lparr>Function.name := Function.name src\<rparr>) s;
          Some (True, s)
        } = Some (True, s')"
      using run kc k Ptr r g
      by (simp add: class_create_dtor_def malloc_Function_def allocate_def array_ptr_def
          write_Class_at s1_def sizeof_Function_def)
    then obtain F where F1: "load_Function s1 (Ptr (a, i)) = Some F"
      by (cases "load_Function s1 (Ptr (a, i))") auto
    then obtain fs where fs: "block_at s1 a = Function_array fs" "i < length fs" "fs ! i = F"
      by (auto elim: load_Function_SomeD)
    have ak: "a \<noteq> k" using fs(1) s1(3) by auto
    have an: "a \<noteq> ?new" using a by simp
    have fs': "block_at s a = Function_array fs" using fs(1) s1(2) [OF ak an] by simp
    then have F: "load_Function s (Ptr (a, i)) = Some F"
      using fs by (simp add: load_Function_at)
    have "s' = put ?new (Function_array [?j\<lparr>fn := fn F, Function.name := Function.name F\<rparr>]) s1"
      using run1 F1 s1 fs an ak
      by (simp add: write_Function_at load_Function_at)
    then show ?thesis
      using s1 Ptr r F k
      by (auto intro!: exI [of _ F] exI [of _ ?j])
  qed
  then show "\<exists>p. block_at s' k = Class_obj (c\<lparr>Class.dtor := p\<rparr>) \<and>
           (ClassCreateInfo.dtor info = NULL \<longrightarrow>
              p = NULL \<and> length (heap s') = length (heap s)) \<and>
           (ClassCreateInfo.dtor info \<noteq> NULL \<longrightarrow>
              p = Ptr (length (heap s), 0) \<and> length (heap s') = Suc (length (heap s)) \<and>
              (\<exists>F j. load_Function s (ClassCreateInfo.dtor info) = Some F \<and>
                 block_at s' (length (heap s)) =
                   Function_array [j\<lparr>fn := fn F, Function.name := Function.name F\<rparr>]))"
    and "\<forall>a. a \<noteq> k \<longrightarrow> a \<noteq> length (heap s) \<longrightarrow> block_at s' a = block_at s a"
    by blast+
qed

lemma refers_into_mono:
  "refers_into s p \<Longrightarrow> length (heap s) \<le> length (heap s') \<Longrightarrow> refers_into s' p"
  by (auto simp: refers_into_def split: ptr.splits)

lemma step_taken:
  assumes "do { (ok, s) \<leftarrow> m; if \<not> ok then Some (NULL, s) else rest s } = Some (Ptr k, s')"
  obtains s1 where "m = Some (True, s1)" "rest s1 = Some (Ptr k, s')"
  using assms by (cases m) (auto split: if_splits)

lemma load_Member_same_block:
  "block_at s' (fst r) = block_at s (fst r) \<Longrightarrow> load_Member s' (Ptr r) = load_Member s (Ptr r)"
  by (cases r) (simp add: load_Member_def)

lemma load_Function_same_block:
  "block_at s' (fst r) = block_at s (fst r) \<Longrightarrow> load_Function s' (Ptr r) = load_Function s (Ptr r)"
  by (cases r) (simp add: load_Function_def)

lemma element_at_block:
  "element_at p i = Some r \<Longrightarrow> \<exists>a off j. p = Ptr (a, off) \<and> r = Ptr (a, j)"
  by (auto simp: element_at_def split: ptr.splits)

lemma exact_capacity:
  assumes "n \<le> (m * n mod 2 ^ 64) div m" "0 < m"
  shows "(m * n mod 2 ^ 64) div m = (n::nat)"
proof -
  have "(m * n mod 2 ^ 64) div m \<le> (m * n) div m"
    by (rule div_le_mono) simp
  then show ?thesis using assms by simp
qed

lemma Member_array_exact:
  assumes "unat n \<le> unat (sizeof_Member * n) div unat sizeof_Member"
  shows "unat (sizeof_Member * n) div unat sizeof_Member = unat (n::64 word)"
  using exact_capacity [of "unat n" 24] assms
  by (simp add: sizeof_Member_def unat_word_ariths)

lemma Function_array_exact:
  assumes "unat n \<le> unat (sizeof_Function * n) div unat sizeof_Function"
  shows "unat (sizeof_Function * n) div unat sizeof_Function = unat (n::64 word)"
  using exact_capacity [of "unat n" 32] assms
  by (simp add: sizeof_Function_def unat_word_ariths)

lemma class_create_storage_result:
  assumes run: "class_create_storage info s = Some (Ptr k, s')"
    and old: "refers_into s (ClassCreateInfo.ctor info)" "refers_into s (ClassCreateInfo.dtor info)"
      "refers_into s (ClassCreateInfo.members info)" "refers_into s (ClassCreateInfo.functions info)"
  shows "k = length (heap s)"
    and "\<forall>a < length (heap s). block_at s' a = block_at s a"
    and "\<exists>c ms fs am af.
           load_Class s' (Ptr k) = Some c \<and>
           Class.name c = ClassCreateInfo.name info \<and>
           Class.num_members c = ClassCreateInfo.num_members info \<and>
           Class.num_functions c = ClassCreateInfo.num_functions info \<and>
           (ClassCreateInfo.ctor info = NULL \<longrightarrow> Class.ctor c = NULL) \<and>
           (ClassCreateInfo.ctor info \<noteq> NULL \<longrightarrow>
              (\<exists>a F cf. Class.ctor c = Ptr (a, 0) \<and> k < a \<and> a < am \<and>
                 load_Function s (ClassCreateInfo.ctor info) = Some F \<and>
                 block_at s' a = Function_array [cf] \<and>
                 fn cf = fn F \<and> Function.name cf = Function.name F)) \<and>
           (ClassCreateInfo.dtor info = NULL \<longrightarrow> Class.dtor c = NULL) \<and>
           (ClassCreateInfo.dtor info \<noteq> NULL \<longrightarrow>
              (\<exists>a F cf. Class.dtor c = Ptr (a, 0) \<and> k < a \<and> a < am \<and>
                 Class.dtor c \<noteq> Class.ctor c \<and>
                 load_Function s (ClassCreateInfo.dtor info) = Some F \<and>
                 block_at s' a = Function_array [cf] \<and>
                 fn cf = fn F \<and> Function.name cf = Function.name F)) \<and>
           Class.members c = Ptr (am, 0) \<and> k < am \<and> member_table s' c = Some ms \<and>
           (\<forall>i < unat (ClassCreateInfo.num_members info).
              \<exists>r. element_at (ClassCreateInfo.members info) i = Some r \<and>
                  load_Member s r = Some (ms ! i)) \<and>
           Class.functions c = Ptr (af, 0) \<and> am < af \<and> function_table s' c = Some fs \<and>
           (\<forall>i < unat (ClassCreateInfo.num_functions info).
              \<exists>r. element_at (ClassCreateInfo.functions info) i = Some r \<and>
                  load_Function s r = Some (fs ! i))"
proof -
  let ?k = "length (heap s)"
  let ?n = "ClassCreateInfo.num_members info" and ?nf = "ClassCreateInfo.num_functions info"
  obtain g where g: "grants s = True # g"
    using run
    by (cases "grants s"; cases "hd (grants s)")
      (auto simp: class_create_storage_def malloc_Class_def allocate_def)
  define c0 where "c0 = (junk_Class s ?k)\<lparr>Class.name := ClassCreateInfo.name info\<rparr>"
  define s0 where "s0 = put ?k (Class_obj c0) (push (Class_obj (junk_Class s ?k)) (s\<lparr>grants := g\<rparr>))"
  have s0: "block_at s0 ?k = Class_obj c0" "length (heap s0) = Suc ?k"
    and fr0: "\<And>a. a \<noteq> ?k \<Longrightarrow> block_at s0 a = block_at s a"
    by (simp_all add: s0_def)
  have run0: "do {
       (ok, s) \<leftarrow> class_create_ctor (Ptr ?k) info s0;
       if \<not> ok then Some (NULL, s)
       else do {
         (ok, s) \<leftarrow> class_create_dtor (Ptr ?k) info s;
         if \<not> ok then Some (NULL, s)
         else do {
           (ok, s) \<leftarrow> class_create_members (Ptr ?k) info s;
           if \<not> ok then Some (NULL, s)
           else do {
             (ok, s) \<leftarrow> class_create_functions (Ptr ?k) info s;
             if \<not> ok then Some (NULL, s)
             else Some (Ptr ?k, s)
           }
         }
       }
     } = Some (Ptr k, s')"
    using run g
    by (simp add: class_create_storage_def malloc_Class_def allocate_def write_Class_def
        s0_def c0_def)
  from run0 obtain s1 where r1: "class_create_ctor (Ptr ?k) info s0 = Some (True, s1)"
    and run1: "do {
         (ok, s) \<leftarrow> class_create_dtor (Ptr ?k) info s1;
         if \<not> ok then Some (NULL, s)
         else do {
           (ok, s) \<leftarrow> class_create_members (Ptr ?k) info s;
           if \<not> ok then Some (NULL, s)
           else do {
             (ok, s) \<leftarrow> class_create_functions (Ptr ?k) info s;
             if \<not> ok then Some (NULL, s)
             else Some (Ptr ?k, s)
           }
         }
       } = Some (Ptr k, s')"
    by (rule step_taken)
  from run1 obtain s2 where r2: "class_create_dtor (Ptr ?k) info s1 = Some (True, s2)"
    and run2: "do {
           (ok, s) \<leftarrow> class_create_members (Ptr ?k) info s2;
           if \<not> ok then Some (NULL, s)
           else do {
             (ok, s) \<leftarrow> class_create_functions (Ptr ?k) info s;
             if \<not> ok then Some (NULL, s)
             else Some (Ptr ?k, s)
           }
       } = Some (Ptr k, s')"
    by (rule step_taken)
  from run2 obtain s3 where r3: "class_create_members (Ptr ?k) info s2 = Some (True, s3)"
    and run3: "do {
             (ok, s) \<leftarrow> class_create_functions (Ptr ?k) info s3;
             if \<not> ok then Some (NULL, s)
             else Some (Ptr ?k, s)
       } = Some (Ptr k, s')"
    by (rule step_taken)
  from run3 have "class_create_functions (Ptr ?k) info s3 = Some (True, s') \<and> k = ?k"
    by (rule step_taken) simp
  then have r4: "class_create_functions (Ptr ?k) info s3 = Some (True, s')" and kk: "k = ?k"
    by simp_all
  text \<open>the constructor part\<close>
  have old0: "refers_into s0 (ClassCreateInfo.ctor info)"
    using old(1) s0(2) by (auto intro: refers_into_mono)
  from class_create_ctor_result [OF r1 s0(1) old0]
  obtain p1 where k1: "block_at s1 ?k = Class_obj (c0\<lparr>Class.ctor := p1\<rparr>)"
    and n1: "ClassCreateInfo.ctor info = NULL \<longrightarrow> p1 = NULL \<and> length (heap s1) = Suc ?k"
    and c1: "ClassCreateInfo.ctor info \<noteq> NULL \<longrightarrow>
              p1 = Ptr (Suc ?k, 0) \<and> length (heap s1) = Suc (Suc ?k) \<and>
              (\<exists>F j. load_Function s0 (ClassCreateInfo.ctor info) = Some F \<and>
                 block_at s1 (Suc ?k) =
                   Function_array [j\<lparr>fn := fn F, Function.name := Function.name F\<rparr>])"
    and fr1: "\<forall>a. a \<noteq> ?k \<longrightarrow> a \<noteq> Suc ?k \<longrightarrow> block_at s1 a = block_at s0 a"
    unfolding s0(2) by blast
  have l1: "Suc ?k \<le> length (heap s1)" "length (heap s1) \<le> Suc (Suc ?k)"
    using n1 c1 by (cases "ClassCreateInfo.ctor info = NULL"; simp)+
  text \<open>the destructor part\<close>
  have old1: "refers_into s1 (ClassCreateInfo.dtor info)"
    using old(2) l1 by (auto intro: refers_into_mono)
  from class_create_dtor_result [OF r2 k1 old1]
  obtain p2 where k2: "block_at s2 ?k = Class_obj (c0\<lparr>Class.ctor := p1, Class.dtor := p2\<rparr>)"
    and n2: "ClassCreateInfo.dtor info = NULL \<longrightarrow> p2 = NULL \<and> length (heap s2) = length (heap s1)"
    and c2: "ClassCreateInfo.dtor info \<noteq> NULL \<longrightarrow>
              p2 = Ptr (length (heap s1), 0) \<and> length (heap s2) = Suc (length (heap s1)) \<and>
              (\<exists>F j. load_Function s1 (ClassCreateInfo.dtor info) = Some F \<and>
                 block_at s2 (length (heap s1)) =
                   Function_array [j\<lparr>fn := fn F, Function.name := Function.name F\<rparr>])"
    and fr2: "\<forall>a. a \<noteq> ?k \<longrightarrow> a \<noteq> length (heap s1) \<longrightarrow> block_at s2 a = block_at s1 a"
    by auto
  have l2: "length (heap s1) \<le> length (heap s2)"
    using n2 c2 by (cases "ClassCreateInfo.dtor info = NULL"; simp)
  text \<open>the member table\<close>
  let ?am = "length (heap s2)"
  have old2: "refers_into s2 (ClassCreateInfo.members info)"
    using old(3) l1 l2 by (auto intro: refers_into_mono)
  define c3 where "c3 = c0\<lparr>Class.ctor := p1, Class.dtor := p2,
      Class.members := Ptr (?am, 0), Class.num_members := ?n\<rparr>"
  from class_create_members_result [OF r3 k2 old2]
  obtain ms where k3: "block_at s3 ?k = Class_obj c3"
    and m3: "block_at s3 ?am = Member_array ms"
      "length ms = unat (sizeof_Member * ?n) div unat sizeof_Member"
      "\<forall>i < unat ?n. i < length ms \<and>
          (\<exists>r. element_at (ClassCreateInfo.members info) i = Some r \<and>
               load_Member s2 r = Some (ms ! i))"
    and l3: "length (heap s3) = Suc ?am"
    and fr3: "\<forall>a. a \<noteq> ?k \<longrightarrow> a \<noteq> ?am \<longrightarrow> block_at s3 a = block_at s2 a"
    unfolding c3_def by auto
  text \<open>the function table\<close>
  let ?af = "Suc ?am"
  have old3: "refers_into s3 (ClassCreateInfo.functions info)"
    using old(4) l1 l2 l3 by (auto intro: refers_into_mono)
  define c where "c = c3\<lparr>Class.functions := Ptr (?af, 0), Class.num_functions := ?nf\<rparr>"
  from class_create_functions_result [OF r4 k3 old3]
  obtain fs where k4: "block_at s' ?k = Class_obj c"
    and f4: "block_at s' ?af = Function_array fs"
      "length fs = unat (sizeof_Function * ?nf) div unat sizeof_Function"
      "\<forall>i < unat ?nf. i < length fs \<and>
          (\<exists>r. element_at (ClassCreateInfo.functions info) i = Some r \<and>
               load_Function s3 r = Some (fs ! i))"
    and fr4: "\<forall>a. a \<noteq> ?k \<longrightarrow> a \<noteq> ?af \<longrightarrow> block_at s' a = block_at s3 a"
    unfolding c_def l3 by auto
  text \<open>what was there before is untouched\<close>
  have below: "block_at s1 a = block_at s a \<and> block_at s2 a = block_at s a \<and>
      block_at s3 a = block_at s a \<and> block_at s' a = block_at s a" if "a < ?k" for a
    using that fr0 [of a] fr1 fr2 fr3 fr4 l1 l2 by auto
  show "k = ?k" by (rule kk)
  show "\<forall>a < ?k. block_at s' a = block_at s a" using below by blast
  text \<open>the copies of constructor and destructor stay as they were made\<close>
  have keep1: "block_at s' (Suc ?k) = block_at s1 (Suc ?k)" if "ClassCreateInfo.ctor info \<noteq> NULL"
    using that c1 fr2 fr3 fr4 l2 by auto
  have keep2: "block_at s' (length (heap s1)) = block_at s2 (length (heap s1))"
    if "ClassCreateInfo.dtor info \<noteq> NULL"
    using that c2 fr3 fr4 l1 by auto
  have keep3: "block_at s' ?am = Member_array ms"
    using m3(1) fr4 l1 l2 by auto
  text \<open>the sources are read as they were at the call\<close>
  have src_F: "load_Function s r = load_Function t r"
    if "\<forall>a < ?k. block_at t a = block_at s a" "refers_into s r" for t r
    using that by (cases r) (auto simp: refers_into_def load_Function_def)
  have ctor_part: "\<exists>a F cf. p1 = Ptr (a, 0) \<and> ?k < a \<and> a < ?am \<and>
         load_Function s (ClassCreateInfo.ctor info) = Some F \<and>
         block_at s' a = Function_array [cf] \<and> fn cf = fn F \<and> Function.name cf = Function.name F"
    if nn: "ClassCreateInfo.ctor info \<noteq> NULL"
  proof -
    from c1 nn obtain F j where F: "p1 = Ptr (Suc ?k, 0)" "length (heap s1) = Suc (Suc ?k)"
        "load_Function s0 (ClassCreateInfo.ctor info) = Some F"
        "block_at s1 (Suc ?k) = Function_array [j\<lparr>fn := fn F, Function.name := Function.name F\<rparr>]"
      by blast
    have "load_Function s (ClassCreateInfo.ctor info) = Some F"
      using src_F [of s0, OF _ old(1)] fr0 F(3) by simp
    then show ?thesis
      using F keep1 [OF nn] l2
      by (intro exI [of _ "Suc ?k"] exI [of _ F]
          exI [of _ "j\<lparr>fn := fn F, Function.name := Function.name F\<rparr>"]) simp
  qed
  have dtor_part: "\<exists>a F cf. p2 = Ptr (a, 0) \<and> ?k < a \<and> a < ?am \<and> p2 \<noteq> p1 \<and>
         load_Function s (ClassCreateInfo.dtor info) = Some F \<and>
         block_at s' a = Function_array [cf] \<and> fn cf = fn F \<and> Function.name cf = Function.name F"
    if nn: "ClassCreateInfo.dtor info \<noteq> NULL"
  proof -
    from c2 nn obtain F j where F: "p2 = Ptr (length (heap s1), 0)"
        "length (heap s2) = Suc (length (heap s1))"
        "load_Function s1 (ClassCreateInfo.dtor info) = Some F"
        "block_at s2 (length (heap s1)) =
           Function_array [j\<lparr>fn := fn F, Function.name := Function.name F\<rparr>]"
      by blast
    have "load_Function s (ClassCreateInfo.dtor info) = Some F"
      using src_F [of s1, OF _ old(2)] below F(3) by simp
    moreover have "p2 \<noteq> p1" using F(1) n1 c1 by (cases "ClassCreateInfo.ctor info = NULL") auto
    ultimately show ?thesis
      using F keep2 [OF nn] l1
      by (intro exI [of _ "length (heap s1)"] exI [of _ F]
          exI [of _ "j\<lparr>fn := fn F, Function.name := Function.name F\<rparr>"]) simp
  qed
  text \<open>the two tables\<close>
  have "unat ?n \<le> length ms"
    using m3(3) by (cases "unat ?n") (auto dest: spec [of _ "unat ?n - 1"])
  then have lm: "length ms = unat ?n"
    using Member_array_exact [of ?n] m3(2) by simp
  have "unat ?nf \<le> length fs"
    using f4(3) by (cases "unat ?nf") (auto dest: spec [of _ "unat ?nf - 1"])
  then have lf: "length fs = unat ?nf"
    using Function_array_exact [of ?nf] f4(2) by simp
  have mt: "member_table s' c = Some ms"
    using keep3 lm by (simp add: member_table_def c_def c3_def)
  have ft: "function_table s' c = Some fs"
    using f4(1) lf by (simp add: function_table_def c_def c3_def)
  have msrc: "\<exists>r. element_at (ClassCreateInfo.members info) i = Some r \<and>
        load_Member s r = Some (ms ! i)" if "i < unat ?n" for i
  proof -
    from m3(3) that obtain r where r: "element_at (ClassCreateInfo.members info) i = Some r"
        "load_Member s2 r = Some (ms ! i)"
      by blast
    from element_at_block [OF r(1)] old(3) obtain a j where "r = Ptr (a, j)" "a < ?k"
      by (auto simp: refers_into_def)
    then have "load_Member s r = load_Member s2 r"
      using below [of a] by (simp add: load_Member_def)
    then show ?thesis using r by auto
  qed
  have fsrc: "\<exists>r. element_at (ClassCreateInfo.functions info) i = Some r \<and>
        load_Function s r = Some (fs ! i)" if "i < unat ?nf" for i
  proof -
    from f4(3) that obtain r where r: "element_at (ClassCreateInfo.functions info) i = Some r"
        "load_Function s3 r = Some (fs ! i)"
      by blast
    from element_at_block [OF r(1)] old(4) obtain a j where "r = Ptr (a, j)" "a < ?k"
      by (auto simp: refers_into_def)
    then have "load_Function s r = load_Function s3 r"
      using below [of a] by (simp add: load_Function_def)
    then show ?thesis using r by auto
  qed
  have fields: "Class.name c = ClassCreateInfo.name info" "Class.num_members c = ?n"
      "Class.num_functions c = ?nf" "Class.ctor c = p1" "Class.dtor c = p2"
      "Class.members c = Ptr (?am, 0)" "Class.functions c = Ptr (?af, 0)"
    by (simp_all add: c_def c3_def c0_def)
  have "?k < ?am" using l1 l2 by simp
  then show "\<exists>c ms fs am af.
           load_Class s' (Ptr k) = Some c \<and>
           Class.name c = ClassCreateInfo.name info \<and>
           Class.num_members c = ClassCreateInfo.num_members info \<and>
           Class.num_functions c = ClassCreateInfo.num_functions info \<and>
           (ClassCreateInfo.ctor info = NULL \<longrightarrow> Class.ctor c = NULL) \<and>
           (ClassCreateInfo.ctor info \<noteq> NULL \<longrightarrow>
              (\<exists>a F cf. Class.ctor c = Ptr (a, 0) \<and> k < a \<and> a < am \<and>
                 load_Function s (ClassCreateInfo.ctor info) = Some F \<and>
                 block_at s' a = Function_array [cf] \<and>
                 fn cf = fn F \<and> Function.name cf = Function.name F)) \<and>
           (ClassCreateInfo.dtor info = NULL \<longrightarrow> Class.dtor c = NULL) \<and>
           (ClassCreateInfo.dtor info \<noteq> NULL \<longrightarrow>
              (\<exists>a F cf. Class.dtor c = Ptr (a, 0) \<and> k < a \<and> a < am \<and>
                 Class.dtor c \<noteq> Class.ctor c \<and>
                 load_Function s (ClassCreateInfo.dtor info) = Some F \<and>
                 block_at s' a = Function_array [cf] \<and>
                 fn cf = fn F \<and> Function.name cf = Function.name F)) \<and>
           Class.members c = Ptr (am, 0) \<and> k < am \<and> member_table s' c = Some ms \<and>
           (\<forall>i < unat (ClassCreateInfo.num_members info).
              \<exists>r. element_at (ClassCreateInfo.members info) i = Some r \<and>
                  load_Member s r = Some (ms ! i)) \<and>
           Class.functions c = Ptr (af, 0) \<and> am < af \<and> function_table s' c = Some fs \<and>
           (\<forall>i < unat (ClassCreateInfo.num_functions info).
              \<exists>r. element_at (ClassCreateInfo.functions info) i = Some r \<and>
                  load_Function s r = Some (fs ! i))"
    unfolding kk
    using load_Class_at [OF k4] fields n1 n2 ctor_part dtor_part mt ft msrc fsrc
    by (intro exI [of _ c] exI [of _ ms] exI [of _ fs] exI [of _ ?am] exI [of _ ?af]) simp
qed

subsection \<open>What an operation leaves alone\<close>

lemma write_Class_frame:
  assumes "write_Class p f s = Some s'"
  shows "length (heap s') = length (heap s)"
    and "\<And>a. p \<noteq> Ptr a \<Longrightarrow> block_at s' a = block_at s a"
    and "\<exists>k c. p = Ptr k \<and> block_at s k = Class_obj c \<and> block_at s' k = Class_obj (f c)"
proof -
  from assms obtain k c where *: "p = Ptr k" "block_at s k = Class_obj c"
      "s' = put k (Class_obj (f c)) s"
    by (auto simp: write_Class_def split: ptr.splits block.splits)
  then have "k < length (heap s)" by (intro block_at_live) simp
  then show "length (heap s') = length (heap s)"
    and "\<And>a. p \<noteq> Ptr a \<Longrightarrow> block_at s' a = block_at s a"
    and "\<exists>k c. p = Ptr k \<and> block_at s k = Class_obj c \<and> block_at s' k = Class_obj (f c)"
    using * by auto
qed

lemma write_Member_frame:
  assumes "write_Member p f s = Some s'"
  shows "length (heap s') = length (heap s)"
    and "\<And>a. (\<forall>i. p \<noteq> Ptr (a, i)) \<Longrightarrow> block_at s' a = block_at s a"
proof -
  from assms obtain d i ms where *: "p = Ptr (d, i)" "block_at s d = Member_array ms"
      "s' = put d (Member_array (ms[i := f (ms ! i)])) s"
    by (auto simp: write_Member_def split: ptr.splits block.splits if_splits)
  then have "d < length (heap s)" by (intro block_at_live) simp
  then show "length (heap s') = length (heap s)"
    and "\<And>a. (\<forall>i. p \<noteq> Ptr (a, i)) \<Longrightarrow> block_at s' a = block_at s a"
    using * by auto
qed

lemma write_Function_frame:
  assumes "write_Function p f s = Some s'"
  shows "length (heap s') = length (heap s)"
    and "\<And>a. (\<forall>i. p \<noteq> Ptr (a, i)) \<Longrightarrow> block_at s' a = block_at s a"
proof -
  from assms obtain d i fs where *: "p = Ptr (d, i)" "block_at s d = Function_array fs"
      "s' = put d (Function_array (fs[i := f (fs ! i)])) s"
    by (auto simp: write_Function_def split: ptr.splits block.splits if_splits)
  then have "d < length (heap s)" by (intro block_at_live) simp
  then show "length (heap s') = length (heap s)"
    and "\<And>a. (\<forall>i. p \<noteq> Ptr (a, i)) \<Longrightarrow> block_at s' a = block_at s a"
    using * by auto
qed

lemma allocate_frame:
  assumes "allocate mk s = (p, s')"
  shows "\<And>a. a < length (heap s) \<Longrightarrow> block_at s' a = block_at s a"
    and "p = NULL \<or> p = Ptr (length (heap s))"
    and "length (heap s) \<le> length (heap s')"
  using assms by (auto simp: allocate_def split: list.splits if_splits)

lemma realloc_Member_frame:
  assumes "realloc_Member q sz s = Some (p, s')"
  shows "\<And>a. a < length (heap s) \<Longrightarrow> (\<forall>i. q \<noteq> Ptr (a, i)) \<Longrightarrow> block_at s' a = block_at s a"
    and "p = NULL \<or> p = Ptr (length (heap s), 0)"
    and "length (heap s) \<le> length (heap s')"
proof -
  have "(\<forall>a. a < length (heap s) \<longrightarrow> (\<forall>i. q \<noteq> Ptr (a, i)) \<longrightarrow> block_at s' a = block_at s a) \<and>
      (p = NULL \<or> p = Ptr (length (heap s), 0)) \<and> length (heap s) \<le> length (heap s')"
  proof (cases q)
    case NULL
    then obtain p0 where p0: "allocate (\<lambda>a. Member_array
             (map (junk_Member s a) [0 ..< unat sz div unat sizeof_Member])) s = (p0, s')"
        "p = array_ptr p0"
      using assms by (auto simp: realloc_Member_def malloc_Member_def split: prod.splits)
    show ?thesis
      using allocate_frame [OF p0(1)] p0(2) by (auto simp: array_ptr_def)
  next
    case (Ptr r)
    obtain d off where r: "r = (d, off)" by (cases r)
    from assms Ptr r obtain ms where ms: "block_at s d = Member_array ms" "off = 0"
      by (auto simp: realloc_Member_def split: block.splits if_splits)
    then have d: "d < length (heap s)" by (intro block_at_live) simp
    obtain p0 s0 where a: "allocate (\<lambda>a'. Member_array
                        (map (\<lambda>j. if j < length ms then ms ! j else junk_Member s a' j)
                           [0 ..< unat sz div unat sizeof_Member])) s = (p0, s0)"
      by (cases "allocate (\<lambda>a'. Member_array
                        (map (\<lambda>j. if j < length ms then ms ! j else junk_Member s a' j)
                           [0 ..< unat sz div unat sizeof_Member])) s")
    note fr = allocate_frame [OF a]
    have d0: "d < length (heap s0)" using d fr(3) by simp
    show ?thesis
      using assms Ptr r ms a fr d0
      by (cases p0) (auto simp: realloc_Member_def)
  qed
  then show "\<And>a. a < length (heap s) \<Longrightarrow> (\<forall>i. q \<noteq> Ptr (a, i)) \<Longrightarrow> block_at s' a = block_at s a"
    and "p = NULL \<or> p = Ptr (length (heap s), 0)"
    and "length (heap s) \<le> length (heap s')"
    by blast+
qed

lemma class_add_member_frame:
  assumes run: "class_add_member (Ptr k) member w = Some w'"
    and c: "load_Class (mem w) (Ptr k) = Some c"
    and a: "a < length (heap (mem w))" "a \<noteq> k" "\<forall>i. Class.members c \<noteq> Ptr (a, i)"
  shows "block_at (mem w') a = block_at (mem w) a"
proof (cases "member = NULL")
  case True
  then show ?thesis using run by (auto simp: class_add_member_def DEBUG_BREAK_def)
next
  case False
  let ?sz = "sizeof_Member * Class.num_members c + sizeof_Member"
  from run False c obtain p s1 where 1: "realloc_Member (Class.members c) ?sz (mem w) = Some (p, s1)"
    by (cases "realloc_Member (Class.members c) ?sz (mem w)")
      (auto simp: class_add_member_def class_get_num_members_def)
  note fr1 = realloc_Member_frame [OF 1]
  from run False c 1 obtain s2 where 2: "write_Class (Ptr k) (\<lambda>c. c\<lparr>Class.members := p\<rparr>) s1 = Some s2"
    by (cases "write_Class (Ptr k) (\<lambda>c. c\<lparr>Class.members := p\<rparr>) s1")
      (auto simp: class_add_member_def class_get_num_members_def)
  note fr2 = write_Class_frame [OF 2]
  have a2: "block_at s2 a = block_at (mem w) a"
    using fr1(1) [OF a(1) a(3)] fr2(2) [of a] a(2) by simp
  show ?thesis
  proof (cases "p = NULL")
    case True
    then show ?thesis
      using run False c 1 2 a2 by (auto simp: class_add_member_def class_get_num_members_def)
  next
    case nn: False
    then have p: "p = Ptr (length (heap (mem w)), 0)" using fr1(2) by simp
    from run False c 1 2 nn obtain s3 c3 dst m where
      3: "write_Class (Ptr k) (\<lambda>c. c\<lparr>Class.num_members := Class.num_members c + 1\<rparr>) s2 = Some s3"
      and c3: "load_Class s3 (Ptr k) = Some c3"
      and dst: "element (Class.members c3) (Class.num_members c3 - 1) = Some dst"
      and 4: "write_Member dst (\<lambda>_. m) s3 = Some (mem w')"
      by (auto simp: class_add_member_def class_get_num_members_def bind_eq_Some_conv)
    note fr3 = write_Class_frame [OF 3]
    from fr2(3) fr3(3) c3 have "Class.members c3 = p"
      by (auto simp: load_Class_def)
    then have "\<forall>i. dst \<noteq> Ptr (a, i)"
      using dst p a(1) by (auto simp: element_def element_at_def)
    from write_Member_frame(2) [OF 4 this] fr3(2) [of a] a(2) a2
    show ?thesis by simp
  qed
qed

lemma realloc_Function_frame:
  assumes "realloc_Function q sz s = Some (p, s')"
  shows "\<And>a. a < length (heap s) \<Longrightarrow> (\<forall>i. q \<noteq> Ptr (a, i)) \<Longrightarrow> block_at s' a = block_at s a"
    and "p = NULL \<or> p = Ptr (length (heap s), 0)"
    and "length (heap s) \<le> length (heap s')"
proof -
  have "(\<forall>a. a < length (heap s) \<longrightarrow> (\<forall>i. q \<noteq> Ptr (a, i)) \<longrightarrow> block_at s' a = block_at s a) \<and>
      (p = NULL \<or> p = Ptr (length (heap s), 0)) \<and> length (heap s) \<le> length (heap s')"
  proof (cases q)
    case NULL
    then obtain p0 where p0: "allocate (\<lambda>a. Function_array
             (map (junk_Function s a) [0 ..< unat sz div unat sizeof_Function])) s = (p0, s')"
        "p = array_ptr p0"
      using assms by (auto simp: realloc_Function_def malloc_Function_def split: prod.splits)
    show ?thesis
      using allocate_frame [OF p0(1)] p0(2) by (auto simp: array_ptr_def)
  next
    case (Ptr r)
    obtain d off where r: "r = (d, off)" by (cases r)
    from assms Ptr r obtain ms where ms: "block_at s d = Function_array ms" "off = 0"
      by (auto simp: realloc_Function_def split: block.splits if_splits)
    then have d: "d < length (heap s)" by (intro block_at_live) simp
    obtain p0 s0 where a: "allocate (\<lambda>a'. Function_array
                        (map (\<lambda>j. if j < length ms then ms ! j else junk_Function s a' j)
                           [0 ..< unat sz div unat sizeof_Function])) s = (p0, s0)"
      by (cases "allocate (\<lambda>a'. Function_array
                        (map (\<lambda>j. if j < length ms then ms ! j else junk_Function s a' j)
                           [0 ..< unat sz div unat sizeof_Function])) s")
    note fr = allocate_frame [OF a]
    have d0: "d < length (heap s0)" using d fr(3) by simp
    show ?thesis
      using assms Ptr r ms a fr d0
      by (cases p0) (auto simp: realloc_Function_def)
  qed
  then show "\<And>a. a < length (heap s) \<Longrightarrow> (\<forall>i. q \<noteq> Ptr (a, i)) \<Longrightarrow> block_at s' a = block_at s a"
    and "p = NULL \<or> p = Ptr (length (heap s), 0)"
    and "length (heap s) \<le> length (heap s')"
    by blast+
qed

lemma class_add_function_frame:
  assumes run: "class_add_function (Ptr k) function w = Some w'"
    and c: "load_Class (mem w) (Ptr k) = Some c"
    and a: "a < length (heap (mem w))" "a \<noteq> k" "\<forall>i. Class.functions c \<noteq> Ptr (a, i)"
  shows "block_at (mem w') a = block_at (mem w) a"
proof (cases "function = NULL")
  case True
  then show ?thesis using run by (auto simp: class_add_function_def DEBUG_BREAK_def)
next
  case False
  let ?sz = "sizeof_Function * Class.num_functions c + sizeof_Function"
  from run False c obtain p s1 where 1: "realloc_Function (Class.functions c) ?sz (mem w) = Some (p, s1)"
    by (cases "realloc_Function (Class.functions c) ?sz (mem w)")
      (auto simp: class_add_function_def class_get_num_functions_def)
  note fr1 = realloc_Function_frame [OF 1]
  from run False c 1 obtain s2 where 2: "write_Class (Ptr k) (\<lambda>c. c\<lparr>Class.functions := p\<rparr>) s1 = Some s2"
    by (cases "write_Class (Ptr k) (\<lambda>c. c\<lparr>Class.functions := p\<rparr>) s1")
      (auto simp: class_add_function_def class_get_num_functions_def)
  note fr2 = write_Class_frame [OF 2]
  have a2: "block_at s2 a = block_at (mem w) a"
    using fr1(1) [OF a(1) a(3)] fr2(2) [of a] a(2) by simp
  show ?thesis
  proof (cases "p = NULL")
    case True
    then show ?thesis
      using run False c 1 2 a2 by (auto simp: class_add_function_def class_get_num_functions_def)
  next
    case nn: False
    then have p: "p = Ptr (length (heap (mem w)), 0)" using fr1(2) by simp
    from run False c 1 2 nn obtain s3 c3 dst m where
      3: "write_Class (Ptr k) (\<lambda>c. c\<lparr>Class.num_functions := Class.num_functions c + 1\<rparr>) s2 = Some s3"
      and c3: "load_Class s3 (Ptr k) = Some c3"
      and dst: "element (Class.functions c3) (Class.num_functions c3 - 1) = Some dst"
      and 4: "write_Function dst (\<lambda>_. m) s3 = Some (mem w')"
      by (auto simp: class_add_function_def class_get_num_functions_def bind_eq_Some_conv)
    note fr3 = write_Class_frame [OF 3]
    from fr2(3) fr3(3) c3 have "Class.functions c3 = p"
      by (auto simp: load_Class_def)
    then have "\<forall>i. dst \<noteq> Ptr (a, i)"
      using dst p a(1) by (auto simp: element_def element_at_def)
    from write_Function_frame(2) [OF 4 this] fr3(2) [of a] a(2) a2
    show ?thesis by simp
  qed
qed

subsection \<open>Creation\<close>

lemma class_create_storage_old:
  assumes "class_create env (Some info) w = Some (Ptr k, w')"
  obtains s1 where "class_create_storage info (mem w) = Some (Ptr k, s1)"
  using assms
  by (cases "class_create_storage info (mem w)")
    (auto simp: class_create_def bind_eq_Some_conv split: if_splits prod.splits)

text \<open>
  C3. Let \<^verbatim>\<open>class_create\<close> return an instance for a descriptor whose constructor
  pointer refers to the function \<open>F\<close> (and whose pointers refer to storage that exists
  at the call). Then the instance is new; the routine has built it with a copy \<open>cf\<close> of
  the constructor that has the callable of \<open>F\<close>; the kind of that copy is set to
  \<^verbatim>\<open>FUNCTION_TYPE_CONSTRUCTOR\<close> in the store the callable starts from; the store that
  \<^verbatim>\<open>class_create\<close> returns is the one this call leaves; and the run of
  \<^verbatim>\<open>class_create\<close> consists of exactly one call: the unary callable of \<open>F\<close> with the
  new instance as its only argument.
\<close>

theorem constructor_once:
  assumes run: "class_create env (Some info) w = Some (Ptr k, w')"
    and F: "load_Function (mem w) (ClassCreateInfo.ctor info) = Some F"
    and info: "descriptor_in (mem w) info"
  shows "\<exists>s1 c a cf body.
           class_create_storage info (mem w) = Some (Ptr k, s1) \<and>
           k = length (heap (mem w)) \<and>
           load_Class s1 (Ptr k) = Some c \<and> Class.ctor c = Ptr (a, 0) \<and>
           block_at s1 a = Function_array [cf] \<and> fn cf = fn F \<and>
           unary env (fn F) = Some body \<and>
           body (Ptr k)
             (put a (Function_array [cf\<lparr>Function.type := FUNCTION_TYPE_CONSTRUCTOR\<rparr>]) s1) =
             Some (mem w') \<and>
           trace w' = trace w @ [Call_unary (fn F) (Ptr k)]"
proof -
  from run obtain s1 where s1: "class_create_storage info (mem w) = Some (Ptr k, s1)"
    by (rule class_create_storage_old)
  have old: "refers_into (mem w) (ClassCreateInfo.ctor info)"
      "refers_into (mem w) (ClassCreateInfo.dtor info)"
      "refers_into (mem w) (ClassCreateInfo.members info)"
      "refers_into (mem w) (ClassCreateInfo.functions info)"
    using info by (simp_all add: descriptor_in_def)
  have nn: "ClassCreateInfo.ctor info \<noteq> NULL"
    using F by (auto simp: load_Function_def)
  from class_create_storage_result(3) [OF s1 old] nn F
  obtain c a cf where c: "load_Class s1 (Ptr k) = Some c" "Class.ctor c = Ptr (a, 0)" "k < a"
      "block_at s1 a = Function_array [cf]" "fn cf = fn F"
    by auto
  have kc: "block_at s1 k = Class_obj c" using c(1) by (auto elim: load_Class_SomeD)
  have a: "a < length (heap s1)" using c(4) by (intro block_at_live) simp
  let ?s2 = "put a (Function_array [cf\<lparr>Function.type := FUNCTION_TYPE_CONSTRUCTOR\<rparr>]) s1"
  have kc2: "block_at ?s2 k = Class_obj c" and a2: "block_at ?s2 a =
      Function_array [cf\<lparr>Function.type := FUNCTION_TYPE_CONSTRUCTOR\<rparr>]"
    using kc c(3) a by simp_all
  have run2: "do {
        (r, w') \<leftarrow> function_invoke env (Ptr (a, 0)) (Ptr k) NULL (w\<lparr>mem := ?s2\<rparr>);
        Some (Ptr k, w')
      } = Some (Ptr k, w')"
    using run s1 c kc kc2
    by (simp add: class_create_def class_has_constructor_def write_Function_at load_Class_at)
  have inv: "function_invoke env (Ptr (a, 0)) (Ptr k) NULL (w\<lparr>mem := ?s2\<rparr>) =
      do { w' \<leftarrow> call_unary env (fn F) (Ptr k) (w\<lparr>mem := ?s2\<rparr>); Some (NULL, w') }"
    using a2 c(5)
    by (simp add: function_invoke_def function_get_type_def load_Function_at)
  from run2 obtain body where body: "unary env (fn F) = Some body"
    unfolding inv by (cases "unary env (fn F)") (auto simp: call_unary_def)
  from run2 have "body (Ptr k) ?s2 = Some (mem w') \<and> trace w' = trace w @ [Call_unary (fn F) (Ptr k)]"
    unfolding inv using body
    by (cases "body (Ptr k) ?s2") (auto simp: call_unary_def)
  then show ?thesis
    using s1 c body class_create_storage_result(1) [OF s1 old]
    by (intro exI [of _ s1] exI [of _ c] exI [of _ a] exI [of _ cf] exI [of _ body]) simp
qed

lemmas run_defs = class_create_def class_create_storage_def class_create_ctor_def
  class_create_dtor_def class_create_members_def class_create_functions_def
  class_has_constructor_def class_has_destructor_def class_get_num_members_def
  class_get_num_functions_def function_invoke_def function_get_type_def call_unary_def
  call_binary_def malloc_Class_def malloc_Member_def malloc_Function_def allocate_def
  array_ptr_def write_Class_def write_Member_def write_Function_def element_at_def element_def
  put_def push_def sizeof_Member_def sizeof_Function_def


theorem constructor_once_witness:
  "class_create demo_env (Some demo_info) \<lparr>mem = demo_store, trace = []\<rparr> \<noteq> None \<and>
   fst (the (class_create demo_env (Some demo_info) \<lparr>mem = demo_store, trace = []\<rparr>)) = Ptr 5 \<and>
   load_Function demo_store (ClassCreateInfo.ctor demo_info) =
     Some \<lparr>Function.name = Ptr ''c'', type = FUNCTION_TYPE_CONSTRUCTOR,
           fn = addr_vec2_ctor, binary_member_fn = 7\<rparr> \<and>
   descriptor_in demo_store demo_info \<and>
   trace (snd (the (class_create demo_env (Some demo_info) \<lparr>mem = demo_store, trace = []\<rparr>))) =
     [Call_unary addr_vec2_ctor (Ptr 5)]"
proof -
  let ?w = "\<lparr>mem = demo_store, trace = []\<rparr>"
  let ?r = "class_create demo_env (Some demo_info) ?w"
  let ?F = "\<lparr>Function.name = Ptr ''c'', type = FUNCTION_TYPE_CONSTRUCTOR,
           fn = addr_vec2_ctor, binary_member_fn = 7\<rparr>"
  have ev: "?r \<noteq> None \<and> fst (the ?r) = Ptr 5"
    by (simp add: run_defs demo_defs demo_info_def)
  then have run: "?r = Some (Ptr 5, snd (the ?r))"
    by (cases ?r) auto
  have F: "load_Function (mem ?w) (ClassCreateInfo.ctor demo_info) = Some ?F"
    by (simp add: demo_defs demo_info_def)
  have info: "descriptor_in (mem ?w) demo_info"
    by (simp add: descriptor_in_def refers_into_def demo_info_def demo_store_def)
  from constructor_once [OF run F info] show ?thesis
    using ev F info by auto
qed

lemma member_at_cong:
  assumes "block_at s2 k = block_at s1 k"
    and "\<And>c a off. block_at s1 k = Class_obj c \<Longrightarrow> Class.members c = Ptr (a, off) \<Longrightarrow>
           block_at s2 a = block_at s1 a"
  shows "member_at s2 (Ptr k) i = member_at s1 (Ptr k) i"
proof (cases "block_at s1 k")
  case (Class_obj c)
  show ?thesis
  proof (cases "Class.members c")
    case NULL
    then show ?thesis using Class_obj assms(1)
      by (simp add: member_at_def class_get_member_def class_get_num_members_def load_Class_def
          element_def element_at_def load_Member_def)
  next
    case (Ptr r)
    obtain a off where "r = (a, off)" by (cases r)
    then show ?thesis using Class_obj Ptr assms(1) assms(2) [OF Class_obj, of a off]
      by (simp add: member_at_def class_get_member_def class_get_num_members_def load_Class_def
          element_def element_at_def load_Member_def)
  qed
qed (use assms(1) in \<open>simp_all add: member_at_def class_get_member_def
      class_get_num_members_def load_Class_def\<close>)

lemma function_at_cong:
  assumes "block_at s2 k = block_at s1 k"
    and "\<And>c a off. block_at s1 k = Class_obj c \<Longrightarrow> Class.functions c = Ptr (a, off) \<Longrightarrow>
           block_at s2 a = block_at s1 a"
  shows "function_at s2 (Ptr k) i = function_at s1 (Ptr k) i"
proof (cases "block_at s1 k")
  case (Class_obj c)
  show ?thesis
  proof (cases "Class.functions c")
    case NULL
    then show ?thesis using Class_obj assms(1)
      by (simp add: function_at_def class_get_function_def class_get_num_functions_def
          load_Class_def element_def element_at_def load_Function_def)
  next
    case (Ptr r)
    obtain a off where "r = (a, off)" by (cases r)
    then show ?thesis using Class_obj Ptr assms(1) assms(2) [OF Class_obj, of a off]
      by (simp add: function_at_def class_get_function_def class_get_num_functions_def
          load_Class_def element_def element_at_def load_Function_def)
  qed
qed (use assms(1) in \<open>simp_all add: function_at_def class_get_function_def
      class_get_num_functions_def load_Class_def\<close>)

text \<open>How a run of \<^verbatim>\<open>class_create\<close> that returns an instance ends: without a
  constructor it returns the store it has built; with one, the store that the
  constructor's body leaves when it starts from the store built, with the kind of the
  copy set.\<close>

lemma class_create_ends:
  assumes run: "class_create env (Some info) w = Some (Ptr k, w')"
    and s1: "class_create_storage info (mem w) = Some (Ptr k, s1)"
    and c: "load_Class s1 (Ptr k) = Some c"
  shows "Class.ctor c = NULL \<Longrightarrow> w' = w\<lparr>mem := s1\<rparr>"
    and "\<And>a cf. Class.ctor c = Ptr (a, 0) \<Longrightarrow> a \<noteq> k \<Longrightarrow> block_at s1 a = Function_array [cf] \<Longrightarrow>
           \<exists>body. unary env (fn cf) = Some body \<and>
             body (Ptr k)
               (put a (Function_array [cf\<lparr>Function.type := FUNCTION_TYPE_CONSTRUCTOR\<rparr>]) s1) =
               Some (mem w')"
proof -
  show "w' = w\<lparr>mem := s1\<rparr>" if "Class.ctor c = NULL"
    using run s1 c that by (auto simp: class_create_def class_has_constructor_def)
  show "\<exists>body. unary env (fn cf) = Some body \<and>
      body (Ptr k) (put a (Function_array [cf\<lparr>Function.type := FUNCTION_TYPE_CONSTRUCTOR\<rparr>]) s1) =
        Some (mem w')"
    if ct: "Class.ctor c = Ptr (a, 0)" and ak: "a \<noteq> k" and blk: "block_at s1 a = Function_array [cf]"
    for a cf
  proof -
    have kc: "block_at s1 k = Class_obj c" using c by (auto elim: load_Class_SomeD)
    have a: "a < length (heap s1)" using blk by (intro block_at_live) simp
    let ?s2 = "put a (Function_array [cf\<lparr>Function.type := FUNCTION_TYPE_CONSTRUCTOR\<rparr>]) s1"
    have kc2: "block_at ?s2 k = Class_obj c" and a2: "block_at ?s2 a =
        Function_array [cf\<lparr>Function.type := FUNCTION_TYPE_CONSTRUCTOR\<rparr>]"
      using kc ak a by simp_all
    have run2: "do {
          (r, w') \<leftarrow> function_invoke env (Ptr (a, 0)) (Ptr k) NULL (w\<lparr>mem := ?s2\<rparr>);
          Some (Ptr k, w')
        } = Some (Ptr k, w')"
      using run s1 c ct blk kc kc2
      by (simp add: class_create_def class_has_constructor_def write_Function_at load_Class_at)
    have inv: "function_invoke env (Ptr (a, 0)) (Ptr k) NULL (w\<lparr>mem := ?s2\<rparr>) =
        do { w' \<leftarrow> call_unary env (fn cf) (Ptr k) (w\<lparr>mem := ?s2\<rparr>); Some (NULL, w') }"
      using a2 by (simp add: function_invoke_def function_get_type_def load_Function_at)
    from run2 obtain body where body: "unary env (fn cf) = Some body"
      unfolding inv by (cases "unary env (fn cf)") (auto simp: call_unary_def)
    from run2 have "body (Ptr k) ?s2 = Some (mem w')"
      unfolding inv using body
      by (cases "body (Ptr k) ?s2") (auto simp: call_unary_def)
    with body show ?thesis by blast
  qed
qed

text \<open>
  C6, as the code has it: for \<^verbatim>\<open>class_create\<close> of the last iteration. Let it return
  an instance for a descriptor whose pointers refer to storage that exists at the call,
  and let the constructor, if the descriptor has one, leave the \<^verbatim>\<open>Class\<close> object it
  is given as it is (its parameter is a \<^verbatim>\<open>const Class*\<close>) and remove no address. Let
  \<open>s1\<close> be the store in which the routine has built the instance: the store it returns
  when there is no constructor, and the one it hands to the constructor otherwise.

  In \<open>s1\<close> the two tables of the instance are blocks that did not exist at the call, so
  they are not the descriptor's arrays; they hold the values of the descriptor's
  elements, and the accessors resolve every index to such a value; the blocks that
  existed at the call are as they were. In the store that \<^verbatim>\<open>class_create\<close> returns,
  the object of the instance is the one built, with these two tables; the accessors
  resolve every index as in \<open>s1\<close> when the constructor has left the table as it was.
  Whatever is put afterwards in the place of a block that existed at the call (other
  content, or nothing: the block is released), the accessors of the returned instance
  return what they returned; and whatever \<^verbatim>\<open>class_add_member\<close> or
  \<^verbatim>\<open>class_add_function\<close> appends to the returned instance, the blocks that existed at
  the call stay as they were.
\<close>

theorem create_copies_tables:
  assumes run: "class_create env (Some info) w = Some (Ptr k, w')"
    and info: "descriptor_in (mem w) info"
    and const: "\<forall>F body s s2. load_Function (mem w) (ClassCreateInfo.ctor info) = Some F \<longrightarrow>
                  unary env (fn F) = Some body \<longrightarrow> body (Ptr k) s = Some s2 \<longrightarrow>
                  block_at s2 k = block_at s k \<and> length (heap s) \<le> length (heap s2)"
  shows "\<exists>s1 c ms fs am af.
           class_create_storage info (mem w) = Some (Ptr k, s1) \<and>
           (ClassCreateInfo.ctor info = NULL \<longrightarrow> w' = w\<lparr>mem := s1\<rparr>) \<and>
           load_Class s1 (Ptr k) = Some c \<and>
           load_Class (mem w') (Ptr k) = Some c \<and>
           Class.members c = Ptr (am, 0) \<and> Class.functions c = Ptr (af, 0) \<and>
           length (heap (mem w)) < am \<and> length (heap (mem w)) < af \<and> am \<noteq> af \<and>
           member_table s1 c = Some ms \<and> function_table s1 c = Some fs \<and>
           (\<forall>i < ClassCreateInfo.num_members info.
              \<exists>r. element (ClassCreateInfo.members info) i = Some r \<and>
                  load_Member (mem w) r = Some (ms ! unat i) \<and>
                  member_at s1 (Ptr k) i = Some (ms ! unat i)) \<and>
           (\<forall>i < ClassCreateInfo.num_functions info.
              \<exists>r. element (ClassCreateInfo.functions info) i = Some r \<and>
                  load_Function (mem w) r = Some (fs ! unat i) \<and>
                  function_at s1 (Ptr k) i = Some (fs ! unat i)) \<and>
           (\<forall>a < length (heap (mem w)). block_at s1 a = block_at (mem w) a) \<and>
           (block_at (mem w') am = block_at s1 am \<longrightarrow>
              (\<forall>i. member_at (mem w') (Ptr k) i = member_at s1 (Ptr k) i)) \<and>
           (block_at (mem w') af = block_at s1 af \<longrightarrow>
              (\<forall>i. function_at (mem w') (Ptr k) i = function_at s1 (Ptr k) i)) \<and>
           (\<forall>a < length (heap (mem w)). \<forall>b i.
              member_at (put a b (mem w')) (Ptr k) i = member_at (mem w') (Ptr k) i \<and>
              function_at (put a b (mem w')) (Ptr k) i = function_at (mem w') (Ptr k) i \<and>
              class_get_num_members (put a b (mem w')) (Ptr k) =
                class_get_num_members (mem w') (Ptr k) \<and>
              class_get_num_functions (put a b (mem w')) (Ptr k) =
                class_get_num_functions (mem w') (Ptr k)) \<and>
           (\<forall>member w2. class_add_member (Ptr k) member w' = Some w2 \<longrightarrow>
              (\<forall>a < length (heap (mem w)). block_at (mem w2) a = block_at (mem w') a)) \<and>
           (\<forall>function w2. class_add_function (Ptr k) function w' = Some w2 \<longrightarrow>
              (\<forall>a < length (heap (mem w)). block_at (mem w2) a = block_at (mem w') a))"
proof -
  let ?s = "mem w" and ?n = "ClassCreateInfo.num_members info"
    and ?nf = "ClassCreateInfo.num_functions info"
  from run obtain s1 where s1: "class_create_storage info ?s = Some (Ptr k, s1)"
    by (rule class_create_storage_old)
  have old: "refers_into ?s (ClassCreateInfo.ctor info)"
      "refers_into ?s (ClassCreateInfo.dtor info)"
      "refers_into ?s (ClassCreateInfo.members info)"
      "refers_into ?s (ClassCreateInfo.functions info)"
    using info by (simp_all add: descriptor_in_def)
  note res = class_create_storage_result [OF s1 old]
  from res(3) obtain c ms fs am af where c: "load_Class s1 (Ptr k) = Some c"
      "Class.num_members c = ?n" "Class.num_functions c = ?nf"
      "ClassCreateInfo.ctor info = NULL \<longrightarrow> Class.ctor c = NULL"
      "Class.members c = Ptr (am, 0)" "k < am" "member_table s1 c = Some ms"
      "\<forall>i < unat ?n. \<exists>r. element_at (ClassCreateInfo.members info) i = Some r \<and>
          load_Member ?s r = Some (ms ! i)"
      "Class.functions c = Ptr (af, 0)" "am < af" "function_table s1 c = Some fs"
      "\<forall>i < unat ?nf. \<exists>r. element_at (ClassCreateInfo.functions info) i = Some r \<and>
          load_Function ?s r = Some (fs ! i)"
      "ClassCreateInfo.ctor info \<noteq> NULL \<longrightarrow>
         (\<exists>a F cf. Class.ctor c = Ptr (a, 0) \<and> k < a \<and>
            load_Function ?s (ClassCreateInfo.ctor info) = Some F \<and>
            block_at s1 a = Function_array [cf] \<and> fn cf = fn F)"
    by blast
  have k: "k = length (heap ?s)" by (rule res(1))
  have kc: "block_at s1 k = Class_obj c" using c(1) by (auto elim: load_Class_SomeD)
  have below: "block_at s1 a = block_at ?s a" if "a < length (heap ?s)" for a
    using res(2) that by simp
  have ret: "w' = w\<lparr>mem := s1\<rparr>" if "ClassCreateInfo.ctor info = NULL"
    using class_create_ends(1) [OF run s1 c(1)] c(4) that by simp
  have mcopy: "\<exists>r. element (ClassCreateInfo.members info) i = Some r \<and>
      load_Member ?s r = Some (ms ! unat i) \<and> member_at s1 (Ptr k) i = Some (ms ! unat i)"
    if "i < ?n" for i
  proof -
    have "unat i < unat ?n" using that by (simp add: word_less_nat_alt)
    with c(8) obtain r where "element_at (ClassCreateInfo.members info) (unat i) = Some r"
        "load_Member ?s r = Some (ms ! unat i)"
      by blast
    then show ?thesis
      using member_at_table [OF c(1) c(7)] that c(2) by (simp add: element_def)
  qed
  have fcopy: "\<exists>r. element (ClassCreateInfo.functions info) i = Some r \<and>
      load_Function ?s r = Some (fs ! unat i) \<and> function_at s1 (Ptr k) i = Some (fs ! unat i)"
    if "i < ?nf" for i
  proof -
    have "unat i < unat ?nf" using that by (simp add: word_less_nat_alt)
    with c(12) obtain r where "element_at (ClassCreateInfo.functions info) (unat i) = Some r"
        "load_Function ?s r = Some (fs ! unat i)"
      by blast
    then show ?thesis
      using function_at_table [OF c(1) c(11)] that c(3) by (simp add: element_def)
  qed
  have len: "length (heap ?s) \<le> length (heap s1)"
    using kc k block_at_live [of s1 k] by simp
  text \<open>the store returned\<close>
  have fin: "block_at (mem w') k = Class_obj c \<and> length (heap s1) \<le> length (heap (mem w'))"
  proof (cases "ClassCreateInfo.ctor info = NULL")
    case True
    then show ?thesis using ret kc by simp
  next
    case False
    with c(13) obtain a F cf where ct: "Class.ctor c = Ptr (a, 0)" "k < a"
        "load_Function ?s (ClassCreateInfo.ctor info) = Some F"
        "block_at s1 a = Function_array [cf]" "fn cf = fn F"
      by blast
    let ?s2 = "put a (Function_array [cf\<lparr>Function.type := FUNCTION_TYPE_CONSTRUCTOR\<rparr>]) s1"
    from class_create_ends(2) [OF run s1 c(1) ct(1) _ ct(4)] ct(2)
    obtain body where body: "unary env (fn cf) = Some body" "body (Ptr k) ?s2 = Some (mem w')"
      by auto
    have a: "a < length (heap s1)" using ct(4) by (intro block_at_live) simp
    have bF: "unary env (fn F) = Some body" using body(1) ct(5) by simp
    from const have "load_Function ?s (ClassCreateInfo.ctor info) = Some F \<longrightarrow>
        unary env (fn F) = Some body \<longrightarrow> body (Ptr k) ?s2 = Some (mem w') \<longrightarrow>
        block_at (mem w') k = block_at ?s2 k \<and> length (heap ?s2) \<le> length (heap (mem w'))"
      by blast
    with ct(3) bF body(2)
    have "block_at (mem w') k = block_at ?s2 k \<and> length (heap ?s2) \<le> length (heap (mem w'))"
      by blast
    then show ?thesis using kc ct(2) a by simp
  qed
  then have kc': "block_at (mem w') k = Class_obj c"
    and len': "length (heap ?s) \<le> length (heap (mem w'))"
    using len by simp_all
  have c': "load_Class (mem w') (Ptr k) = Some c" using kc' by (rule load_Class_at)
  have msame: "\<forall>i. member_at (mem w') (Ptr k) i = member_at s1 (Ptr k) i"
    if "block_at (mem w') am = block_at s1 am"
  proof
    fix i show "member_at (mem w') (Ptr k) i = member_at s1 (Ptr k) i"
      using that kc kc' c(5) by (intro member_at_cong) auto
  qed
  have fsame: "\<forall>i. function_at (mem w') (Ptr k) i = function_at s1 (Ptr k) i"
    if "block_at (mem w') af = block_at s1 af"
  proof
    fix i show "function_at (mem w') (Ptr k) i = function_at s1 (Ptr k) i"
      using that kc kc' c(9) by (intro function_at_cong) auto
  qed
  have mutate: "member_at (put a b (mem w')) (Ptr k) i = member_at (mem w') (Ptr k) i \<and>
      function_at (put a b (mem w')) (Ptr k) i = function_at (mem w') (Ptr k) i \<and>
      class_get_num_members (put a b (mem w')) (Ptr k) = class_get_num_members (mem w') (Ptr k) \<and>
      class_get_num_functions (put a b (mem w')) (Ptr k) =
        class_get_num_functions (mem w') (Ptr k)"
    if "a < length (heap ?s)" for a b i
  proof -
    have a: "a < length (heap (mem w'))" "a \<noteq> k" "a \<noteq> am" "a \<noteq> af"
      using that len' k c(6) c(10) by simp_all
    then have same: "block_at (put a b (mem w')) k = block_at (mem w') k"
        "block_at (put a b (mem w')) am = block_at (mem w') am"
        "block_at (put a b (mem w')) af = block_at (mem w') af"
      by simp_all
    have "member_at (put a b (mem w')) (Ptr k) i = member_at (mem w') (Ptr k) i"
      using same kc' c(5) by (intro member_at_cong) auto
    moreover have "function_at (put a b (mem w')) (Ptr k) i = function_at (mem w') (Ptr k) i"
      using same kc' c(9) by (intro function_at_cong) auto
    ultimately show ?thesis
      using same(1) by (simp add: class_get_num_members_def class_get_num_functions_def
          load_Class_def)
  qed
  have addm: "block_at (mem w2) a = block_at (mem w') a"
    if "class_add_member (Ptr k) member w' = Some w2" "a < length (heap ?s)"
    for member w2 a
    using that len' k c' c(5) c(6) by (intro class_add_member_frame [OF that(1)]) auto
  have addf: "block_at (mem w2) a = block_at (mem w') a"
    if "class_add_function (Ptr k) p w' = Some w2" "a < length (heap ?s)"
    for p w2 a
    using that len' k c' c(9) c(6) c(10) by (intro class_add_function_frame [OF that(1)]) auto
  have fresh: "length (heap ?s) < am" "length (heap ?s) < af" "am \<noteq> af"
    using k c(6) c(10) by simp_all
  have g2: "ClassCreateInfo.ctor info = NULL \<longrightarrow> w' = w\<lparr>mem := s1\<rparr>"
    using ret by blast
  have g11: "\<forall>i < ClassCreateInfo.num_members info.
              \<exists>r. element (ClassCreateInfo.members info) i = Some r \<and>
                  load_Member (mem w) r = Some (ms ! unat i) \<and>
                  member_at s1 (Ptr k) i = Some (ms ! unat i)"
    using mcopy by blast
  have g12: "\<forall>i < ClassCreateInfo.num_functions info.
              \<exists>r. element (ClassCreateInfo.functions info) i = Some r \<and>
                  load_Function (mem w) r = Some (fs ! unat i) \<and>
                  function_at s1 (Ptr k) i = Some (fs ! unat i)"
    using fcopy by blast
  have g13: "\<forall>a < length (heap (mem w)). block_at s1 a = block_at (mem w) a"
    using below by blast
  have g13a: "block_at (mem w') am = block_at s1 am \<longrightarrow>
              (\<forall>i. member_at (mem w') (Ptr k) i = member_at s1 (Ptr k) i)"
    using msame by blast
  have g13b: "block_at (mem w') af = block_at s1 af \<longrightarrow>
              (\<forall>i. function_at (mem w') (Ptr k) i = function_at s1 (Ptr k) i)"
    using fsame by blast
  have g14: "\<forall>a < length (heap (mem w)). \<forall>b i.
              member_at (put a b (mem w')) (Ptr k) i = member_at (mem w') (Ptr k) i \<and>
              function_at (put a b (mem w')) (Ptr k) i = function_at (mem w') (Ptr k) i \<and>
              class_get_num_members (put a b (mem w')) (Ptr k) =
                class_get_num_members (mem w') (Ptr k) \<and>
              class_get_num_functions (put a b (mem w')) (Ptr k) =
                class_get_num_functions (mem w') (Ptr k)"
    using mutate by blast
  have g15: "\<forall>member w2. class_add_member (Ptr k) member w' = Some w2 \<longrightarrow>
              (\<forall>a < length (heap (mem w)). block_at (mem w2) a = block_at (mem w') a)"
    using addm by blast
  have g16: "\<forall>function w2. class_add_function (Ptr k) function w' = Some w2 \<longrightarrow>
              (\<forall>a < length (heap (mem w)). block_at (mem w2) a = block_at (mem w') a)"
    using addf by blast
  show ?thesis
    apply (rule exI [of _ s1], rule exI [of _ c], rule exI [of _ ms], rule exI [of _ fs],
        rule exI [of _ am], rule exI [of _ af])
    apply (intro conjI)
    apply (fact s1 g2 c(1) c' c(5) c(9) fresh c(7) c(11) g11 g12 g13 g13a g13b g14 g15 g16)+
    done
qed

text \<open>On \<open>demo_store\<close>, with the descriptor \<open>demo_info\<close> and the empty constructor of the
  test: the member of the returned instance is the value of the descriptor's member,
  also after the descriptor's array (block 1) has been released or overwritten.\<close>

theorem create_copies_tables_witness:
  "descriptor_in demo_store demo_info \<and>
   class_create demo_env (Some demo_info) \<lparr>mem = demo_store, trace = []\<rparr> =
     Some (Ptr 5, demo_instance) \<and>
   load_Member demo_store (Ptr (1, 0)) =
     Some \<lparr>Member.data = 5, name = Ptr ''m'', type = MEMBER_TYPE_I32\<rparr> \<and>
   member_at (mem demo_instance) (Ptr 5) 0 =
     Some \<lparr>Member.data = 5, name = Ptr ''m'', type = MEMBER_TYPE_I32\<rparr> \<and>
   member_at (put 1 Released (mem demo_instance)) (Ptr 5) 0 =
     Some \<lparr>Member.data = 5, name = Ptr ''m'', type = MEMBER_TYPE_I32\<rparr> \<and>
   member_at (put 1 (Member_array [\<lparr>Member.data = 9, name = Ptr ''n'', type = MEMBER_TYPE_U32\<rparr>])
                (mem demo_instance)) (Ptr 5) 0 =
     Some \<lparr>Member.data = 5, name = Ptr ''m'', type = MEMBER_TYPE_I32\<rparr>"
proof -
  let ?w = "\<lparr>mem = demo_store, trace = []\<rparr>"
  let ?m = "\<lparr>Member.data = 5, name = Ptr ''m'', type = MEMBER_TYPE_I32\<rparr>"
  have run: "class_create demo_env (Some demo_info) ?w = Some (Ptr 5, demo_instance)"
    by (simp add: demo_instance_def run_defs demo_defs demo_info_def)
  have info: "descriptor_in (mem ?w) demo_info"
    by (simp add: descriptor_in_def refers_into_def demo_info_def demo_store_def)
  have const: "\<forall>F body s s2. load_Function (mem ?w) (ClassCreateInfo.ctor demo_info) = Some F \<longrightarrow>
      unary demo_env (fn F) = Some body \<longrightarrow> body (Ptr 5) s = Some s2 \<longrightarrow>
      block_at s2 5 = block_at s 5 \<and> length (heap s) \<le> length (heap s2)"
    by (auto simp: demo_info_def demo_store_def empty_store_def demo_env_def load_Function_def
        vec2_unary_def vec2_ctor_def vec2_dtor_def addr_vec2_ctor_def addr_vec2_dtor_def
        FUNCTION_TYPE_CONSTRUCTOR_def block_at_def [of "_ \<lparr>heap := _\<rparr>"] split: if_splits)
  have m: "load_Member demo_store (Ptr (1, 0)) = Some ?m"
    by (simp add: demo_defs)
  have at: "member_at (mem demo_instance) (Ptr 5) 0 = Some ?m"
    by (simp add: demo_instance_def member_at_def class_get_member_def run_defs demo_defs
        demo_info_def)
  have len: "length (heap demo_store) = 5" "(1::nat) < 5"
    by (simp_all add: demo_store_def)
  from create_copies_tables [OF run info const]
  have apart: "\<forall>a < length (heap (mem ?w)). \<forall>b i.
      member_at (put a b (mem demo_instance)) (Ptr 5) i = member_at (mem demo_instance) (Ptr 5) i"
    by blast
  from apart len have "\<And>b. member_at (put 1 b (mem demo_instance)) (Ptr 5) 0 =
      member_at (mem demo_instance) (Ptr 5) 0"
    by simp
  then show ?thesis
    using run info m at by simp
qed

lemmas early_defs = early_block_at_def early_put_def early_malloc_Class_def early_load_Class_def
  early_write_Class_def early_load_Member_def early_load_Function_def early_write_Function_def
  DEBUG_BREAK_early_def class_new_def class_get_num_members_main_c_def class_get_member_main_c_def
  member_at_main_c_def function_get_type_part_000_def call_part_000_def
  function_invoke_part_000_def class_has_constructor_part_000_def class_create_part_000_def
  class_get_num_members_part_000_def class_get_member_part_000_def member_at_part_000_def
  caller_store_def caller_store_main_c_def caller_store_part_000_def caller_info_def
  instance_main_c_def instance_part_000_def no_callable_def element_def element_at_def

text \<open>
  C6 as stated fails for the creation routines of the earlier iterations.
  \<^verbatim>\<open>class_new\<close> of \<^verbatim>\<open>main.c\<close> and \<^verbatim>\<open>class_create\<close> of \<^verbatim>\<open>part_000\<close> return an
  instance (block 1) whose \<^verbatim>\<open>members\<close> pointer is the caller's:
  \<^verbatim>\<open>class_get_member\<close> at index 0 returns the address of the caller's array (block
  0). After the caller writes another member into its array, index 0 of the instance
  resolves to that member; after the caller releases its array, it resolves to nothing.
\<close>

theorem create_shares_tables_counterexample:
  "class_new (Ptr ''MyClass'') (Ptr (0, 0)) 1 caller_store_main_c =
     Some (Ptr 1, instance_main_c) \<and>
   early_load_Class instance_main_c (Ptr 1) =
     Some \<lparr>Class_main_c.name = Ptr ''MyClass'', members = Ptr (0, 0), num_members = 1\<rparr> \<and>
   map_option fst (class_get_member_main_c (Ptr 1) 0
                     \<lparr>early_mem = instance_main_c, early_trace = []\<rparr>) = Some (Ptr (0, 0)) \<and>
   member_at_main_c instance_main_c (Ptr 1) 0 =
     Some \<lparr>Member.data = 5, name = Ptr ''m'', type = MEMBER_TYPE_I32\<rparr> \<and>
   member_at_main_c
     (early_put 0 (Early_Members [\<lparr>Member.data = 9, name = Ptr ''n'', type = MEMBER_TYPE_U32\<rparr>])
        instance_main_c) (Ptr 1) 0 =
     Some \<lparr>Member.data = 9, name = Ptr ''n'', type = MEMBER_TYPE_U32\<rparr> \<and>
   member_at_main_c (early_put 0 Early_Released instance_main_c) (Ptr 1) 0 = None \<and>
   class_create_part_000 no_callable (Some caller_info)
       \<lparr>early_mem = caller_store_part_000, early_trace = []\<rparr> =
     Some (Ptr 1, \<lparr>early_mem = instance_part_000, early_trace = []\<rparr>) \<and>
   early_load_Class instance_part_000 (Ptr 1) =
     Some \<lparr>Class_part_000.name = Ptr ''MyClass'', ctor = NULL, members = Ptr (0, 0),
           num_members = 1, functions = NULL, num_functions = 0\<rparr> \<and>
   map_option fst (class_get_member_part_000 (Ptr 1) 0
                     \<lparr>early_mem = instance_part_000, early_trace = []\<rparr>) = Some (Ptr (0, 0)) \<and>
   member_at_part_000 instance_part_000 (Ptr 1) 0 =
     Some \<lparr>Member.data = 5, name = Ptr ''m'', type = MEMBER_TYPE_I32\<rparr> \<and>
   member_at_part_000
     (early_put 0 (Early_Members [\<lparr>Member.data = 9, name = Ptr ''n'', type = MEMBER_TYPE_U32\<rparr>])
        instance_part_000) (Ptr 1) 0 =
     Some \<lparr>Member.data = 9, name = Ptr ''n'', type = MEMBER_TYPE_U32\<rparr> \<and>
   member_at_part_000 (early_put 0 Early_Released instance_part_000) (Ptr 1) 0 = None"
  by (simp add: early_defs)

subsection \<open>Destruction\<close>

lemma base_block_of: "base p = Some b \<Longrightarrow> b = block_of p"
  by (auto simp: base_def block_of_def split: ptr.splits if_splits)

lemma free_result:
  assumes "free p w = Some w'"
  shows "trace w' = trace w @ [Free p]"
    and "\<And>a. p \<noteq> Ptr a \<Longrightarrow> block_at (mem w') a = block_at (mem w) a"
    and "\<And>a. p = Ptr a \<Longrightarrow> block_at (mem w) a \<noteq> Released \<and> block_at (mem w') a = Released"
proof -
  show "trace w' = trace w @ [Free p]"
    using assms by (auto simp: free_def bind_eq_Some_conv)
  show "block_at (mem w') a = block_at (mem w) a" if "p \<noteq> Ptr a" for a
  proof (cases p)
    case NULL
    then show ?thesis using assms by (auto simp: free_def release_def)
  next
    case (Ptr b)
    then have "block_at (mem w) b \<noteq> Released" "mem w' = put b Released (mem w)"
      using assms by (auto simp: free_def release_def bind_eq_Some_conv split: if_splits)
    then show ?thesis using that Ptr block_at_live [of "mem w" b] by simp
  qed
  show "block_at (mem w) a \<noteq> Released \<and> block_at (mem w') a = Released" if "p = Ptr a" for a
  proof -
    have "block_at (mem w) a \<noteq> Released" "mem w' = put a Released (mem w)"
      using assms that by (auto simp: free_def release_def bind_eq_Some_conv split: if_splits)
    then show ?thesis using block_at_live [of "mem w" a] by simp
  qed
qed

lemma free_keeps_released:
  assumes "free p w = Some w'" "block_at (mem w) a = Released"
  shows "block_at (mem w') a = Released"
  using free_result(2) [OF assms(1), of a] free_result(3) [OF assms(1), of a] assms(2)
  by (cases "p = Ptr a") auto

lemma class_destroy_ctor_result:
  assumes run: "class_destroy_ctor (Ptr k) w = Some w1"
    and c: "load_Class (mem w) (Ptr k) = Some c"
  shows "trace w1 = trace w @ (if Class.ctor c = NULL then [] else [Free (block_of (Class.ctor c))])"
    and "\<And>a. block_of (Class.ctor c) \<noteq> Ptr a \<Longrightarrow> block_at (mem w1) a = block_at (mem w) a"
    and "\<And>a. block_at (mem w) a = Released \<Longrightarrow> block_at (mem w1) a = Released"
    and "\<And>a. block_of (Class.ctor c) = Ptr a \<Longrightarrow> block_at (mem w1) a = Released"
proof -
  have "trace w1 = trace w @ (if Class.ctor c = NULL then [] else [Free (block_of (Class.ctor c))]) \<and>
      (\<forall>a. block_of (Class.ctor c) \<noteq> Ptr a \<longrightarrow> block_at (mem w1) a = block_at (mem w) a) \<and>
      (\<forall>a. block_at (mem w) a = Released \<longrightarrow> block_at (mem w1) a = Released) \<and>
      (\<forall>a. block_of (Class.ctor c) = Ptr a \<longrightarrow> block_at (mem w1) a = Released)"
  proof (cases "Class.ctor c = NULL")
    case True
    then show ?thesis using run c
      by (simp add: class_destroy_ctor_def class_has_constructor_def block_of_def)
  next
    case False
    then obtain b where b: "base (Class.ctor c) = Some b" "free b w = Some w1"
      using run c
      by (auto simp: class_destroy_ctor_def class_has_constructor_def bind_eq_Some_conv)
    then show ?thesis
      using False free_result [OF b(2)] free_keeps_released [OF b(2)] base_block_of [OF b(1)]
      by auto
  qed
  then show "trace w1 = trace w @ (if Class.ctor c = NULL then [] else [Free (block_of (Class.ctor c))])"
    and "\<And>a. block_of (Class.ctor c) \<noteq> Ptr a \<Longrightarrow> block_at (mem w1) a = block_at (mem w) a"
    and "\<And>a. block_at (mem w) a = Released \<Longrightarrow> block_at (mem w1) a = Released"
    and "\<And>a. block_of (Class.ctor c) = Ptr a \<Longrightarrow> block_at (mem w1) a = Released"
    by blast+
qed

lemma class_destroy_members_result:
  assumes run: "class_destroy_members (Ptr k) w = Some w1"
    and c: "load_Class (mem w) (Ptr k) = Some c"
  shows "trace w1 = trace w @
      (if 0 < Class.num_members c then [Free (block_of (Class.members c))] else [])"
    and "\<And>a. block_of (Class.members c) \<noteq> Ptr a \<Longrightarrow> block_at (mem w1) a = block_at (mem w) a"
    and "\<And>a. block_at (mem w) a = Released \<Longrightarrow> block_at (mem w1) a = Released"
    and "\<And>a. 0 < Class.num_members c \<Longrightarrow> block_of (Class.members c) = Ptr a \<Longrightarrow>
           block_at (mem w1) a = Released"
    and "Class.num_members c = 0 \<Longrightarrow> w1 = w"
proof -
  have "trace w1 = trace w @
        (if 0 < Class.num_members c then [Free (block_of (Class.members c))] else []) \<and>
      (\<forall>a. block_of (Class.members c) \<noteq> Ptr a \<longrightarrow> block_at (mem w1) a = block_at (mem w) a) \<and>
      (\<forall>a. block_at (mem w) a = Released \<longrightarrow> block_at (mem w1) a = Released) \<and>
      (\<forall>a. 0 < Class.num_members c \<longrightarrow> block_of (Class.members c) = Ptr a \<longrightarrow>
           block_at (mem w1) a = Released) \<and>
      (Class.num_members c = 0 \<longrightarrow> w1 = w)"
  proof (cases "0 < Class.num_members c")
    case False
    then show ?thesis using run c
      by (simp add: class_destroy_members_def class_get_num_members_def word_gt_0)
  next
    case True
    then obtain b where b: "base (Class.members c) = Some b" "free b w = Some w1"
      using run c
      by (auto simp: class_destroy_members_def class_get_num_members_def bind_eq_Some_conv)
    then show ?thesis
      using True free_result [OF b(2)] free_keeps_released [OF b(2)] base_block_of [OF b(1)]
      by auto
  qed
  then show "trace w1 = trace w @
      (if 0 < Class.num_members c then [Free (block_of (Class.members c))] else [])"
    and "\<And>a. block_of (Class.members c) \<noteq> Ptr a \<Longrightarrow> block_at (mem w1) a = block_at (mem w) a"
    and "\<And>a. block_at (mem w) a = Released \<Longrightarrow> block_at (mem w1) a = Released"
    and "\<And>a. 0 < Class.num_members c \<Longrightarrow> block_of (Class.members c) = Ptr a \<Longrightarrow>
           block_at (mem w1) a = Released"
    and "Class.num_members c = 0 \<Longrightarrow> w1 = w"
    by blast+
qed

lemma class_destroy_functions_result:
  assumes run: "class_destroy_functions (Ptr k) w = Some w1"
    and c: "load_Class (mem w) (Ptr k) = Some c"
  shows "trace w1 = trace w @
      (if 0 < Class.num_functions c then [Free (block_of (Class.functions c))] else [])"
    and "\<And>a. block_of (Class.functions c) \<noteq> Ptr a \<Longrightarrow> block_at (mem w1) a = block_at (mem w) a"
    and "\<And>a. block_at (mem w) a = Released \<Longrightarrow> block_at (mem w1) a = Released"
    and "\<And>a. 0 < Class.num_functions c \<Longrightarrow> block_of (Class.functions c) = Ptr a \<Longrightarrow>
           block_at (mem w1) a = Released"
    and "Class.num_functions c = 0 \<Longrightarrow> w1 = w"
proof -
  have "trace w1 = trace w @
        (if 0 < Class.num_functions c then [Free (block_of (Class.functions c))] else []) \<and>
      (\<forall>a. block_of (Class.functions c) \<noteq> Ptr a \<longrightarrow> block_at (mem w1) a = block_at (mem w) a) \<and>
      (\<forall>a. block_at (mem w) a = Released \<longrightarrow> block_at (mem w1) a = Released) \<and>
      (\<forall>a. 0 < Class.num_functions c \<longrightarrow> block_of (Class.functions c) = Ptr a \<longrightarrow>
           block_at (mem w1) a = Released) \<and>
      (Class.num_functions c = 0 \<longrightarrow> w1 = w)"
  proof (cases "0 < Class.num_functions c")
    case False
    then show ?thesis using run c
      by (simp add: class_destroy_functions_def class_get_num_functions_def word_gt_0)
  next
    case True
    then obtain b where b: "base (Class.functions c) = Some b" "free b w = Some w1"
      using run c
      by (auto simp: class_destroy_functions_def class_get_num_functions_def bind_eq_Some_conv)
    then show ?thesis
      using True free_result [OF b(2)] free_keeps_released [OF b(2)] base_block_of [OF b(1)]
      by auto
  qed
  then show "trace w1 = trace w @
      (if 0 < Class.num_functions c then [Free (block_of (Class.functions c))] else [])"
    and "\<And>a. block_of (Class.functions c) \<noteq> Ptr a \<Longrightarrow> block_at (mem w1) a = block_at (mem w) a"
    and "\<And>a. block_at (mem w) a = Released \<Longrightarrow> block_at (mem w1) a = Released"
    and "\<And>a. 0 < Class.num_functions c \<Longrightarrow> block_of (Class.functions c) = Ptr a \<Longrightarrow>
           block_at (mem w1) a = Released"
    and "Class.num_functions c = 0 \<Longrightarrow> w1 = w"
    by blast+
qed

lemma class_destroy_dtor_result:
  assumes run: "class_destroy_dtor env (Ptr k) w = Some w2"
    and c: "load_Class (mem w) (Ptr k) = Some c"
    and G: "load_Function (mem w) (Class.dtor c) = Some G"
  shows "\<exists>body s1 s2 c2.
           unary env (fn G) = Some body \<and>
           write_Function (Class.dtor c)
             (\<lambda>f. f\<lparr>Function.type := FUNCTION_TYPE_DESTRUCTOR\<rparr>) (mem w) = Some s1 \<and>
           load_Class s1 (Ptr k) = Some c \<and>
           load_Function s1 (Class.dtor c) =
             Some (G\<lparr>Function.type := FUNCTION_TYPE_DESTRUCTOR\<rparr>) \<and>
           body (Ptr k) s1 = Some s2 \<and>
           load_Class s2 (Ptr k) = Some c2 \<and>
           free (block_of (Class.dtor c2)) \<lparr>mem = s2, trace = trace w @ [Call_unary (fn G) (Ptr k)]\<rparr>
             = Some w2"
proof -
  obtain a i fs where d: "Class.dtor c = Ptr (a, i)" "block_at (mem w) a = Function_array fs"
      "i < length fs" "fs ! i = G"
    using G by (auto elim: load_Function_SomeD)
  have kc: "block_at (mem w) k = Class_obj c" using c by (auto elim: load_Class_SomeD)
  have ak: "a \<noteq> k" using d(2) kc by auto
  have al: "a < length (heap (mem w))" using d(2) by (intro block_at_live) simp
  let ?G = "G\<lparr>Function.type := FUNCTION_TYPE_DESTRUCTOR\<rparr>"
  define s1 where "s1 = put a (Function_array (fs[i := ?G])) (mem w)"
  have w1: "write_Function (Class.dtor c)
      (\<lambda>f. f\<lparr>Function.type := FUNCTION_TYPE_DESTRUCTOR\<rparr>) (mem w) = Some s1"
    using d by (simp add: write_Function_at s1_def)
  have c1: "load_Class s1 (Ptr k) = Some c"
    using kc ak al by (simp add: s1_def load_Class_def)
  have G1: "load_Function s1 (Class.dtor c) = Some ?G"
    using d al by (simp add: s1_def load_Function_def)
  have inv: "function_invoke env (Class.dtor c) (Ptr k) NULL (w\<lparr>mem := s1\<rparr>) =
      do { w' \<leftarrow> call_unary env (fn G) (Ptr k) (w\<lparr>mem := s1\<rparr>); Some (NULL, w') }"
    using G1 d(1) by (simp add: function_invoke_def function_get_type_def)
  have run1: "do {
        (r, w) \<leftarrow> function_invoke env (Class.dtor c) (Ptr k) NULL (w\<lparr>mem := s1\<rparr>);
        c \<leftarrow> load_Class (mem w) (Ptr k);
        b \<leftarrow> base (Class.dtor c);
        free b w
      } = Some w2"
    using run c d(1) w1 c1 by (simp add: class_destroy_dtor_def class_has_destructor_def)
  then obtain body where body: "unary env (fn G) = Some body"
    unfolding inv by (cases "unary env (fn G)") (auto simp: call_unary_def)
  from run1 obtain s2 where s2: "body (Ptr k) s1 = Some s2"
    unfolding inv using body by (cases "body (Ptr k) s1") (auto simp: call_unary_def)
  let ?w = "\<lparr>mem = s2, trace = trace w @ [Call_unary (fn G) (Ptr k)]\<rparr>"
  from run1 have run2: "do {
        c \<leftarrow> load_Class s2 (Ptr k);
        b \<leftarrow> base (Class.dtor c);
        free b ?w
      } = Some w2"
    unfolding inv using body s2 by (simp add: call_unary_def)
  then obtain c2 b where c2: "load_Class s2 (Ptr k) = Some c2" "base (Class.dtor c2) = Some b"
      "free b ?w = Some w2"
    by (auto simp: bind_eq_Some_conv)
  then have "free (block_of (Class.dtor c2)) ?w = Some w2"
    using base_block_of [OF c2(2)] by simp
  then show ?thesis
    using body w1 c1 G1 s2 c2(1) by blast
qed

lemma class_destroy_dtor_loads:
  assumes "class_destroy_dtor env (Ptr k) w = Some w2"
    and "load_Class (mem w) (Ptr k) = Some c" "Class.dtor c \<noteq> NULL"
  shows "\<exists>G. load_Function (mem w) (Class.dtor c) = Some G"
proof -
  from assms obtain s where "write_Function (Class.dtor c)
      (\<lambda>f. f\<lparr>Function.type := FUNCTION_TYPE_DESTRUCTOR\<rparr>) (mem w) = Some s"
    by (auto simp: class_destroy_dtor_def class_has_destructor_def bind_eq_Some_conv)
  then show ?thesis
    by (auto simp: write_Function_def load_Function_def split: ptr.splits block.splits if_splits)
qed

lemma class_destroy_needs_class:
  "class_destroy_dtor env (Ptr k) w = Some w' \<Longrightarrow> \<exists>c. load_Class (mem w) (Ptr k) = Some c"
  "class_destroy_members (Ptr k) w = Some w' \<Longrightarrow> \<exists>c. load_Class (mem w) (Ptr k) = Some c"
  "class_destroy_functions (Ptr k) w = Some w' \<Longrightarrow> \<exists>c. load_Class (mem w) (Ptr k) = Some c"
  by (auto simp: class_destroy_dtor_def class_destroy_members_def class_destroy_functions_def
      class_has_destructor_def class_get_num_members_def class_get_num_functions_def
      bind_eq_Some_conv)

lemma class_destroy_members_live:
  assumes run: "class_destroy_members (Ptr k) w = Some w1"
    and c: "load_Class (mem w) (Ptr k) = Some c"
    and n: "0 < Class.num_members c" "block_of (Class.members c) = Ptr a"
  shows "block_at (mem w) a \<noteq> Released"
proof -
  from run c n(1) obtain b where b: "base (Class.members c) = Some b" "free b w = Some w1"
    by (auto simp: class_destroy_members_def class_get_num_members_def bind_eq_Some_conv)
  then show ?thesis
    using free_result(3) [OF b(2), of a] base_block_of [OF b(1)] n(2) by simp
qed

lemma class_destroy_functions_live:
  assumes run: "class_destroy_functions (Ptr k) w = Some w1"
    and c: "load_Class (mem w) (Ptr k) = Some c"
    and n: "0 < Class.num_functions c" "block_of (Class.functions c) = Ptr a"
  shows "block_at (mem w) a \<noteq> Released"
proof -
  from run c n(1) obtain b where b: "base (Class.functions c) = Some b" "free b w = Some w1"
    by (auto simp: class_destroy_functions_def class_get_num_functions_def bind_eq_Some_conv)
  then show ?thesis
    using free_result(3) [OF b(2), of a] base_block_of [OF b(1)] n(2) by simp
qed

text \<open>
  A run of \<^verbatim>\<open>class_destroy\<close> on an instance that has a destructor \<open>G\<close>, step by step.
  \<open>w1\<close> is the world after the first statement, which differs from the one at the call
  by the release of the constructor copy only; \<open>s1\<close> is the store of \<open>w1\<close> with the kind
  of the destructor copy set to \<^verbatim>\<open>FUNCTION_TYPE_DESTRUCTOR\<close>, so every block that is
  neither of the two copies is in \<open>s1\<close> as it was at the call; the body of \<open>G\<close> starts
  from \<open>s1\<close> with the instance as argument and leaves \<open>s2\<close>. The events of the run are
  the release of the constructor copy (if any), the one call of \<open>G\<close>, the release of the
  destructor copy, of the member table if the count is not 0, of the function table if
  the count is not 0, and of the instance. A table that is released then was still
  allocated in \<open>s2\<close>, and every block that is not released by these statements is in
  the final store as it was in \<open>s2\<close>.
\<close>

theorem class_destroy_run:
  assumes run: "class_destroy env (Ptr k) w = Some w'"
    and c: "load_Class (mem w) (Ptr k) = Some c"
    and G: "load_Function (mem w) (Class.dtor c) = Some G"
  shows "\<exists>body w1 s1 s2 c2.
           class_destroy_ctor (Ptr k) w = Some w1 \<and>
           (\<forall>a. block_of (Class.ctor c) \<noteq> Ptr a \<longrightarrow> block_at (mem w1) a = block_at (mem w) a) \<and>
           unary env (fn G) = Some body \<and>
           write_Function (Class.dtor c)
             (\<lambda>f. f\<lparr>Function.type := FUNCTION_TYPE_DESTRUCTOR\<rparr>) (mem w1) = Some s1 \<and>
           load_Class s1 (Ptr k) = Some c \<and>
           load_Function s1 (Class.dtor c) =
             Some (G\<lparr>Function.type := FUNCTION_TYPE_DESTRUCTOR\<rparr>) \<and>
           (\<forall>a. block_of (Class.ctor c) \<noteq> Ptr a \<longrightarrow> block_of (Class.dtor c) \<noteq> Ptr a \<longrightarrow>
                block_at s1 a = block_at (mem w) a) \<and>
           body (Ptr k) s1 = Some s2 \<and>
           load_Class s2 (Ptr k) = Some c2 \<and>
           trace w' = trace w @
             (if Class.ctor c = NULL then [] else [Free (block_of (Class.ctor c))]) @
             [Call_unary (fn G) (Ptr k), Free (block_of (Class.dtor c2))] @
             (if 0 < Class.num_members c2 then [Free (block_of (Class.members c2))] else []) @
             (if 0 < Class.num_functions c2 then [Free (block_of (Class.functions c2))] else []) @
             [Free (Ptr k)] \<and>
           block_at (mem w') k = Released \<and>
           (\<forall>a. 0 < Class.num_members c2 \<longrightarrow> block_of (Class.members c2) = Ptr a \<longrightarrow>
                block_at s2 a \<noteq> Released \<and> block_at (mem w') a = Released) \<and>
           (\<forall>a. 0 < Class.num_functions c2 \<longrightarrow> block_of (Class.functions c2) = Ptr a \<longrightarrow>
                block_at s2 a \<noteq> Released \<and> block_at (mem w') a = Released) \<and>
           (\<forall>a. block_of (Class.dtor c2) \<noteq> Ptr a \<longrightarrow>
                (0 < Class.num_members c2 \<longrightarrow> block_of (Class.members c2) \<noteq> Ptr a) \<longrightarrow>
                (0 < Class.num_functions c2 \<longrightarrow> block_of (Class.functions c2) \<noteq> Ptr a) \<longrightarrow>
                a \<noteq> k \<longrightarrow> block_at (mem w') a = block_at s2 a)"
proof -
  from run obtain w1 w2 w3 w4 where
    st1: "class_destroy_ctor (Ptr k) w = Some w1" and
    st2: "class_destroy_dtor env (Ptr k) w1 = Some w2" and
    st3: "class_destroy_members (Ptr k) w2 = Some w3" and
    st4: "class_destroy_functions (Ptr k) w3 = Some w4" and
    st5: "free (Ptr k) w4 = Some w'"
    by (auto simp: class_destroy_def bind_eq_Some_conv)
  note r1 = class_destroy_ctor_result [OF st1 c]
  have f0: "\<forall>a. block_of (Class.ctor c) \<noteq> Ptr a \<longrightarrow> block_at (mem w1) a = block_at (mem w) a"
    using r1(2) by blast
  have kc: "block_at (mem w) k = Class_obj c" using c by (auto elim: load_Class_SomeD)
  text \<open>the instance and its destructor are still there after the first step\<close>
  from class_destroy_needs_class(1) [OF st2] obtain c1 where
    c1: "block_at (mem w1) k = Class_obj c1"
    by (auto elim: load_Class_SomeD)
  then have "block_of (Class.ctor c) \<noteq> Ptr k" using r1(4) [of k] by auto
  then have "block_at (mem w1) k = Class_obj c" using r1(2) kc by simp
  then have c1': "load_Class (mem w1) (Ptr k) = Some c" by (rule load_Class_at)
  have nn: "Class.dtor c \<noteq> NULL" using G by (auto simp: load_Function_def)
  from class_destroy_dtor_loads [OF st2 c1' nn] obtain G1 where
    G1: "load_Function (mem w1) (Class.dtor c) = Some G1" ..
  then obtain a i where d: "Class.dtor c = Ptr (a, i)" "block_at (mem w1) a \<noteq> Released"
    by (auto elim!: load_Function_SomeD)
  then have "block_of (Class.ctor c) \<noteq> Ptr a" using r1(4) [of a] by auto
  then have "block_at (mem w1) a = block_at (mem w) a" by (rule r1(2))
  then have G1': "load_Function (mem w1) (Class.dtor c) = Some G"
    using G d(1) by (simp add: load_Function_def)
  text \<open>the destructor step\<close>
  from class_destroy_dtor_result [OF st2 c1' G1']
  obtain body s1 s2 c2 where body: "unary env (fn G) = Some body"
    and wr: "write_Function (Class.dtor c)
        (\<lambda>f. f\<lparr>Function.type := FUNCTION_TYPE_DESTRUCTOR\<rparr>) (mem w1) = Some s1"
    and s1: "load_Class s1 (Ptr k) = Some c"
      "load_Function s1 (Class.dtor c) = Some (G\<lparr>Function.type := FUNCTION_TYPE_DESTRUCTOR\<rparr>)"
    and s2: "body (Ptr k) s1 = Some s2" "load_Class s2 (Ptr k) = Some c2"
    and fr: "free (block_of (Class.dtor c2))
        \<lparr>mem = s2, trace = trace w1 @ [Call_unary (fn G) (Ptr k)]\<rparr> = Some w2"
    by blast
  have f1: "\<forall>b. block_of (Class.ctor c) \<noteq> Ptr b \<longrightarrow> block_of (Class.dtor c) \<noteq> Ptr b \<longrightarrow>
      block_at s1 b = block_at (mem w) b"
  proof (intro allI impI)
    fix b assume b: "block_of (Class.ctor c) \<noteq> Ptr b" "block_of (Class.dtor c) \<noteq> Ptr b"
    from b(2) have "\<forall>j. Class.dtor c \<noteq> Ptr (b, j)" by (auto simp: block_of_def)
    then have "block_at s1 b = block_at (mem w1) b" by (rule write_Function_frame(2) [OF wr])
    then show "block_at s1 b = block_at (mem w) b" using r1(2) [OF b(1)] by simp
  qed
  note r2 = free_result [OF fr]
  have kept2: "block_at (mem w2) b \<noteq> Released \<Longrightarrow> block_at s2 b \<noteq> Released" for b
    using free_keeps_released [OF fr, of b] by auto
  have kc2: "block_at s2 k = Class_obj c2" using s2(2) by (auto elim: load_Class_SomeD)
  from class_destroy_needs_class(2) [OF st3] obtain c3 where
    c3: "block_at (mem w2) k = Class_obj c3"
    by (auto elim: load_Class_SomeD)
  then have "block_of (Class.dtor c2) \<noteq> Ptr k" using r2(3) [of k] by auto
  then have "block_at (mem w2) k = Class_obj c2" using r2(2) [of k] kc2 by simp
  then have c2w: "load_Class (mem w2) (Ptr k) = Some c2" by (rule load_Class_at)
  text \<open>the two tables\<close>
  note r3 = class_destroy_members_result [OF st3 c2w]
  from class_destroy_needs_class(3) [OF st4] obtain c4 where
    c4: "block_at (mem w3) k = Class_obj c4"
    by (auto elim: load_Class_SomeD)
  have "block_at (mem w3) k = block_at (mem w2) k"
  proof (cases "0 < Class.num_members c2")
    case True
    then have "block_of (Class.members c2) \<noteq> Ptr k" using r3(4) [of k] c4 by auto
    then show ?thesis by (rule r3(2))
  next
    case False
    then have "w3 = w2" using r3(5) by (simp add: word_gt_0)
    then show ?thesis by simp
  qed
  then have c3w: "load_Class (mem w3) (Ptr k) = Some c2"
    using c2w by (simp add: load_Class_def)
  note r4 = class_destroy_functions_result [OF st4 c3w]
  note r5 = free_result [OF st5]
  have tr: "trace w' = trace w @
             (if Class.ctor c = NULL then [] else [Free (block_of (Class.ctor c))]) @
             [Call_unary (fn G) (Ptr k), Free (block_of (Class.dtor c2))] @
             (if 0 < Class.num_members c2 then [Free (block_of (Class.members c2))] else []) @
             (if 0 < Class.num_functions c2 then [Free (block_of (Class.functions c2))] else []) @
             [Free (Ptr k)]"
    using r1(1) r2(1) r3(1) r4(1) r5(1) by simp
  have gone: "block_at (mem w') k = Released" using r5(3) by simp
  have mgone: "\<forall>b. 0 < Class.num_members c2 \<longrightarrow> block_of (Class.members c2) = Ptr b \<longrightarrow>
      block_at s2 b \<noteq> Released \<and> block_at (mem w') b = Released"
  proof (intro allI impI)
    fix b assume that: "0 < Class.num_members c2" "block_of (Class.members c2) = Ptr b"
    have "block_at s2 b \<noteq> Released"
      using class_destroy_members_live [OF st3 c2w that] by (rule kept2)
    moreover have "block_at (mem w') b = Released"
      using r3(4) [OF that] r4(3) free_keeps_released [OF st5] by simp
    ultimately show "block_at s2 b \<noteq> Released \<and> block_at (mem w') b = Released" ..
  qed
  have fgone: "\<forall>b. 0 < Class.num_functions c2 \<longrightarrow> block_of (Class.functions c2) = Ptr b \<longrightarrow>
      block_at s2 b \<noteq> Released \<and> block_at (mem w') b = Released"
  proof (intro allI impI)
    fix b assume that: "0 < Class.num_functions c2" "block_of (Class.functions c2) = Ptr b"
    have "block_at (mem w3) b \<noteq> Released"
      by (rule class_destroy_functions_live [OF st4 c3w that])
    then have "block_at (mem w2) b \<noteq> Released" using r3(3) [of b] by auto
    then have "block_at s2 b \<noteq> Released" by (rule kept2)
    moreover have "block_at (mem w') b = Released"
      using r4(4) [OF that] free_keeps_released [OF st5] by simp
    ultimately show "block_at s2 b \<noteq> Released \<and> block_at (mem w') b = Released" ..
  qed
  have rest: "\<forall>b. block_of (Class.dtor c2) \<noteq> Ptr b \<longrightarrow>
      (0 < Class.num_members c2 \<longrightarrow> block_of (Class.members c2) \<noteq> Ptr b) \<longrightarrow>
      (0 < Class.num_functions c2 \<longrightarrow> block_of (Class.functions c2) \<noteq> Ptr b) \<longrightarrow>
      b \<noteq> k \<longrightarrow> block_at (mem w') b = block_at s2 b"
  proof (intro allI impI)
    fix b assume b: "block_of (Class.dtor c2) \<noteq> Ptr b"
      "0 < Class.num_members c2 \<longrightarrow> block_of (Class.members c2) \<noteq> Ptr b"
      "0 < Class.num_functions c2 \<longrightarrow> block_of (Class.functions c2) \<noteq> Ptr b" "b \<noteq> k"
    have 2: "block_at (mem w2) b = block_at s2 b" using r2(2) [OF b(1)] by simp
    have 3: "block_at (mem w3) b = block_at (mem w2) b"
    proof (cases "0 < Class.num_members c2")
      case True
      then show ?thesis using b(2) r3(2) by simp
    next
      case False
      then have "w3 = w2" using r3(5) by (simp add: word_gt_0)
      then show ?thesis by simp
    qed
    have 4: "block_at (mem w4) b = block_at (mem w3) b"
    proof (cases "0 < Class.num_functions c2")
      case True
      then show ?thesis using b(3) r4(2) by simp
    next
      case False
      then have "w4 = w3" using r4(5) by (simp add: word_gt_0)
      then show ?thesis by simp
    qed
    have 5: "block_at (mem w') b = block_at (mem w4) b" using r5(2) [of b] b(4) by simp
    show "block_at (mem w') b = block_at s2 b" using 2 3 4 5 by simp
  qed
  show ?thesis
    apply (rule exI [of _ body], rule exI [of _ w1], rule exI [of _ s1], rule exI [of _ s2],
        rule exI [of _ c2])
    apply (intro conjI)
    apply (fact st1 f0 body wr s1 f1 s2 tr gone mgone fgone rest)+
    done
qed

lemmas destroy_defs = class_destroy_def class_destroy_ctor_def class_destroy_dtor_def
  class_destroy_members_def class_destroy_functions_def free_def release_def base_def
  block_of_def DEBUG_BREAK_def

theorem class_destroy_run_witness:
  "class_destroy demo_env (Ptr 5) demo_instance \<noteq> None \<and>
   load_Class (mem demo_instance) (Ptr 5) =
     Some \<lparr>Class.name = Ptr ''Copy'', ctor = Ptr (6, 0), dtor = Ptr (7, 0),
           members = Ptr (8, 0), num_members = 1, functions = Ptr (9, 0), num_functions = 1\<rparr> \<and>
   map_option fn (load_Function (mem demo_instance) (Ptr (7, 0))) = Some addr_vec2_dtor \<and>
   trace (the (class_destroy demo_env (Ptr 5) demo_instance)) =
     [Call_unary addr_vec2_ctor (Ptr 5), Free (Ptr 6), Call_unary addr_vec2_dtor (Ptr 5),
      Free (Ptr 7), Free (Ptr 8), Free (Ptr 9), Free (Ptr 5)] \<and>
   block_at (mem (the (class_destroy demo_env (Ptr 5) demo_instance))) 5 = Released \<and>
   block_at (mem (the (class_destroy demo_env (Ptr 5) demo_instance))) 8 = Released \<and>
   block_at (mem (the (class_destroy demo_env (Ptr 5) demo_instance))) 9 = Released"
proof -
  let ?r = "class_destroy demo_env (Ptr 5) demo_instance"
  let ?c = "\<lparr>Class.name = Ptr ''Copy'', ctor = Ptr (6, 0), dtor = Ptr (7, 0),
           members = Ptr (8, 0), num_members = 1, functions = Ptr (9, 0), num_functions = 1\<rparr>"
  have c: "load_Class (mem demo_instance) (Ptr 5) = Some ?c"
    by (simp add: demo_instance_def run_defs demo_defs demo_info_def)
  obtain G where G: "load_Function (mem demo_instance) (Class.dtor ?c) = Some G"
    and fn: "fn G = addr_vec2_dtor"
    by (simp add: demo_instance_def run_defs demo_defs demo_info_def)
  have tr: "trace demo_instance = [Call_unary addr_vec2_ctor (Ptr 5)]"
    by (simp add: demo_instance_def run_defs demo_defs demo_info_def)
  have ev: "?r \<noteq> None"
    by (simp add: demo_instance_def run_defs destroy_defs demo_defs demo_info_def)
  then have run: "?r = Some (the ?r)"
    by (cases ?r) auto
  from class_destroy_run [OF run c G] obtain body s1 s2 c2 where
    b: "unary demo_env (fn G) = Some body" and
    s1: "load_Class s1 (Ptr 5) = Some ?c" and
    s2: "body (Ptr 5) s1 = Some s2" and
    c2: "load_Class s2 (Ptr 5) = Some c2" and
    t: "trace (the ?r) = trace demo_instance @
          (if Class.ctor ?c = NULL then [] else [Free (block_of (Class.ctor ?c))]) @
          [Call_unary (fn G) (Ptr 5), Free (block_of (Class.dtor c2))] @
          (if 0 < Class.num_members c2 then [Free (block_of (Class.members c2))] else []) @
          (if 0 < Class.num_functions c2 then [Free (block_of (Class.functions c2))] else []) @
          [Free (Ptr 5)]" and
    k: "block_at (mem (the ?r)) 5 = Released" and
    ms: "\<forall>a. 0 < Class.num_members c2 \<longrightarrow> block_of (Class.members c2) = Ptr a \<longrightarrow>
           block_at s2 a \<noteq> Released \<and> block_at (mem (the ?r)) a = Released" and
    fs: "\<forall>a. 0 < Class.num_functions c2 \<longrightarrow> block_of (Class.functions c2) = Ptr a \<longrightarrow>
           block_at s2 a \<noteq> Released \<and> block_at (mem (the ?r)) a = Released"
    by blast
  from b fn have "body = vec2_dtor"
    by (simp add: demo_env_def vec2_unary_def addr_vec2_ctor_def addr_vec2_dtor_def)
  with s2 have "s2 = s1"
    by (simp add: vec2_dtor_def)
  with s1 c2 have c2': "c2 = ?c"
    by simp
  have t': "trace (the ?r) =
     [Call_unary addr_vec2_ctor (Ptr 5), Free (Ptr 6), Call_unary addr_vec2_dtor (Ptr 5),
      Free (Ptr 7), Free (Ptr 8), Free (Ptr 9), Free (Ptr 5)]"
    using t by (simp add: c2' tr fn block_of_def)
  have m8: "block_at (mem (the ?r)) 8 = Released"
    using ms by (simp add: c2' block_of_def)
  have f9: "block_at (mem (the ?r)) 9 = Released"
    using fs by (simp add: c2' block_of_def)
  from ev c G fn t' k m8 f9 show ?thesis
    by simp
qed

text \<open>
  C4. For every instance created with a destructor, \<^verbatim>\<open>class_destroy\<close> is to call the
  destructor once and then release the member storage, the function storage and the
  instance. \<^verbatim>\<open>class_create\<close> allocates both tables whatever the counts are, and
  \<^verbatim>\<open>class_destroy\<close> releases a table only when its count is not 0. The instance
  that \<^verbatim>\<open>class_create\<close> builds in \<open>demo_store\<close> from \<open>bare_info\<close> (a destructor, no
  constructor, no member, no function) is the block 5, with the copy of the destructor
  in block 6 and its two empty tables in the blocks 7 and 8. \<^verbatim>\<open>class_destroy\<close>
  returns on it; its run is the call of the destructor, the release of block 6 and the
  release of block 5; the blocks 7 and 8 are still allocated afterwards, and no pointer
  to them is left. On the instance built from \<open>demo_info\<close>, which has one member and
  one function, the run of the same routine does release the two tables (blocks 8 and
  9) between the destructor copy and the instance.
\<close>

theorem destroy_keeps_empty_tables:
  "class_create demo_env (Some bare_info) \<lparr>mem = demo_store, trace = []\<rparr> =
     Some (Ptr 5, bare_instance) \<and>
   load_Class (mem bare_instance) (Ptr 5) =
     Some \<lparr>Class.name = Ptr ''Bare'', ctor = NULL, dtor = Ptr (6, 0),
           members = Ptr (7, 0), num_members = 0, functions = Ptr (8, 0), num_functions = 0\<rparr> \<and>
   block_at (mem bare_instance) 7 = Member_array [] \<and>
   block_at (mem bare_instance) 8 = Function_array [] \<and>
   class_destroy demo_env (Ptr 5) bare_instance \<noteq> None \<and>
   trace (the (class_destroy demo_env (Ptr 5) bare_instance)) =
     [Call_unary addr_vec2_dtor (Ptr 5), Free (Ptr 6), Free (Ptr 5)] \<and>
   block_at (mem (the (class_destroy demo_env (Ptr 5) bare_instance))) 5 = Released \<and>
   block_at (mem (the (class_destroy demo_env (Ptr 5) bare_instance))) 6 = Released \<and>
   block_at (mem (the (class_destroy demo_env (Ptr 5) bare_instance))) 7 = Member_array [] \<and>
   block_at (mem (the (class_destroy demo_env (Ptr 5) bare_instance))) 8 = Function_array [] \<and>
   class_create demo_env (Some demo_info) \<lparr>mem = demo_store, trace = []\<rparr> =
     Some (Ptr 5, demo_instance) \<and>
   class_destroy demo_env (Ptr 5) demo_instance \<noteq> None \<and>
   trace (the (class_destroy demo_env (Ptr 5) demo_instance)) =
     [Call_unary addr_vec2_ctor (Ptr 5), Free (Ptr 6), Call_unary addr_vec2_dtor (Ptr 5),
      Free (Ptr 7), Free (Ptr 8), Free (Ptr 9), Free (Ptr 5)]"
  by (simp add: bare_instance_def bare_info_def demo_instance_def demo_info_def run_defs
      destroy_defs demo_defs)

subsection \<open>The sum of two vectors\<close>

lemmas f32_defs = f32_of_int_def f32_round_def f32_make_def f32_add_def f32_nan_def f32_inf_def
  f32_exponent_def f32_fraction_def f32_sign_def f32_scale_def f32_int_def f32_significand_def
  f32_value_def

lemma bit_length_numeral [simp]:
  "bit_length 0 = 0"
  "bit_length (numeral k) = Suc (bit_length (numeral k div 2))"
  "bit_length (Suc 0) = Suc 0"
  by simp_all

text \<open>The bit patterns of the numbers of the test, and its two sums.\<close>

lemma f32_of_int_values:
  "f32_of_int 0 = 0" "f32_of_int 1 = 0x3F800000" "f32_of_int 2 = 0x40000000"
  "f32_of_int 3 = 0x40400000" "f32_of_int 4 = 0x40800000" "f32_of_int 7 = 0x40E00000"
  by (simp_all add: f32_of_int_def f32_round_def f32_make_def Let_def del: bit_length.simps)

lemma f32_add_values:
  "f32_add (f32_of_int 1) (f32_of_int 2) = f32_of_int 3"
  "f32_add (f32_of_int 3) (f32_of_int 4) = f32_of_int 7"
  unfolding f32_of_int_values
  by (simp_all add: f32_defs Let_def del: bit_length.simps)

lemma f32_value_values:
  "f32_value (f32_of_int 1) = 1" "f32_value (f32_of_int 2) = 2" "f32_value (f32_of_int 3) = 3"
  "f32_value (f32_of_int 4) = 4" "f32_value (f32_of_int 7) = 7"
  unfolding f32_of_int_values
  by (simp_all add: f32_defs)

lemma f_data_set_f_data: "f_data (set_f_data v d) = v"
  unfolding f_data_def set_f_data_def
  by (rule bit_word_eqI) (auto simp: bit_simps)

lemma upt_0_2: "[0..<2] = [0, 1]" "[0..<unat (2 :: size_t)] = [0, 1]"
  by (simp_all add: upt_rec)

lemma replicate_numeral: "replicate (numeral k) x = x # replicate (pred_numeral k) x"
  by (simp add: numeral_eq_Suc)

lemmas vec2_defs = create_vec2_def local_Function_def local_Member_def vec2_env_def
  vec2_binary_def vec2_unary_def vec2_ctor_def vec2_dtor_def addr_vec2_ctor_def
  addr_vec2_dtor_def addr_vec2_add_def load_Class_def load_Member_def load_Function_def
  block_at_def FUNCTION_TYPE_CONSTRUCTOR_def FUNCTION_TYPE_DESTRUCTOR_def
  FUNCTION_TYPE_MEMBER_FUNCTION_def MEMBER_TYPE_F32_def

lemmas sum_defs = vec2_defs run_defs class_invoke_function_def class_get_function_def
  class_get_member_def member_at_def vec2_add_def test_world_def empty_store_def

text \<open>The three calls of the test, run one after the other on the store each one leaves.\<close>

lemma sum_run:
  "(case create_vec2 vec2_env (f32_of_int 1) (f32_of_int 3) (test_world jc jm jf) of
      None \<Rightarrow> False
    | Some (a, w1) \<Rightarrow>
       (case create_vec2 vec2_env (f32_of_int 2) (f32_of_int 4) w1 of
          None \<Rightarrow> False
        | Some (b, w2) \<Rightarrow>
           (case class_invoke_function vec2_env a b 0 w2 of
              None \<Rightarrow> False
            | Some (c, w3) \<Rightarrow>
                a = Ptr 6 \<and> b = Ptr 17 \<and> c = Ptr 28 \<and>
                class_get_num_members (mem w3) c = Some 2 \<and>
                map_option (\<lambda>m. f_data (Member.data m)) (member_at (mem w3) c 0) =
                  Some (f32_add (f32_of_int 1) (f32_of_int 2)) \<and>
                map_option (\<lambda>m. f_data (Member.data m)) (member_at (mem w3) c 1) =
                  Some (f32_add (f32_of_int 3) (f32_of_int 4)) \<and>
                (\<forall>i. member_at (mem w3) a i = member_at (mem w2) a i) \<and>
                (\<forall>i. member_at (mem w3) b i = member_at (mem w2) b i) \<and>
                map_option (\<lambda>m. f_data (Member.data m)) (member_at (mem w2) a 0) =
                  Some (f32_of_int 1) \<and>
                map_option (\<lambda>m. f_data (Member.data m)) (member_at (mem w2) a 1) =
                  Some (f32_of_int 3) \<and>
                map_option (\<lambda>m. f_data (Member.data m)) (member_at (mem w2) b 0) =
                  Some (f32_of_int 2) \<and>
                map_option (\<lambda>m. f_data (Member.data m)) (member_at (mem w2) b 1) =
                  Some (f32_of_int 4) \<and>
                trace w3 = [Call_unary addr_vec2_ctor a, Call_unary addr_vec2_ctor b,
                            Call_binary addr_vec2_add a b])))"
  unfolding f32_add_values
  by (simp add: sum_defs f32_of_int_values f32_add_values [unfolded f32_of_int_values]
      f_data_set_f_data upt_0_2 replicate_numeral del: bit_length.simps)

text \<open>
  C9. The test creates \<open>a = (1, 3)\<close> and \<open>b = (2, 4)\<close>, each with the binary function
  \<^verbatim>\<open>vec2_add\<close> at index 0 of its function table, and invokes that function on \<open>a\<close>
  with \<open>b\<close>. Whatever indeterminate memory holds, the three calls return; the third
  returns a third instance \<open>c\<close> with two members, whose \<^verbatim>\<open>f_data\<close> are the
  \<^verbatim>\<open>float\<close> values 3 and 7; every index of \<open>a\<close> and of \<open>b\<close> resolves after the call
  to the member it resolved to before, and these are 1 and 3 for \<open>a\<close>, 2 and 4 for
  \<open>b\<close>.
\<close>

theorem vec2_sum_scenario:
  "\<exists>w1 w2 w3.
     create_vec2 vec2_env (f32_of_int 1) (f32_of_int 3) (test_world jc jm jf) =
       Some (Ptr 6, w1) \<and>
     create_vec2 vec2_env (f32_of_int 2) (f32_of_int 4) w1 = Some (Ptr 17, w2) \<and>
     class_invoke_function vec2_env (Ptr 6) (Ptr 17) 0 w2 = Some (Ptr 28, w3) \<and>
     test_vec2_class_sum (test_world jc jm jf) = Some ((Ptr 6, Ptr 17, Ptr 28), w3) \<and>
     class_get_num_members (mem w3) (Ptr 28) = Some 2 \<and>
     map_option (\<lambda>m. f_data (Member.data m)) (member_at (mem w3) (Ptr 28) 0) =
       Some (f32_of_int 3) \<and>
     map_option (\<lambda>m. f_data (Member.data m)) (member_at (mem w3) (Ptr 28) 1) =
       Some (f32_of_int 7) \<and>
     map_option (\<lambda>m. f32_value (f_data (Member.data m))) (member_at (mem w3) (Ptr 28) 0) =
       Some 3 \<and>
     map_option (\<lambda>m. f32_value (f_data (Member.data m))) (member_at (mem w3) (Ptr 28) 1) =
       Some 7 \<and>
     (\<forall>i. member_at (mem w3) (Ptr 6) i = member_at (mem w2) (Ptr 6) i) \<and>
     (\<forall>i. member_at (mem w3) (Ptr 17) i = member_at (mem w2) (Ptr 17) i) \<and>
     map_option (\<lambda>m. f32_value (f_data (Member.data m))) (member_at (mem w3) (Ptr 6) 0) =
       Some 1 \<and>
     map_option (\<lambda>m. f32_value (f_data (Member.data m))) (member_at (mem w3) (Ptr 6) 1) =
       Some 3 \<and>
     map_option (\<lambda>m. f32_value (f_data (Member.data m))) (member_at (mem w3) (Ptr 17) 0) =
       Some 2 \<and>
     map_option (\<lambda>m. f32_value (f_data (Member.data m))) (member_at (mem w3) (Ptr 17) 1) =
       Some 4 \<and>
     trace w3 = [Call_unary addr_vec2_ctor (Ptr 6), Call_unary addr_vec2_ctor (Ptr 17),
                 Call_binary addr_vec2_add (Ptr 6) (Ptr 17)]"
proof -
  let ?w0 = "test_world jc jm jf"
  obtain w1 where
    r1: "create_vec2 vec2_env (f32_of_int 1) (f32_of_int 3) ?w0 = Some (Ptr 6, w1)"
    using sum_run [of jc jm jf] by (auto split: option.splits prod.splits)
  obtain w2 where
    r2: "create_vec2 vec2_env (f32_of_int 2) (f32_of_int 4) w1 = Some (Ptr 17, w2)"
    using sum_run [of jc jm jf] r1 by (auto split: option.splits prod.splits)
  obtain w3 where
    r3: "class_invoke_function vec2_env (Ptr 6) (Ptr 17) 0 w2 = Some (Ptr 28, w3)"
    using sum_run [of jc jm jf] r1 r2 by (auto split: option.splits prod.splits)
  have r: "test_vec2_class_sum ?w0 = Some ((Ptr 6, Ptr 17, Ptr 28), w3)"
    by (simp add: test_vec2_class_sum_def r1 r2 r3)
  have n: "class_get_num_members (mem w3) (Ptr 28) = Some 2"
    and c0: "map_option (\<lambda>m. f_data (Member.data m)) (member_at (mem w3) (Ptr 28) 0) =
       Some (f32_of_int 3)"
    and c1: "map_option (\<lambda>m. f_data (Member.data m)) (member_at (mem w3) (Ptr 28) 1) =
       Some (f32_of_int 7)"
    and a: "\<forall>i. member_at (mem w3) (Ptr 6) i = member_at (mem w2) (Ptr 6) i"
    and b: "\<forall>i. member_at (mem w3) (Ptr 17) i = member_at (mem w2) (Ptr 17) i"
    and a0: "map_option (\<lambda>m. f_data (Member.data m)) (member_at (mem w2) (Ptr 6) 0) =
       Some (f32_of_int 1)"
    and a1: "map_option (\<lambda>m. f_data (Member.data m)) (member_at (mem w2) (Ptr 6) 1) =
       Some (f32_of_int 3)"
    and b0: "map_option (\<lambda>m. f_data (Member.data m)) (member_at (mem w2) (Ptr 17) 0) =
       Some (f32_of_int 2)"
    and b1: "map_option (\<lambda>m. f_data (Member.data m)) (member_at (mem w2) (Ptr 17) 1) =
       Some (f32_of_int 4)"
    and t: "trace w3 = [Call_unary addr_vec2_ctor (Ptr 6), Call_unary addr_vec2_ctor (Ptr 17),
                 Call_binary addr_vec2_add (Ptr 6) (Ptr 17)]"
    using sum_run [of jc jm jf] by (simp_all add: r1 r2 r3 f32_add_values)
  have v: "\<And>x p v. map_option (\<lambda>m. f_data (Member.data m)) x = Some p \<Longrightarrow> f32_value p = v \<Longrightarrow>
             map_option (\<lambda>m. f32_value (f_data (Member.data m))) x = Some v"
    by auto
  note vc0 = v [OF c0 f32_value_values(3)] and vc1 = v [OF c1 f32_value_values(5)]
  note va0 = v [OF a0 [folded a [rule_format]] f32_value_values(1)]
    and va1 = v [OF a1 [folded a [rule_format]] f32_value_values(3)]
    and vb0 = v [OF b0 [folded b [rule_format]] f32_value_values(2)]
    and vb1 = v [OF b1 [folded b [rule_format]] f32_value_values(4)]
  show ?thesis
    apply (rule exI [of _ w1], rule exI [of _ w2], rule exI [of _ w3])
    apply (intro conjI)
    apply (fact r1 r2 r3 r n c0 c1 vc0 vc1 a b va0 va1 vb0 vb1 t)+
    done
qed

theorem vec2_sum_scenario_witness:
  "fst (the (test_vec2_class_sum \<lparr>mem = empty_store 15, trace = []\<rparr>)) =
     (Ptr 6, Ptr 17, Ptr 28) \<and>
   map_option (\<lambda>m. f32_value (f_data (Member.data m)))
     (member_at (mem (snd (the (test_vec2_class_sum \<lparr>mem = empty_store 15, trace = []\<rparr>))))
        (Ptr 28) 0) = Some 3 \<and>
   map_option (\<lambda>m. f32_value (f_data (Member.data m)))
     (member_at (mem (snd (the (test_vec2_class_sum \<lparr>mem = empty_store 15, trace = []\<rparr>))))
        (Ptr 28) 1) = Some 7"
proof -
  have w: "test_world (junk_Class (empty_store 15)) (junk_Member (empty_store 15))
             (junk_Function (empty_store 15)) = \<lparr>mem = empty_store 15, trace = []\<rparr>"
    by (simp add: test_world_def)
  from vec2_sum_scenario [of "junk_Class (empty_store 15)" "junk_Member (empty_store 15)"
      "junk_Function (empty_store 15)"]
  show ?thesis
    unfolding w by auto
qed

end
